theory Spec2Isabelle
  imports Complex_Main
begin

section \<open>Python values\<close>

text \<open>
  Python integers are unbounded: they are \<open>int\<close>. A Python float is the real number
  it holds; infinities and NaN are outside the model. The navigation, where the rounding
  of a sum decides whether a step crosses a boundary, computes in the arithmetic of
  doubles (\<open>double\<close> below); the other operations on floats are exact. Every exception
  the modelled code can raise is a value of \<open>py_error\<close>.
\<close>

datatype py_error = IndexError | AttributeError | KeyError

text \<open>
  Indexing a Python list: an index \<open>i\<close> with \<open>-len \<le> i < 0\<close> counts from the end, any
  index outside \<open>[-len, len)\<close> raises IndexError. \<open>py_index\<close> gives the position read or
  written.
\<close>

definition py_index :: "'a list \<Rightarrow> int \<Rightarrow> nat option" where
  "py_index xs i =
     (let n = int (length xs); j = (if i < 0 then n + i else i)
      in if 0 \<le> j \<and> j < n then Some (nat j) else None)"

text \<open>\<open>int(x)\<close> on a float truncates toward zero.\<close>

definition py_int :: "real \<Rightarrow> int" where
  "py_int x = (if 0 \<le> x then \<lfloor>x\<rfloor> else \<lceil>x\<rceil>)"

text \<open>\<open>round(x)\<close> on a float rounds to the nearest integer, a tie to the even one.\<close>

definition py_round :: "real \<Rightarrow> int" where
  "py_round x =
     (let f = \<lfloor>x\<rfloor>; d = x - of_int f
      in if d < 1 / 2 then f else if 1 / 2 < d then f + 1
         else if even f then f else f + 1)"

text \<open>
  The double nearest to a real number, a tie going to the even significand (IEEE 754
  round to nearest even): a number in \<open>[2^k, 2^(k+1))\<close> is rounded to a multiple of
  \<open>2^(k-52)\<close>. Overflow and subnormal numbers do not arise in a navigation. Each
  operation \<open>+\<close>, \<open>-\<close>, \<open>*\<close>, \<open>/\<close>, \<open>** 2\<close> and \<open>math.sqrt\<close> on doubles returns the
  double nearest to its exact result.
\<close>

definition double :: "real \<Rightarrow> real" where
  "double x =
     (if x = 0 then 0
      else (let e = \<lfloor>log 2 \<bar>x\<bar>\<rfloor> - 52
            in real_of_int (py_round (x / 2 powr real_of_int e)) * 2 powr real_of_int e))"

subsection \<open>The shared random stream\<close>

text \<open>
  The module \<open>random\<close> is one global pseudo-random stream. It is modelled by an arbitrary
  infinite sequence of raw draws, threaded through every function that draws from it;
  each call consumes one raw draw. \<open>random.random()\<close> is a multiple of \<open>2^-53\<close> in
  \<open>[0, 1)\<close>, \<open>random.randint(a, b)\<close> an integer of \<open>[a, b]\<close>,
  \<open>random.uniform(a, b)\<close> is \<open>a + (b - a) * random()\<close>, and \<open>random.choice\<close> picks an
  index below the length.
\<close>

type_synonym rng = "nat \<Rightarrow> nat"

definition rng_next :: "rng \<Rightarrow> nat \<times> rng" where
  "rng_next g = (g 0, \<lambda>i. g (Suc i))"

definition random_random :: "rng \<Rightarrow> real \<times> rng" where
  "random_random g =
     (let (n, g') = rng_next g in (real (n mod 2 ^ 53) / 2 ^ 53, g'))"

definition random_randint :: "int \<Rightarrow> int \<Rightarrow> rng \<Rightarrow> int \<times> rng" where
  "random_randint a b g =
     (let (n, g') = rng_next g in (a + int n mod (b - a + 1), g'))"

definition random_uniform :: "real \<Rightarrow> real \<Rightarrow> rng \<Rightarrow> real \<times> rng" where
  "random_uniform a b g =
     (let (r, g') = random_random g in (a + (b - a) * r, g'))"

section \<open>enterprise.py\<close>

datatype ShipSystem =
    WARP_ENGINES | SHORT_RANGE_SENSORS | LONG_RANGE_SENSORS | PHASER_CONTROL
  | PHOTON_TUBES | DAMAGE_CONTROL | SHIELD_CONTROL | LIBRARY_COMPUTER

definition ShipSystem_list :: "ShipSystem list" where
  "ShipSystem_list =
     [WARP_ENGINES, SHORT_RANGE_SENSORS, LONG_RANGE_SENSORS, PHASER_CONTROL,
      PHOTON_TUBES, DAMAGE_CONTROL, SHIELD_CONTROL, LIBRARY_COMPUTER]"

text \<open>\<open>random.choice(list(ShipSystem))\<close>\<close>

definition random_choice_system :: "rng \<Rightarrow> ShipSystem \<times> rng" where
  "random_choice_system g =
     (let (n, g') = rng_next g in (ShipSystem_list ! (n mod 8), g'))"

datatype Condition = GREEN | YELLOW | RED | DOCKED

text \<open>
  The dataclass \<open>Enterprise\<close>. The dict \<open>damage\<close> is created with all eight systems as
  keys (\<open>__post_init__\<close>, \<open>reset\<close>) and no key is ever removed, so it is a total function
  on \<open>ShipSystem\<close>.
\<close>

record Enterprise =
  quadrant_row :: int
  quadrant_col :: int
  sector_row :: int
  sector_col :: int
  energy :: int
  max_energy :: int
  torpedoes :: int
  max_torpedoes :: int
  shields :: int
  docked :: bool
  destroyed :: bool
  damage :: "ShipSystem \<Rightarrow> real"

text \<open>\<open>Enterprise()\<close>: the field defaults, then \<open>__post_init__\<close>.\<close>

definition new_Enterprise :: Enterprise where
  "new_Enterprise =
     \<lparr>quadrant_row = 0, quadrant_col = 0, sector_row = 0, sector_col = 0,
      energy = 3000, max_energy = 3000, torpedoes = 10, max_torpedoes = 10,
      shields = 0, docked = False, destroyed = False, damage = (\<lambda>_. 0)\<rparr>"

definition dock :: "Enterprise \<Rightarrow> Enterprise" where
  "dock e = e\<lparr>docked := True, energy := max_energy e,
              torpedoes := max_torpedoes e, shields := 0\<rparr>"

definition undock :: "Enterprise \<Rightarrow> Enterprise" where
  "undock e = e\<lparr>docked := False\<rparr>"


definition get_condition :: "Enterprise \<Rightarrow> int \<Rightarrow> Condition" where
  "get_condition e klingons_in_quadrant =
     (if docked e then DOCKED
      else if klingons_in_quadrant > 0 then RED
      else if real_of_int (energy e) < real_of_int (max_energy e) * 0.1 then YELLOW
      else GREEN)"

definition is_system_damaged :: "Enterprise \<Rightarrow> ShipSystem \<Rightarrow> bool" where
  "is_system_damaged e system = (damage e system < 0)"

text \<open>
  \<open>apply_damage\<close>: the returned message is left out. The three draws of the
  system-damage roll are made in the source's order.
\<close>

definition apply_damage :: "Enterprise \<Rightarrow> int \<Rightarrow> rng \<Rightarrow> Enterprise \<times> rng" where
  "apply_damage e amount g =
     (let (e1, amount1) =
            (if shields e > 0 then
               (if shields e \<ge> amount
                then (e\<lparr>shields := shields e - amount\<rparr>, 0)
                else (e\<lparr>shields := 0\<rparr>, amount - shields e))
             else (e, amount));
          (e2, g2) =
            (if amount1 > 0 then
               (let e' = e1\<lparr>energy := energy e1 - amount1\<rparr>;
                    (r, g') = random_random g
                in if r < 0.6 then
                     (let (system, g'') = random_choice_system g';
                          (damage_amount, g''') = random_uniform (- 0.5) (- 3.0) g''
                      in (e'\<lparr>damage := (damage e')
                                (system := damage e' system + damage_amount)\<rparr>, g'''))
                   else (e', g'))
             else (e1, g))
      in (if energy e2 \<le> 0 then e2\<lparr>destroyed := True\<rparr> else e2, g2))"

text \<open>
  \<open>repair_systems\<close>: the loop over the eight systems updates each entry on its own, so it
  is one pointwise update of the damage map; the list of repaired systems is returned.
\<close>

definition repair_systems :: "Enterprise \<Rightarrow> real \<Rightarrow> ShipSystem list \<times> Enterprise" where
  "repair_systems e time_elapsed =
     (let repair_rate = (if docked e then 1.0 else 0.1);
          upd = (\<lambda>s. if damage e s < 0
                      then (if damage e s + repair_rate * time_elapsed \<ge> 0 then 0
                            else damage e s + repair_rate * time_elapsed)
                      else damage e s)
      in (filter (\<lambda>s. damage e s < 0 \<and> damage e s + repair_rate * time_elapsed \<ge> 0)
            ShipSystem_list,
          e\<lparr>damage := upd\<rparr>))"

definition use_energy :: "Enterprise \<Rightarrow> int \<Rightarrow> bool \<times> Enterprise" where
  "use_energy e amount =
     (if energy e \<ge> amount then (True, e\<lparr>energy := energy e - amount\<rparr>)
      else (False, e))"

definition transfer_to_shields :: "Enterprise \<Rightarrow> int \<Rightarrow> bool \<times> Enterprise" where
  "transfer_to_shields e amount =
     (if amount < 0 then
        (let transfer = min (- amount) (shields e)
         in (True, e\<lparr>shields := shields e - transfer, energy := energy e + transfer\<rparr>))
      else if amount \<le> energy e then
        (True, e\<lparr>energy := energy e - amount, shields := shields e + amount\<rparr>)
      else (False, e))"

text \<open>\<open>Enterprise.fire_torpedo\<close> (the method; \<open>combat.fire_torpedo\<close> is below).\<close>

definition ship_fire_torpedo :: "Enterprise \<Rightarrow> bool \<times> Enterprise" where
  "ship_fire_torpedo e =
     (if torpedoes e > 0 then (True, e\<lparr>torpedoes := torpedoes e - 1\<rparr>) else (False, e))"

definition set_position :: "Enterprise \<Rightarrow> int \<Rightarrow> int \<Rightarrow> int \<Rightarrow> int \<Rightarrow> Enterprise" where
  "set_position e quad_row quad_col sect_row sect_col =
     e\<lparr>quadrant_row := quad_row, quadrant_col := quad_col,
       sector_row := sect_row, sector_col := sect_col\<rparr>"

definition total_energy :: "Enterprise \<Rightarrow> int" where
  "total_energy e = energy e + shields e"

definition can_warp :: "Enterprise \<Rightarrow> bool" where
  "can_warp e = (\<not> is_system_damaged e WARP_ENGINES)"



definition can_fire_phasers :: "Enterprise \<Rightarrow> bool" where
  "can_fire_phasers e = (\<not> is_system_damaged e PHASER_CONTROL)"

definition can_fire_torpedoes :: "Enterprise \<Rightarrow> bool" where
  "can_fire_torpedoes e = (\<not> is_system_damaged e PHOTON_TUBES)"

definition can_use_shields :: "Enterprise \<Rightarrow> bool" where
  "can_use_shields e = (\<not> is_system_damaged e SHIELD_CONTROL)"


section \<open>galaxy.py\<close>

datatype EntityType = EMPTY | ENTERPRISE | KLINGON | STARBASE | STAR

text \<open>
  The dataclass \<open>Klingon\<close>; its fields carry the prefix \<open>k_\<close>, the names without it
  being the ship's. \<open>new_Klingon\<close> is the constructor call \<open>Klingon(row, col)\<close>: the
  energy defaults to 0, which \<open>__post_init__\<close> replaces by a draw.
\<close>

record Klingon =
  k_sector_row :: int
  k_sector_col :: int
  k_energy :: int

definition new_Klingon :: "int \<Rightarrow> int \<Rightarrow> rng \<Rightarrow> Klingon \<times> rng" where
  "new_Klingon r c g =
     (let (n, g') = random_randint 0 299 g
      in (\<lparr>k_sector_row = r, k_sector_col = c, k_energy = 300 + n\<rparr>, g'))"

record Quadrant =
  row :: int
  col :: int
  klingons :: int
  starbases :: int
  stars :: int
  scanned :: bool
  sector_map :: "EntityType list list"
  klingon_ships :: "Klingon list"
  starbase_pos :: "(int \<times> int) option"
  star_positions :: "(int \<times> int) list"

text \<open>\<open>Quadrant(row, col)\<close>\<close>

definition new_Quadrant :: "int \<Rightarrow> int \<Rightarrow> Quadrant" where
  "new_Quadrant r c =
     \<lparr>row = r, col = c, klingons = 0, starbases = 0, stars = 0, scanned = False,
      sector_map = [], klingon_ships = [], starbase_pos = None, star_positions = []\<rparr>"

definition get_lrs_value :: "Quadrant \<Rightarrow> int" where
  "get_lrs_value q = klingons q * 100 + starbases q * 10 + stars q"

text \<open>
  \<open>sector_map[row][col]\<close> and \<open>sector_map[row][col] = v\<close> where the source does not
  check the indices first.
\<close>

definition sector_get :: "EntityType list list \<Rightarrow> int \<Rightarrow> int \<Rightarrow> py_error + EntityType" where
  "sector_get m r c =
     (case py_index m r of
        None \<Rightarrow> Inl IndexError
      | Some i \<Rightarrow>
          (case py_index (m ! i) c of
             None \<Rightarrow> Inl IndexError
           | Some j \<Rightarrow> Inr (m ! i ! j)))"

definition sector_set ::
  "EntityType list list \<Rightarrow> int \<Rightarrow> int \<Rightarrow> EntityType \<Rightarrow> py_error + EntityType list list" where
  "sector_set m r c v =
     (case py_index m r of
        None \<Rightarrow> Inl IndexError
      | Some i \<Rightarrow>
          (case py_index (m ! i) c of
             None \<Rightarrow> Inl IndexError
           | Some j \<Rightarrow> Inr (m[i := (m ! i)[j := v]])))"

text \<open>A sector map as \<open>initialize_sector_map\<close> builds it: 8 rows of 8 cells.\<close>

definition sector_map_ok :: "EntityType list list \<Rightarrow> bool" where
  "sector_map_ok m = (length m = 8 \<and> list_all (\<lambda>cells. length cells = 8) m)"

text \<open>
  \<open>_find_empty_sector\<close>: the loop \<open>while True\<close> redraws until the cell is empty, and
  never returns on a map with no empty cell or on a stream that never draws one: the
  value \<open>None\<close>. It is called on a map of 8 rows of 8 cells only, where the indices
  drawn from \<open>[0, 7]\<close> are in range.
\<close>

partial_function (option) find_empty_sector ::
  "EntityType list list \<Rightarrow> rng \<Rightarrow> ((int \<times> int) \<times> rng) option" where
  "find_empty_sector m g =
     (let (r, g1) = random_randint 0 7 g;
          (c, g2) = random_randint 0 7 g1
      in if m ! nat r ! nat c = EMPTY then Some ((r, c), g2)
         else find_empty_sector m g2)"

text \<open>
  The three placement loops of \<open>initialize_sector_map\<close>; the counter is the number of
  iterations left (\<open>range(n)\<close> is empty for \<open>n \<le> 0\<close>).
\<close>

fun place_klingons :: "nat \<Rightarrow> Quadrant \<Rightarrow> rng \<Rightarrow> (Quadrant \<times> rng) option" where
  "place_klingons 0 q g = Some (q, g)"
| "place_klingons (Suc n) q g =
     (case find_empty_sector (sector_map q) g of
        None \<Rightarrow> None
      | Some ((r, c), g1) \<Rightarrow>
          (let (k, g2) = new_Klingon r c g1
           in place_klingons n
                (q\<lparr>sector_map := (sector_map q)[nat r := (sector_map q ! nat r)[nat c := KLINGON]],
                   klingon_ships := klingon_ships q @ [k]\<rparr>) g2))"

fun place_stars :: "nat \<Rightarrow> Quadrant \<Rightarrow> rng \<Rightarrow> (Quadrant \<times> rng) option" where
  "place_stars 0 q g = Some (q, g)"
| "place_stars (Suc n) q g =
     (case find_empty_sector (sector_map q) g of
        None \<Rightarrow> None
      | Some ((r, c), g1) \<Rightarrow>
          place_stars n
            (q\<lparr>sector_map := (sector_map q)[nat r := (sector_map q ! nat r)[nat c := STAR]],
               star_positions := star_positions q @ [(r, c)]\<rparr>) g1)"

definition place_starbase :: "Quadrant \<Rightarrow> rng \<Rightarrow> (Quadrant \<times> rng) option" where
  "place_starbase q g =
     (if starbases q > 0 then
        (case find_empty_sector (sector_map q) g of
           None \<Rightarrow> None
         | Some ((r, c), g1) \<Rightarrow>
             Some (q\<lparr>sector_map := (sector_map q)[nat r := (sector_map q ! nat r)[nat c := STARBASE]],
                     starbase_pos := Some (r, c)\<rparr>, g1))
      else Some (q, g))"

definition initialize_sector_map :: "Quadrant \<Rightarrow> rng \<Rightarrow> (Quadrant \<times> rng) option" where
  "initialize_sector_map q g =
     (let q0 = q\<lparr>sector_map := replicate 8 (replicate 8 EMPTY), klingon_ships := [],
                 star_positions := [], starbase_pos := None\<rparr>
      in case place_klingons (nat (klingons q0)) q0 g of
           None \<Rightarrow> None
         | Some (q1, g1) \<Rightarrow>
             (case place_starbase q1 g1 of
                None \<Rightarrow> None
              | Some (q2, g2) \<Rightarrow> place_stars (nat (stars q2)) q2 g2))"

text \<open>
  \<open>place_enterprise\<close>: the outcome is \<open>None\<close> when a placement loop never returns;
  otherwise it holds the position returned, or the exception an unchecked index raises,
  with the quadrant and the stream as the call leaves them.
\<close>

definition place_enterprise ::
  "Quadrant \<Rightarrow> int \<Rightarrow> int \<Rightarrow> rng \<Rightarrow> ((py_error + (int \<times> int)) \<times> Quadrant \<times> rng) option" where
  "place_enterprise q r c g =
     (case (if sector_map q = [] then initialize_sector_map q g else Some (q, g)) of
        None \<Rightarrow> None
      | Some (q1, g1) \<Rightarrow>
          (case sector_get (sector_map q1) r c of
             Inl err \<Rightarrow> Some (Inl err, q1, g1)
           | Inr ent \<Rightarrow>
               (case (if ent \<noteq> EMPTY then find_empty_sector (sector_map q1) g1
                      else Some ((r, c), g1)) of
                  None \<Rightarrow> None
                | Some ((r', c'), g2) \<Rightarrow>
                    (case sector_set (sector_map q1) r' c' ENTERPRISE of
                       Inl err \<Rightarrow> Some (Inl err, q1, g2)
                     | Inr m' \<Rightarrow> Some (Inr (r', c'), q1\<lparr>sector_map := m'\<rparr>, g2)))))"

definition remove_enterprise :: "Quadrant \<Rightarrow> int \<Rightarrow> int \<Rightarrow> Quadrant" where
  "remove_enterprise q r c =
     (if sector_map q \<noteq> [] \<and> 0 \<le> r \<and> r < 8 \<and> 0 \<le> c \<and> c < 8 then
        (if sector_map q ! nat r ! nat c = ENTERPRISE
         then q\<lparr>sector_map := (sector_map q)[nat r := (sector_map q ! nat r)[nat c := EMPTY]]\<rparr>
         else q)
      else q)"

text \<open>
  \<open>remove_klingon\<close> reads and writes \<open>sector_map[row][col]\<close> with no check of the
  indices or of the map: both raise where the index is out of range, and a negative index
  counts from the end.
\<close>

definition remove_klingon :: "Quadrant \<Rightarrow> int \<Rightarrow> int \<Rightarrow> py_error + (bool \<times> Quadrant)" where
  "remove_klingon q r c =
     (case sector_get (sector_map q) r c of
        Inl e \<Rightarrow> Inl e
      | Inr ent \<Rightarrow>
          if ent = KLINGON then
            (case sector_set (sector_map q) r c EMPTY of
               Inl e \<Rightarrow> Inl e
             | Inr m' \<Rightarrow>
                 Inr (True,
                   q\<lparr>sector_map := m',
                     klingon_ships :=
                       filter (\<lambda>k. \<not> (k_sector_row k = r \<and> k_sector_col k = c)) (klingon_ships q),
                     klingons := klingons q - 1\<rparr>))
          else Inr (False, q))"

definition get_entity_at :: "Quadrant \<Rightarrow> int \<Rightarrow> int \<Rightarrow> EntityType" where
  "get_entity_at q r c =
     (if sector_map q \<noteq> [] \<and> 0 \<le> r \<and> r < 8 \<and> 0 \<le> c \<and> c < 8
      then sector_map q ! nat r ! nat c else EMPTY)"

definition is_adjacent_to_starbase :: "Quadrant \<Rightarrow> int \<Rightarrow> int \<Rightarrow> bool" where
  "is_adjacent_to_starbase q r c =
     (case starbase_pos q of
        None \<Rightarrow> False
      | Some (sb_row, sb_col) \<Rightarrow> \<bar>r - sb_row\<bar> \<le> 1 \<and> \<bar>c - sb_col\<bar> \<le> 1)"

text \<open>
  The class \<open>Galaxy\<close>. \<open>quadrants\<close> is built as 8 rows of 8 quadrants and never resized.
  A quadrant object is reached through \<open>quadrants[row][col]\<close> only, so a mutation through
  such a reference is the update \<open>set_quadrant\<close> of the grid.
\<close>

record Galaxy =
  quadrants :: "Quadrant list list"
  total_klingons :: int
  total_starbases :: int
  initial_klingons :: int
  stardate :: real
  time_limit :: int

definition set_quadrant :: "Galaxy \<Rightarrow> nat \<Rightarrow> nat \<Rightarrow> Quadrant \<Rightarrow> Galaxy" where
  "set_quadrant gal r c q = gal\<lparr>quadrants := (quadrants gal)[r := (quadrants gal ! r)[c := q]]\<rparr>"

definition galaxy_ok :: "Galaxy \<Rightarrow> bool" where
  "galaxy_ok gal =
     (length (quadrants gal) = 8 \<and> list_all (\<lambda>qs. length qs = 8) (quadrants gal))"

text \<open>The sum of a per-quadrant count over all quadrants of the galaxy.\<close>

definition quadrant_sum :: "(Quadrant \<Rightarrow> int) \<Rightarrow> Galaxy \<Rightarrow> int" where
  "quadrant_sum f gal = sum_list (map (\<lambda>qs. sum_list (map f qs)) (quadrants gal))"

text \<open>
  \<open>Galaxy._initialize\<close>. \<open>init_cell\<close> is the body of the nested loops
  \<open>for row in range(8): for col in range(8)\<close>, \<open>init_cells\<close> runs it over the cells in
  the loops' order, \<open>grid_cells\<close>.
\<close>

definition grid_cells :: "(nat \<times> nat) list" where
  "grid_cells = concat (map (\<lambda>r. map (\<lambda>c. (r, c)) [0..<8]) [0..<8])"

definition init_cell :: "Galaxy \<Rightarrow> nat \<Rightarrow> nat \<Rightarrow> rng \<Rightarrow> Galaxy \<times> rng" where
  "init_cell gal r c g =
     (let quadrant = quadrants gal ! r ! c;
          (x, g1) = random_random g;
          quadrant1 = quadrant\<lparr>klingons :=
            (if x < 0.08 then 3 else if x < 0.20 then 2 else if x < 0.50 then 1 else 0)\<rparr>;
          gal1 = gal\<lparr>total_klingons := total_klingons gal + klingons quadrant1\<rparr>;
          (y, g2) = random_random g1;
          (quadrant2, gal2) =
            (if y < 0.04
             then (quadrant1\<lparr>starbases := 1\<rparr>, gal1\<lparr>total_starbases := total_starbases gal1 + 1\<rparr>)
             else (quadrant1, gal1));
          (n, g3) = random_randint 1 8 g2
      in (set_quadrant gal2 r c (quadrant2\<lparr>stars := n\<rparr>), g3))"

fun init_cells :: "(nat \<times> nat) list \<Rightarrow> Galaxy \<Rightarrow> rng \<Rightarrow> Galaxy \<times> rng" where
  "init_cells [] gal g = (gal, g)"
| "init_cells ((r, c) # cells) gal g =
     (let (gal1, g1) = init_cell gal r c g in init_cells cells gal1 g1)"

text \<open>\<open>if self.total_starbases == 0\<close>: one starbase is forced into a drawn quadrant.\<close>

definition ensure_starbase :: "Galaxy \<Rightarrow> rng \<Rightarrow> Galaxy \<times> rng" where
  "ensure_starbase gal g =
     (if total_starbases gal = 0 then
        (let (r, g1) = random_randint 0 7 g;
             (c, g2) = random_randint 0 7 g1;
             gal1 = set_quadrant gal (nat r) (nat c)
                      ((quadrants gal ! nat r ! nat c)\<lparr>starbases := 1\<rparr>)
         in (gal1\<lparr>total_starbases := 1\<rparr>, g2))
      else (gal, g))"

text \<open>
  \<open>while self.total_klingons < 10\<close>: the loop does not return on a stream that keeps
  drawing quadrants which already hold 3 Klingons: the value \<open>None\<close>.
\<close>

partial_function (option) ensure_min_klingons :: "Galaxy \<Rightarrow> rng \<Rightarrow> (Galaxy \<times> rng) option" where
  "ensure_min_klingons gal g =
     (if total_klingons gal < 10 then
        (let (r, g1) = random_randint 0 7 g;
             (c, g2) = random_randint 0 7 g1;
             q = quadrants gal ! nat r ! nat c
         in if klingons q < 3
            then ensure_min_klingons
                   ((set_quadrant gal (nat r) (nat c) (q\<lparr>klingons := klingons q + 1\<rparr>))
                      \<lparr>total_klingons := total_klingons gal + 1\<rparr>) g2
            else ensure_min_klingons gal g2)
      else Some (gal, g))"

definition Galaxy_initialize :: "Galaxy \<Rightarrow> rng \<Rightarrow> (Galaxy \<times> rng) option" where
  "Galaxy_initialize gal0 g =
     (let gal1 = gal0\<lparr>quadrants := map (\<lambda>r. map (\<lambda>c. new_Quadrant r c) [0..7]) [0..7],
                      total_klingons := 0, total_starbases := 0\<rparr>;
          (gal2, g2) = init_cells grid_cells gal1 g;
          (gal3, g3) = ensure_starbase gal2 g2
      in case ensure_min_klingons gal3 g3 of
           None \<Rightarrow> None
         | Some (gal4, g4) \<Rightarrow>
             (let gal5 = gal4\<lparr>initial_klingons := total_klingons gal4\<rparr>;
                  (n, g5) = random_randint 20 40 g4;
                  (m, g6) = random_randint 0 10 g5
              in Some (gal5\<lparr>stardate := real_of_int n * 100.0, time_limit := 25 + m\<rparr>, g6)))"

text \<open>\<open>Galaxy()\<close>: \<open>__init__\<close> sets the fields, then calls \<open>_initialize\<close>.\<close>

definition new_Galaxy :: "rng \<Rightarrow> (Galaxy \<times> rng) option" where
  "new_Galaxy g =
     Galaxy_initialize
       \<lparr>quadrants = [], total_klingons = 0, total_starbases = 0, initial_klingons = 0,
        stardate = 0.0, time_limit = 0\<rparr> g"

definition get_quadrant :: "Galaxy \<Rightarrow> int \<Rightarrow> int \<Rightarrow> Quadrant option" where
  "get_quadrant gal r c =
     (if 0 \<le> r \<and> r < 8 \<and> 0 \<le> c \<and> c < 8 then Some (quadrants gal ! nat r ! nat c) else None)"




definition klingon_destroyed :: "Galaxy \<Rightarrow> Galaxy" where
  "klingon_destroyed gal = gal\<lparr>total_klingons := total_klingons gal - 1\<rparr>"

text \<open>\<open>starbase_destroyed\<close> indexes \<open>quadrants[row][col]\<close> with no check.\<close>

definition starbase_destroyed :: "Galaxy \<Rightarrow> int \<Rightarrow> int \<Rightarrow> py_error + Galaxy" where
  "starbase_destroyed gal r c =
     (case py_index (quadrants gal) r of
        None \<Rightarrow> Inl IndexError
      | Some i \<Rightarrow>
          (case py_index (quadrants gal ! i) c of
             None \<Rightarrow> Inl IndexError
           | Some j \<Rightarrow>
               (let q = quadrants gal ! i ! j
                in if starbases q > 0
                   then Inr ((set_quadrant gal i j (q\<lparr>starbases := starbases q - 1\<rparr>))
                               \<lparr>total_starbases := total_starbases gal - 1\<rparr>)
                   else Inr gal)))"

definition advance_time :: "Galaxy \<Rightarrow> real \<Rightarrow> Galaxy" where
  "advance_time gal days = gal\<lparr>stardate := stardate gal + days\<rparr>"

definition is_game_won :: "Galaxy \<Rightarrow> bool" where
  "is_game_won gal = (total_klingons gal \<le> 0)"

section \<open>combat.py\<close>

text \<open>
  The text of a message is left out of the model: a message is the tag of the
  \<open>return\<close> statement that builds it.
\<close>

datatype message =
    Phaser_control_damaged | Invalid_phaser_energy | Insufficient_energy | No_klingons
  | Phasers_overheated | Phasers_fired
  | Photon_tubes_damaged | No_torpedoes | Invalid_direction | Failed_to_fire
  | Torpedo_left_quadrant | Torpedo_hit_klingon | Torpedo_hit_star
  | Torpedo_hit_starbase | Torpedo_no_target
  | Warp_engines_damaged | Invalid_course | Invalid_course_input | Invalid_warp
  | Invalid_warp_input | Navigation_cancelled | Galactic_barrier | Warp_engaged
  | Short_range_sensors_damaged | Short_range_scan
  | Long_range_sensors_damaged | Long_range_scan "int option list list"
  | Invalid_energy_amount | Phasers_not_fired
  | Shield_control_damaged | No_change_to_shields | Cannot_transfer_more_than_shields
  | Shield_energy_now
  | Damage_report | Library_computer_damaged | Invalid_function | Computer_report
  | Game_terminated | Returning_to_game

record CombatResult =
  success :: bool
  message :: message
  klingons_destroyed :: int
  damage_dealt :: "(int \<times> int \<times> int) list"

definition calculate_distance :: "int \<Rightarrow> int \<Rightarrow> int \<Rightarrow> int \<Rightarrow> real" where
  "calculate_distance row1 col1 row2 col2 =
     sqrt (real_of_int ((row1 - row2) ^ 2 + (col1 - col2) ^ 2))"

text \<open>
  The loop \<open>for klingon in klingons\<close> of \<open>fire_phasers\<close>. It returns the ships with the
  energy of the damaged ones reduced in place, the list \<open>klingons_to_remove\<close>, the list
  \<open>damage_dealt\<close> and the stream.
\<close>

fun phaser_hits ::
  "Enterprise \<Rightarrow> real \<Rightarrow> Klingon list \<Rightarrow> rng
     \<Rightarrow> Klingon list \<times> Klingon list \<times> (int \<times> int \<times> int) list \<times> rng" where
  "phaser_hits e energy_per_target [] g = ([], [], [], g)"
| "phaser_hits e energy_per_target (k # ks) g =
     (let d = calculate_distance (sector_row e) (sector_col e) (k_sector_row k) (k_sector_col k);
          distance = (if d < 0.1 then 0.1 else d);
          (random_multiplier, g1) = random_uniform 2.0 3.0 g;
          dmg = py_int ((energy_per_target / distance) * random_multiplier);
          (ks', klingons_to_remove, dealt, g2) = phaser_hits e energy_per_target ks g1
      in if dmg \<ge> k_energy k
         then (k # ks', k # klingons_to_remove,
               (k_sector_row k, k_sector_col k, dmg) # dealt, g2)
         else (k\<lparr>k_energy := k_energy k - dmg\<rparr> # ks', klingons_to_remove,
               (k_sector_row k, k_sector_col k, dmg) # dealt, g2))"

text \<open>
  The loop \<open>for klingon in klingons_to_remove\<close>; an exception of \<open>remove_klingon\<close> ends
  it, the quadrant keeping the removals already made.
\<close>

fun remove_klingons :: "Quadrant \<Rightarrow> Klingon list \<Rightarrow> py_error option \<times> Quadrant" where
  "remove_klingons q [] = (None, q)"
| "remove_klingons q (k # ks) =
     (case remove_klingon q (k_sector_row k) (k_sector_col k) of
        Inl err \<Rightarrow> (Some err, q)
      | Inr (_, q') \<Rightarrow> remove_klingons q' ks)"

text \<open>
  \<open>fire_phasers\<close> returns the result or the exception raised, with the ship, the
  quadrant and the stream as the call leaves them.

  On overheating the source assigns
  \<open>enterprise.damage[enterprise.damage.__class__.PHASER_CONTROL] = -random.uniform(1.0, 3.0)\<close>.
  The right-hand side is evaluated first and consumes a draw. Then the target is
  evaluated: \<open>enterprise.damage\<close> is a dict, \<open>enterprise.damage.__class__\<close> is the class
  \<open>dict\<close>, which has no attribute \<open>PHASER_CONTROL\<close>, so the attribute lookup raises
  AttributeError. The assignment and the \<open>return\<close> that follows it are never reached.
\<close>

definition fire_phasers ::
  "Enterprise \<Rightarrow> Quadrant \<Rightarrow> int \<Rightarrow> rng
     \<Rightarrow> (py_error + CombatResult) \<times> Enterprise \<times> Quadrant \<times> rng" where
  "fire_phasers e q energy_amount g =
     (if \<not> can_fire_phasers e then
        (Inr \<lparr>success = False, message = Phaser_control_damaged,
              klingons_destroyed = 0, damage_dealt = []\<rparr>, e, q, g)
      else if energy_amount \<le> 0 then
        (Inr \<lparr>success = False, message = Invalid_phaser_energy,
              klingons_destroyed = 0, damage_dealt = []\<rparr>, e, q, g)
      else if energy_amount > energy e then
        (Inr \<lparr>success = False, message = Insufficient_energy,
              klingons_destroyed = 0, damage_dealt = []\<rparr>, e, q, g)
      else if klingon_ships q = [] then
        (Inr \<lparr>success = False, message = No_klingons,
              klingons_destroyed = 0, damage_dealt = []\<rparr>, e, q, g)
      else
        (let e1 = snd (use_energy e energy_amount);
             (overheated, g1) =
               (if energy_amount > 1500 then
                  (let overheat_chance = real_of_int (energy_amount - 1500) / 1500;
                       (x, g') = random_random g
                   in (x < overheat_chance, g'))
                else (False, g))
         in if overheated then
              (let (u, g2) = random_uniform 1.0 3.0 g1
               in (Inl AttributeError, e1, q, g2))
            else
              (let energy_per_target = real_of_int energy_amount / real (length (klingon_ships q));
                   (ks', klingons_to_remove, dealt, g2) =
                      phaser_hits e1 energy_per_target (klingon_ships q) g1;
                   (err, q') = remove_klingons (q\<lparr>klingon_ships := ks'\<rparr>) klingons_to_remove
               in case err of
                    Some x \<Rightarrow> (Inl x, e1, q', g2)
                  | None \<Rightarrow>
                      (Inr \<lparr>success = True, message = Phasers_fired,
                            klingons_destroyed = int (length klingons_to_remove),
                            damage_dealt = dealt\<rparr>, e1, q', g2))))"

text \<open>The dict \<open>direction_deltas\<close> of \<open>fire_torpedo\<close>, with the key 9.\<close>

definition torpedo_direction_deltas :: "int \<rightharpoonup> int \<times> int" where
  "torpedo_direction_deltas =
     map_of [(1, (0, 1)), (2, (- 1, 1)), (3, (- 1, 0)), (4, (- 1, - 1)), (5, (0, - 1)),
             (6, (1, - 1)), (7, (1, 0)), (8, (1, 1)), (9, (0, 1))]"

text \<open>
  The loop \<open>for step in range(15)\<close> of \<open>fire_torpedo\<close>; the counter is the number of
  steps left.
\<close>

fun torpedo_steps ::
  "nat \<Rightarrow> real \<Rightarrow> real \<Rightarrow> real \<Rightarrow> real \<Rightarrow> Quadrant \<Rightarrow> (py_error + CombatResult) \<times> Quadrant" where
  "torpedo_steps 0 current_row current_col dr dc q =
     (Inr \<lparr>success = True, message = Torpedo_no_target,
           klingons_destroyed = 0, damage_dealt = []\<rparr>, q)"
| "torpedo_steps (Suc n) current_row current_col dr dc q =
     (let current_row' = current_row + dr;
          current_col' = current_col + dc;
          r = py_round current_row';
          c = py_round current_col'
      in if r < 0 \<or> r \<ge> 8 \<or> c < 0 \<or> c \<ge> 8 then
           (Inr \<lparr>success = True, message = Torpedo_left_quadrant,
                 klingons_destroyed = 0, damage_dealt = []\<rparr>, q)
         else
           (let entity = get_entity_at q r c
            in if entity = KLINGON then
                 (case remove_klingon q r c of
                    Inl err \<Rightarrow> (Inl err, q)
                  | Inr (_, q') \<Rightarrow>
                      (Inr \<lparr>success = True, message = Torpedo_hit_klingon,
                            klingons_destroyed = 1, damage_dealt = []\<rparr>, q'))
               else if entity = STAR then
                 (Inr \<lparr>success = True, message = Torpedo_hit_star,
                       klingons_destroyed = 0, damage_dealt = []\<rparr>, q)
               else if entity = STARBASE then
                 (let q1 = q\<lparr>starbases := 0, starbase_pos := None\<rparr>
                  in case sector_set (sector_map q1) r c EMPTY of
                       Inl err \<Rightarrow> (Inl err, q1)
                     | Inr m' \<Rightarrow>
                         (Inr \<lparr>success = True, message = Torpedo_hit_starbase,
                               klingons_destroyed = 0, damage_dealt = []\<rparr>,
                          q1\<lparr>sector_map := m'\<rparr>))
               else torpedo_steps n current_row' current_col' dr dc q))"

definition fire_torpedo ::
  "Enterprise \<Rightarrow> Quadrant \<Rightarrow> real \<Rightarrow> (py_error + CombatResult) \<times> Enterprise \<times> Quadrant" where
  "fire_torpedo e q direction =
     (if \<not> can_fire_torpedoes e then
        (Inr \<lparr>success = False, message = Photon_tubes_damaged,
              klingons_destroyed = 0, damage_dealt = []\<rparr>, e, q)
      else if torpedoes e \<le> 0 then
        (Inr \<lparr>success = False, message = No_torpedoes,
              klingons_destroyed = 0, damage_dealt = []\<rparr>, e, q)
      else if direction < 1 \<or> direction > 9 then
        (Inr \<lparr>success = False, message = Invalid_direction,
              klingons_destroyed = 0, damage_dealt = []\<rparr>, e, q)
      else
        (let (fired, e1) = ship_fire_torpedo e
         in if \<not> fired then
              (Inr \<lparr>success = False, message = Failed_to_fire,
                    klingons_destroyed = 0, damage_dealt = []\<rparr>, e1, q)
            else
              (let base_dir = (if py_int direction = 9 then 1 else py_int direction);
                   fraction = direction - real_of_int (py_int direction);
                   next_dir = (if base_dir < 8 then base_dir + 1 else 1)
               in case torpedo_direction_deltas base_dir of
                    None \<Rightarrow> (Inl KeyError, e1, q)
                  | Some (dr1, dc1) \<Rightarrow>
                      (case torpedo_direction_deltas next_dir of
                         None \<Rightarrow> (Inl KeyError, e1, q)
                       | Some (dr2, dc2) \<Rightarrow>
                           (let dr = real_of_int dr1 * (1 - fraction) + real_of_int dr2 * fraction;
                                dc = real_of_int dc1 * (1 - fraction) + real_of_int dc2 * fraction;
                                step_size = 1.0;
                                (dr', dc') =
                                  (if dr \<noteq> 0 \<or> dc \<noteq> 0 then
                                     (let magnitude = sqrt (dr ^ 2 + dc ^ 2)
                                      in (dr / magnitude * step_size, dc / magnitude * step_size))
                                   else (dr, dc));
                                (res, q') = torpedo_steps 15 (real_of_int (sector_row e1))
                                              (real_of_int (sector_col e1)) dr' dc' q
                            in (res, e1, q'))))))"



text \<open>
  \<open>math.atan2(y, x)\<close> on reals: the angle of the point \<open>(x, y)\<close> in \<open>(-pi, pi]\<close>.
\<close>

definition atan2 :: "real \<Rightarrow> real \<Rightarrow> real" where
  "atan2 y x =
     (if 0 < x then arctan (y / x)
      else if x < 0 \<and> 0 \<le> y then arctan (y / x) + pi
      else if x < 0 then arctan (y / x) - pi
      else if 0 < y then pi / 2
      else if y < 0 then - pi / 2
      else 0)"

text \<open>
  \<open>calculate_torpedo_direction\<close> reads \<open>sector_row\<close> and \<open>sector_col\<close> of its first
  argument only.
\<close>

definition calculate_torpedo_direction :: "Enterprise \<Rightarrow> int \<Rightarrow> int \<Rightarrow> real" where
  "calculate_torpedo_direction e target_row target_col =
     (let dr = target_row - sector_row e;
          dc = target_col - sector_col e
      in if dr = 0 \<and> dc = 0 then 1.0
         else
           (let angle = atan2 (real_of_int (- dr)) (real_of_int dc);
                direction = 1.0 + (angle * 4.0 / pi);
                direction1 = (if direction < 1 then direction + 8 else direction);
                direction2 = (if direction1 > 9 then direction1 - 8 else direction1)
            in direction2))"

definition get_direction_to_starbase :: "Enterprise \<Rightarrow> Quadrant \<Rightarrow> (real \<times> real) option" where
  "get_direction_to_starbase e q =
     (case starbase_pos q of
        None \<Rightarrow> None
      | Some (sb_row, sb_col) \<Rightarrow>
          Some (calculate_torpedo_direction e sb_row sb_col,
                calculate_distance (sector_row e) (sector_col e) sb_row sb_col))"

section \<open>commands.py\<close>

record CommandResult =
  cmd_success :: bool
  cmd_message :: message
  time_used :: real
  trigger_klingon_attack :: bool
  quit_game :: bool

text \<open>\<open>CommandResult(success, message)\<close>, the other fields at their defaults.\<close>

definition new_CommandResult :: "bool \<Rightarrow> message \<Rightarrow> CommandResult" where
  "new_CommandResult s m =
     \<lparr>cmd_success = s, cmd_message = m, time_used = 0.0,
      trigger_klingon_attack = False, quit_game = False\<rparr>"

text \<open>
  The class \<open>CommandHandler\<close>: the galaxy and the ship. The sound system only plays
  sounds and the input function is the argument of each command: a number the input
  parses to, or \<open>None\<close> where parsing raises ValueError.
\<close>

record CommandHandler =
  galaxy :: Galaxy
  enterprise :: Enterprise

definition get_current_quadrant :: "CommandHandler \<Rightarrow> Quadrant option" where
  "get_current_quadrant h =
     get_quadrant (galaxy h) (quadrant_row (enterprise h)) (quadrant_col (enterprise h))"

text \<open>A mutation through the reference \<open>get_current_quadrant\<close> returned.\<close>

definition set_current_quadrant :: "CommandHandler \<Rightarrow> Quadrant \<Rightarrow> CommandHandler" where
  "set_current_quadrant h q =
     h\<lparr>galaxy := set_quadrant (galaxy h) (nat (quadrant_row (enterprise h)))
                   (nat (quadrant_col (enterprise h))) q\<rparr>"

text \<open>The dict \<open>direction_deltas\<close> of \<open>execute_nav\<close>: the keys 1 to 8.\<close>

definition nav_direction_deltas :: "int \<rightharpoonup> int \<times> int" where
  "nav_direction_deltas =
     map_of [(1, (0, 1)), (2, (- 1, 1)), (3, (- 1, 0)), (4, (- 1, - 1)), (5, (0, - 1)),
             (6, (1, - 1)), (7, (1, 0)), (8, (1, 1))]"

text \<open>
  The loop \<open>for _ in range(sectors_to_move)\<close> of \<open>execute_nav\<close> on the local variables
  \<open>new_sect_row\<close>, \<open>new_sect_col\<close>, \<open>new_quad_row\<close>, \<open>new_quad_col\<close> and
  \<open>crossed_quadrant\<close>. \<open>nav_step\<close> is the body of the loop up to the check of the
  galaxy boundaries: the two sums and the two wraps by 8, each rounded to a double.
  \<open>Barrier\<close> is the step that takes a quadrant coordinate outside \<open>[0, 8)\<close>, where the
  source restores the ship and returns.
\<close>

type_synonym nav_vars = "real \<times> real \<times> int \<times> int \<times> bool"

definition nav_step :: "real \<Rightarrow> real \<Rightarrow> nav_vars \<Rightarrow> nav_vars" where
  "nav_step dr dc v =
     (case v of (new_sect_row, new_sect_col, new_quad_row, new_quad_col, crossed) \<Rightarrow>
        (let sr = double (new_sect_row + dr);
             sc = double (new_sect_col + dc);
             (qr1, sr1, crossed1) =
               (if sr < 0 then (new_quad_row - 1, double (sr + 8), True)
                else if sr \<ge> 8 then (new_quad_row + 1, double (sr - 8), True)
                else (new_quad_row, sr, crossed));
             (qc1, sc1, crossed2) =
               (if sc < 0 then (new_quad_col - 1, double (sc + 8), True)
                else if sc \<ge> 8 then (new_quad_col + 1, double (sc - 8), True)
                else (new_quad_col, sc, crossed1))
         in (sr1, sc1, qr1, qc1, crossed2)))"

text \<open>\<open>if new_quad_row < 0 or new_quad_row >= 8 or new_quad_col < 0 or new_quad_col >= 8\<close>\<close>

definition outside_galaxy :: "nav_vars \<Rightarrow> bool" where
  "outside_galaxy v =
     (case v of (new_sect_row, new_sect_col, new_quad_row, new_quad_col, crossed) \<Rightarrow>
        new_quad_row < 0 \<or> new_quad_row \<ge> 8 \<or> new_quad_col < 0 \<or> new_quad_col \<ge> 8)"

datatype nav_path = Barrier | Arrived real real int int bool

fun nav_steps :: "nat \<Rightarrow> real \<Rightarrow> real \<Rightarrow> nav_vars \<Rightarrow> nav_path" where
  "nav_steps 0 dr dc v =
     (case v of (new_sect_row, new_sect_col, new_quad_row, new_quad_col, crossed) \<Rightarrow>
        Arrived new_sect_row new_sect_col new_quad_row new_quad_col crossed)"
| "nav_steps (Suc n) dr dc v =
     (if outside_galaxy (nav_step dr dc v) then Barrier
      else nav_steps n dr dc (nav_step dr dc v))"

text \<open>
  The local variables after \<open>k\<close> passes of the body of the loop, from the position of
  the ship, whatever the boundaries of the galaxy.
\<close>

definition nav_start :: "Enterprise \<Rightarrow> nav_vars" where
  "nav_start e =
     (real_of_int (sector_row e), real_of_int (sector_col e), quadrant_row e, quadrant_col e,
      False)"

definition nav_vars_after :: "nat \<Rightarrow> real \<Rightarrow> real \<Rightarrow> Enterprise \<Rightarrow> nav_vars" where
  "nav_vars_after k dr dc e = (nav_step dr dc ^^ k) (nav_start e)"

text \<open>
  The end of \<open>execute_nav\<close>, from \<open>self.enterprise.set_position\<close> on; \<open>new_quadrant\<close> is
  read at the new position of the ship.
\<close>

definition nav_finish ::
  "CommandHandler \<Rightarrow> real \<Rightarrow> int \<Rightarrow> int \<Rightarrow> int \<Rightarrow> int \<Rightarrow> CommandResult \<times> CommandHandler" where
  "nav_finish h warp new_quad_row new_quad_col actual_row actual_col =
     (let e1 = set_position (enterprise h) new_quad_row new_quad_col actual_row actual_col;
          new_quadrant = quadrants (galaxy h) ! nat new_quad_row ! nat new_quad_col;
          e2 = (if is_adjacent_to_starbase new_quadrant actual_row actual_col
                then dock e1 else e1);
          time = (if warp > 0 then double (1.0 / warp) else 0)
      in (\<lparr>cmd_success = True, cmd_message = Warp_engaged, time_used = time,
            trigger_klingon_attack = (klingons new_quadrant > 0 \<and> \<not> docked e2),
            quit_game = False\<rparr>,
          h\<lparr>enterprise := e2\<rparr>))"

text \<open>\<open>execute_nav\<close> after the loop has ended without reaching the barrier.\<close>

definition nav_arrive ::
  "CommandHandler \<Rightarrow> rng \<Rightarrow> real \<Rightarrow> int \<Rightarrow> real \<Rightarrow> real \<Rightarrow> int \<Rightarrow> int \<Rightarrow> bool
     \<Rightarrow> ((py_error + CommandResult) \<times> CommandHandler \<times> rng) option" where
  "nav_arrive h g warp energy_required new_sect_row new_sect_col new_quad_row new_quad_col crossed =
     (let h1 = h\<lparr>enterprise := snd (use_energy (enterprise h) energy_required)\<rparr>;
          final_sect_row = py_round new_sect_row mod 8;
          final_sect_col = py_round new_sect_col mod 8
      in if crossed then
           (case get_quadrant (galaxy h1) new_quad_row new_quad_col of
              None \<Rightarrow> Some (Inl AttributeError, h1, g)
            | Some new_quadrant \<Rightarrow>
                (case initialize_sector_map new_quadrant g of
                   None \<Rightarrow> None
                 | Some (nq1, g1) \<Rightarrow>
                     (case place_enterprise nq1 final_sect_row final_sect_col g1 of
                        None \<Rightarrow> None
                      | Some (res, nq2, g2) \<Rightarrow>
                          (let h2 = h1\<lparr>galaxy := set_quadrant (galaxy h1) (nat new_quad_row)
                                                   (nat new_quad_col) nq2\<rparr>
                           in case res of
                                Inl err \<Rightarrow> Some (Inl err, h2, g2)
                              | Inr (actual_row, actual_col) \<Rightarrow>
                                  (let (result, h3) = nav_finish h2 warp new_quad_row
                                                        new_quad_col actual_row actual_col
                                   in Some (Inr result, h3, g2))))))
         else
           (case get_current_quadrant h1 of
              None \<Rightarrow> Some (Inl AttributeError, h1, g)
            | Some new_quadrant \<Rightarrow>
                (case (if get_entity_at new_quadrant final_sect_row final_sect_col \<noteq> EMPTY
                       then find_empty_sector (sector_map new_quadrant) g
                       else Some ((final_sect_row, final_sect_col), g)) of
                   None \<Rightarrow> None
                 | Some ((actual_row, actual_col), g1) \<Rightarrow>
                     (case sector_set (sector_map new_quadrant) actual_row actual_col ENTERPRISE of
                        Inl err \<Rightarrow> Some (Inl err, h1, g1)
                      | Inr m' \<Rightarrow>
                          (let h2 = set_current_quadrant h1 (new_quadrant\<lparr>sector_map := m'\<rparr>);
                               (result, h3) = nav_finish h2 warp new_quad_row new_quad_col
                                                actual_row actual_col
                           in Some (Inr result, h3, g1))))))"

text \<open>
  The block \<open>Calculate direction deltas\<close> of \<open>execute_nav\<close>: the unit vector of the
  course, or the KeyError of a lookup in \<open>direction_deltas\<close>.
\<close>

definition nav_course_delta :: "real \<Rightarrow> py_error + (real \<times> real)" where
  "nav_course_delta course =
     (let base_dir = (if course < 9 then py_int course else 1);
          fraction = double (course - real_of_int (py_int course));
          next_dir = (if base_dir < 8 then base_dir + 1 else 1)
      in case nav_direction_deltas base_dir of
           None \<Rightarrow> Inl KeyError
         | Some (dr1, dc1) \<Rightarrow>
             (case nav_direction_deltas next_dir of
                None \<Rightarrow> Inl KeyError
              | Some (dr2, dc2) \<Rightarrow>
                  (let dr = double (double (real_of_int dr1 * double (1 - fraction))
                                    + double (real_of_int dr2 * fraction));
                       dc = double (double (real_of_int dc1 * double (1 - fraction))
                                    + double (real_of_int dc2 * fraction));
                       magnitude = double (sqrt (double (double (dr ^ 2) + double (dc ^ 2))))
                   in if magnitude > 0
                      then Inr (double (dr / magnitude), double (dc / magnitude))
                      else Inr (dr, dc))))"

text \<open>
  \<open>execute_nav\<close>. The outcome is \<open>None\<close> when a placement loop never returns; otherwise
  it holds the result or the exception raised, with the state and the stream as the
  command leaves them.
\<close>

definition execute_nav ::
  "real option \<Rightarrow> real option \<Rightarrow> CommandHandler \<Rightarrow> rng
     \<Rightarrow> ((py_error + CommandResult) \<times> CommandHandler \<times> rng) option" where
  "execute_nav course_in warp_in h g =
     (if \<not> can_warp (enterprise h) then
        Some (Inr (new_CommandResult False Warp_engines_damaged), h, g)
      else case course_in of
        None \<Rightarrow> Some (Inr (new_CommandResult False Invalid_course_input), h, g)
      | Some course \<Rightarrow>
      if course < 1 \<or> course > 9 then
        Some (Inr (new_CommandResult False Invalid_course), h, g)
      else case warp_in of
        None \<Rightarrow> Some (Inr (new_CommandResult False Invalid_warp_input), h, g)
      | Some warp \<Rightarrow>
      if warp < 0 \<or> warp > 8 then
        Some (Inr (new_CommandResult False Invalid_warp), h, g)
      else if warp = 0 then
        Some (Inr (new_CommandResult True Navigation_cancelled), h, g)
      else
        (let sectors_to_move = py_int (double (warp * 8));
             energy_required = sectors_to_move + 10
         in if energy_required > energy (enterprise h) then
              Some (Inr (new_CommandResult False Insufficient_energy), h, g)
            else
              (let h1 = (if docked (enterprise h)
                         then h\<lparr>enterprise := undock (enterprise h)\<rparr> else h)
               in case nav_course_delta course of
                    Inl err \<Rightarrow> Some (Inl err, h1, g)
                  | Inr (dr, dc) \<Rightarrow>
                 (case get_current_quadrant h1 of
                    None \<Rightarrow> Some (Inl AttributeError, h1, g)
                  | Some current_quadrant \<Rightarrow>
                    (let cq1 = remove_enterprise current_quadrant
                                 (sector_row (enterprise h1)) (sector_col (enterprise h1));
                         h2 = set_current_quadrant h1 cq1
                     in case nav_steps (nat sectors_to_move) dr dc
                               (nav_start (enterprise h1)) of
                          Barrier \<Rightarrow>
                            (case sector_set (sector_map cq1) (sector_row (enterprise h1))
                                    (sector_col (enterprise h1)) ENTERPRISE of
                               Inl err \<Rightarrow> Some (Inl err, h2, g)
                             | Inr m' \<Rightarrow>
                                 Some (Inr (new_CommandResult False Galactic_barrier),
                                       set_current_quadrant h1 (cq1\<lparr>sector_map := m'\<rparr>), g))
                        | Arrived new_sect_row new_sect_col new_quad_row new_quad_col crossed \<Rightarrow>
                            nav_arrive h2 g warp energy_required new_sect_row new_sect_col
                              new_quad_row new_quad_col crossed)))))"



text \<open>The loop \<open>for _ in range(n): self.galaxy.klingon_destroyed()\<close>.\<close>

fun klingons_destroyed_times :: "nat \<Rightarrow> Galaxy \<Rightarrow> Galaxy" where
  "klingons_destroyed_times 0 gal = gal"
| "klingons_destroyed_times (Suc n) gal = klingons_destroyed_times n (klingon_destroyed gal)"


definition execute_tor ::
  "real option \<Rightarrow> CommandHandler \<Rightarrow> (py_error + CommandResult) \<times> CommandHandler" where
  "execute_tor direction_in h =
     (if \<not> can_fire_torpedoes (enterprise h) then
        (Inr (new_CommandResult False Photon_tubes_damaged), h)
      else if torpedoes (enterprise h) \<le> 0 then
        (Inr (new_CommandResult False No_torpedoes), h)
      else case direction_in of
        None \<Rightarrow> (Inr (new_CommandResult False Invalid_direction), h)
      | Some direction \<Rightarrow>
      if direction < 1 \<or> direction > 9 then
        (Inr (new_CommandResult False Invalid_direction), h)
      else case get_current_quadrant h of
        None \<Rightarrow> (Inl AttributeError, h)
      | Some quadrant \<Rightarrow>
        (let (res, e1, q1) = fire_torpedo (enterprise h) quadrant direction;
             h1 = (set_current_quadrant h q1)\<lparr>enterprise := e1\<rparr>
         in case res of
              Inl err \<Rightarrow> (Inl err, h1)
            | Inr result \<Rightarrow>
                (let h2 = (if klingons_destroyed result > 0
                           then h1\<lparr>galaxy := klingons_destroyed_times
                                     (nat (klingons_destroyed result)) (galaxy h1)\<rparr>
                           else h1)
                 in (Inr \<lparr>cmd_success = success result, cmd_message = message result,
                          time_used = 0.0,
                          trigger_klingon_attack = (klingons q1 > 0),
                          quit_game = False\<rparr>, h2))))"

definition execute_she :: "int option \<Rightarrow> CommandHandler \<Rightarrow> CommandResult \<times> CommandHandler" where
  "execute_she energy_in h =
     (if \<not> can_use_shields (enterprise h) then
        (new_CommandResult False Shield_control_damaged, h)
      else case energy_in of
        None \<Rightarrow> (new_CommandResult False Invalid_energy_amount, h)
      | Some amount \<Rightarrow>
      if amount = 0 then (new_CommandResult True No_change_to_shields, h)
      else if amount > 0 \<and> amount > energy (enterprise h) then
        (new_CommandResult False Insufficient_energy, h)
      else if amount < 0 \<and> - amount > shields (enterprise h) then
        (new_CommandResult False Cannot_transfer_more_than_shields, h)
      else
        (new_CommandResult True Shield_energy_now,
         h\<lparr>enterprise := snd (transfer_to_shields (enterprise h) amount)\<rparr>))"





section \<open>startrek.py\<close>





section \<open>Example states\<close>

text \<open>
  A quadrant whose sector map holds the ship at (0, 0) and a starbase at (0, 1), and a
  game whose galaxy holds it at (0, 0), the 63 other quadrants being fresh; the ship is
  a fresh \<open>Enterprise()\<close>, at quadrant (0, 0), sector (0, 0).
\<close>

definition starbase_quadrant :: Quadrant where
  "starbase_quadrant =
     (new_Quadrant 0 0)\<lparr>starbases := 1,
        sector_map := ([ENTERPRISE, STARBASE] @ replicate 6 EMPTY) # replicate 7 (replicate 8 EMPTY),
        starbase_pos := Some (0, 1)\<rparr>"

definition starbase_game :: CommandHandler where
  "starbase_game =
     \<lparr>galaxy =
        \<lparr>quadrants = (starbase_quadrant # map (new_Quadrant 0) [1..7])
                        # map (\<lambda>r. map (new_Quadrant r) [0..7]) [1..7],
         total_klingons = 0, total_starbases = 1, initial_klingons = 0,
         stardate = 2000, time_limit = 30\<rparr>,
      enterprise = new_Enterprise\<rparr>"

text \<open>
  A game whose ship is at sector (3, 0) of quadrant (0, 0), the north-west corner of the
  galaxy; the sector map of that quadrant holds the ship only and the 63 other
  quadrants are fresh.
\<close>

definition edge_quadrant :: Quadrant where
  "edge_quadrant =
     (new_Quadrant 0 0)\<lparr>sector_map :=
        replicate 3 (replicate 8 EMPTY) @ [ENTERPRISE # replicate 7 EMPTY]
          @ replicate 4 (replicate 8 EMPTY)\<rparr>"

definition edge_game :: CommandHandler where
  "edge_game =
     \<lparr>galaxy =
        \<lparr>quadrants = (edge_quadrant # map (new_Quadrant 0) [1..7])
                        # map (\<lambda>r. map (new_Quadrant r) [0..7]) [1..7],
         total_klingons = 0, total_starbases = 0, initial_klingons = 0,
         stardate = 2000, time_limit = 30\<rparr>,
      enterprise = new_Enterprise\<lparr>sector_row := 3\<rparr>\<rparr>"

text \<open>
  The stream whose first 198 raw draws are 0 and whose later draws are
  0, 0, 0, 1, 1, 1, 2, 2, 2, ...; and the galaxy that \<open>Galaxy()\<close> generates from it:
  every quadrant holds 3 Klingons, a starbase and a star.
\<close>

definition example_stream :: rng where
  "example_stream i = (if i < 198 then 0 else (i - 198) div 3)"

definition example_galaxy :: Galaxy where
  "example_galaxy =
     \<lparr>quadrants = map (\<lambda>r. map (\<lambda>c. (new_Quadrant r c)\<lparr>klingons := 3, starbases := 1, stars := 1\<rparr>)
                           [0..7]) [0..7],
      total_klingons = 192, total_starbases = 64, initial_klingons = 192,
      stardate = 2000, time_limit = 25\<rparr>"

text \<open>
  The stream whose first 192 raw draws are \<open>2^52\<close> and whose later draws are eight 0,
  eight 1, eight 2, ...; and the galaxy that \<open>Galaxy()\<close> generates from it: every
  quadrant holds one star, quadrant (0, 0) the only starbase, and the 10 Klingons are
  in the quadrants (0, 0), (1, 1), (2, 2) and (3, 3).
\<close>

definition sparse_stream :: rng where
  "sparse_stream i = (if i < 192 then 2 ^ 52 else (i - 192) div 8)"

definition sparse_galaxy :: Galaxy where
  "sparse_galaxy =
     \<lparr>quadrants =
        map (\<lambda>r. map (\<lambda>c. (new_Quadrant r c)
                              \<lparr>klingons := (if r = c \<and> r < 3 then 3 else if r = 3 \<and> c = 3 then 1 else 0),
                               starbases := (if r = 0 \<and> c = 0 then 1 else 0),
                               stars := 1\<rparr>) [0..7]) [0..7],
      total_klingons = 10, total_starbases = 1, initial_klingons = 10,
      stardate = 2300, time_limit = 28\<rparr>"

text \<open>
  The stream whose first 192 raw draws are \<open>2^52\<close> and whose later draws are all 0:
  the top-up loop draws quadrant (0, 0) for ever.
\<close>

definition stuck_stream :: rng where
  "stuck_stream i = (if i < 192 then 2 ^ 52 else 0)"

text \<open>The galaxy \<open>gal\<close> with the 8 by 8 grid whose quadrant at \<open>(r, c)\<close> is \<open>f r c\<close>.\<close>

definition grid_galaxy :: "(nat \<Rightarrow> nat \<Rightarrow> Quadrant) \<Rightarrow> Galaxy \<Rightarrow> Galaxy" where
  "grid_galaxy f gal = gal\<lparr>quadrants := map (\<lambda>r. map (\<lambda>c. f r c) [0..<8]) [0..<8]\<rparr>"



section \<open>Invariants\<close>

text \<open>
  What the generation of the galaxy maintains: the grid is 8 by 8, each total is the sum
  of the per-quadrant counts, and no starbase count is negative.
\<close>

definition generation_inv :: "Galaxy \<Rightarrow> bool" where
  "generation_inv gal =
     (galaxy_ok gal
      \<and> total_klingons gal = quadrant_sum klingons gal
      \<and> total_starbases gal = quadrant_sum starbases gal
      \<and> list_all (list_all (\<lambda>q. 0 \<le> starbases q)) (quadrants gal))"

section \<open>Properties of the ship\<close>

subsection \<open>Damage application\<close>

lemma apply_damage_shields:
  "shields (fst (apply_damage e D g)) =
     (if shields e > 0 then (if shields e \<ge> D then shields e - D else 0) else shields e)"
  by (simp add: apply_damage_def Let_def split: prod.splits)

lemma apply_damage_energy:
  "energy (fst (apply_damage e D g)) =
     (if shields e > 0 \<and> shields e \<ge> D then energy e
      else if shields e > 0 then (if D - shields e > 0 then energy e - (D - shields e) else energy e)
      else if D > 0 then energy e - D else energy e)"
  by (simp add: apply_damage_def Let_def split: prod.splits)

lemma apply_damage_destroyed:
  "destroyed (fst (apply_damage e D g)) =
     (if energy (fst (apply_damage e D g)) \<le> 0 then True else destroyed e)"
  by (simp add: apply_damage_def Let_def split: prod.splits)

text \<open>
  Whatever the stream, \<open>apply_damage\<close> changes the shields, the energy, the destroyed
  flag and the damage map only.
\<close>

lemma apply_damage_frame:
  "(fst (apply_damage e D g))\<lparr>damage := d\<rparr> =
     e\<lparr>shields := shields (fst (apply_damage e D g)),
       energy := energy (fst (apply_damage e D g)),
       destroyed := destroyed (fst (apply_damage e D g)),
       damage := d\<rparr>"
  by (simp add: apply_damage_def Let_def split: prod.splits)

text \<open>
  Claim C6. For a damage amount \<open>D \<ge> 0\<close> applied to a ship whose shields are not
  negative, the shields absorb first: if the shields are at least \<open>D\<close> they decrease by
  \<open>D\<close> and the energy is unchanged; otherwise the shields become 0 and the energy
  decreases by \<open>D - shields\<close>. The call sets the destroyed flag exactly when the
  resulting energy is \<open>\<le> 0\<close>, and leaves the flag as it was otherwise.
\<close>

theorem apply_damage_shields_first:
  assumes "0 \<le> D" and "0 \<le> shields e"
  shows "(shields e \<ge> D \<longrightarrow>
            shields (fst (apply_damage e D g)) = shields e - D \<and>
            energy (fst (apply_damage e D g)) = energy e)
       \<and> (shields e < D \<longrightarrow>
            shields (fst (apply_damage e D g)) = 0 \<and>
            energy (fst (apply_damage e D g)) = energy e - (D - shields e))
       \<and> destroyed (fst (apply_damage e D g)) =
            (if energy (fst (apply_damage e D g)) \<le> 0 then True else destroyed e)"
  using assms
  by (auto simp: apply_damage_shields apply_damage_energy apply_damage_destroyed)

text \<open>
  The theorem at a ship with 100 shields and 3000 energy: a hit of 40 is absorbed, a hit
  of 3200 empties the shields, takes the energy to -100 and destroys the ship.
\<close>

theorem apply_damage_shields_first_witness:
  "(0::int) \<le> 40 \<and> 0 \<le> shields (new_Enterprise\<lparr>shields := 100\<rparr>)
   \<and> shields (fst (apply_damage (new_Enterprise\<lparr>shields := 100\<rparr>) 40 (\<lambda>_. 0))) = 60
   \<and> energy (fst (apply_damage (new_Enterprise\<lparr>shields := 100\<rparr>) 40 (\<lambda>_. 0))) = 3000
   \<and> \<not> destroyed (fst (apply_damage (new_Enterprise\<lparr>shields := 100\<rparr>) 40 (\<lambda>_. 0)))
   \<and> (0::int) \<le> 3200
   \<and> shields (fst (apply_damage (new_Enterprise\<lparr>shields := 100\<rparr>) 3200 (\<lambda>_. 0))) = 0
   \<and> energy (fst (apply_damage (new_Enterprise\<lparr>shields := 100\<rparr>) 3200 (\<lambda>_. 0))) = - 100
   \<and> destroyed (fst (apply_damage (new_Enterprise\<lparr>shields := 100\<rparr>) 3200 (\<lambda>_. 0)))"
  using apply_damage_shields_first [of 40 "new_Enterprise\<lparr>shields := 100\<rparr>" "\<lambda>_. 0"]
        apply_damage_shields_first [of 3200 "new_Enterprise\<lparr>shields := 100\<rparr>" "\<lambda>_. 0"]
  by (simp add: new_Enterprise_def)

text \<open>
  Claim C10. For a ship with shields \<open>\<ge> 0\<close> and a damage amount \<open>D \<ge> 0\<close>, applying the
  damage decreases \<open>energy + shields\<close> by exactly \<open>D\<close> and leaves the shields \<open>\<ge> 0\<close>,
  whatever the random stream: two streams give ships that differ in the damage map at
  most.
\<close>

theorem apply_damage_total_energy:
  assumes "0 \<le> shields e" and "0 \<le> D"
  shows "energy (fst (apply_damage e D g)) + shields (fst (apply_damage e D g))
           = energy e + shields e - D
       \<and> 0 \<le> shields (fst (apply_damage e D g))
       \<and> (fst (apply_damage e D g))\<lparr>damage := damage e\<rparr>
           = (fst (apply_damage e D g'))\<lparr>damage := damage e\<rparr>"
proof -
  have "(fst (apply_damage e D g))\<lparr>damage := damage e\<rparr>
           = (fst (apply_damage e D g'))\<lparr>damage := damage e\<rparr>"
    unfolding apply_damage_frame [where d = "damage e" and g = g]
      apply_damage_frame [where d = "damage e" and g = g']
    by (simp add: apply_damage_shields apply_damage_energy apply_damage_destroyed)
  then show ?thesis
    using assms by (auto simp: apply_damage_shields apply_damage_energy)
qed

text \<open>
  The theorem at a hit of 250 on 100 shields and 3000 energy. On the stream of zeros the
  roll fires and damages the warp engines by 0.5; on the stream of the largest raw draws
  it does not fire.
\<close>

theorem apply_damage_total_energy_witness:
  "0 \<le> shields (new_Enterprise\<lparr>shields := 100\<rparr>) \<and> (0::int) \<le> 250
   \<and> energy (fst (apply_damage (new_Enterprise\<lparr>shields := 100\<rparr>) 250 (\<lambda>_. 0)))
       + shields (fst (apply_damage (new_Enterprise\<lparr>shields := 100\<rparr>) 250 (\<lambda>_. 0))) = 2850
   \<and> damage (fst (apply_damage (new_Enterprise\<lparr>shields := 100\<rparr>) 250 (\<lambda>_. 0))) WARP_ENGINES
       = - 1 / 2
   \<and> damage (fst (apply_damage (new_Enterprise\<lparr>shields := 100\<rparr>) 250 (\<lambda>_. 2 ^ 53 - 1))) WARP_ENGINES
       = 0"
  using apply_damage_total_energy [of "new_Enterprise\<lparr>shields := 100\<rparr>" 250 "\<lambda>_. 0" "\<lambda>_. 0"]
  by (simp add: new_Enterprise_def apply_damage_def random_random_def rng_next_def
        random_choice_system_def random_uniform_def ShipSystem_list_def Let_def)

subsection \<open>Shield transfer\<close>

text \<open>
  Claim C5 says that \<open>transfer_to_shields(n)\<close> with a negative \<open>n\<close> fails, with no
  mutation, when \<open>|n|\<close> exceeds the shields. The method clamps instead: with 100 shields
  and \<open>n = -200\<close> it moves the 100 units to the energy and returns true.
\<close>

theorem transfer_to_shields_counterexample:
  "shields (new_Enterprise\<lparr>shields := 100\<rparr>) < \<bar>- 200\<bar>
   \<and> transfer_to_shields (new_Enterprise\<lparr>shields := 100\<rparr>) (- 200)
       = (True, new_Enterprise\<lparr>shields := 0, energy := 3100\<rparr>)"
  by (simp add: transfer_to_shields_def new_Enterprise_def)

text \<open>
  Claim C5, amended. \<open>transfer_to_shields(n)\<close> with a positive \<open>n\<close> moves \<open>n\<close> energy to
  the shields and fails (returns false, no mutation) if \<open>n\<close> exceeds the energy. With a
  negative \<open>n\<close> it moves \<open>|n|\<close> from the shields to the energy when \<open>|n|\<close> is at most the
  shields, and moves all the shields and returns true when \<open>|n|\<close> exceeds them. The
  failure with no mutation for \<open>|n|\<close> above the shields is that of the command
  \<open>execute_she\<close>, which rejects the amount before it calls the method.
\<close>

theorem transfer_to_shields_clamps:
  "(0 < n \<and> n \<le> energy e \<longrightarrow>
      transfer_to_shields e n = (True, e\<lparr>energy := energy e - n, shields := shields e + n\<rparr>))
   \<and> (0 < n \<and> energy e < n \<longrightarrow> transfer_to_shields e n = (False, e))
   \<and> (n < 0 \<and> \<bar>n\<bar> \<le> shields e \<longrightarrow>
      transfer_to_shields e n = (True, e\<lparr>shields := shields e - \<bar>n\<bar>, energy := energy e + \<bar>n\<bar>\<rparr>))
   \<and> (n < 0 \<and> shields e < \<bar>n\<bar> \<longrightarrow>
      transfer_to_shields e n = (True, e\<lparr>shields := 0, energy := energy e + shields e\<rparr>))
   \<and> (n < 0 \<and> shields (enterprise h) < \<bar>n\<bar> \<and> can_use_shields (enterprise h) \<longrightarrow>
      execute_she (Some n) h = (new_CommandResult False Cannot_transfer_more_than_shields, h))"
  by (auto simp: transfer_to_shields_def execute_she_def min_def)

text \<open>The five cases of the theorem at a ship with 3000 energy and 100 shields.\<close>

theorem transfer_to_shields_clamps_witness:
  "transfer_to_shields (new_Enterprise\<lparr>shields := 100\<rparr>) 50
      = (True, new_Enterprise\<lparr>shields := 150, energy := 2950\<rparr>)
   \<and> transfer_to_shields (new_Enterprise\<lparr>shields := 100\<rparr>) 5000
      = (False, new_Enterprise\<lparr>shields := 100\<rparr>)
   \<and> transfer_to_shields (new_Enterprise\<lparr>shields := 100\<rparr>) (- 50)
      = (True, new_Enterprise\<lparr>shields := 50, energy := 3050\<rparr>)
   \<and> transfer_to_shields (new_Enterprise\<lparr>shields := 100\<rparr>) (- 200)
      = (True, new_Enterprise\<lparr>shields := 0, energy := 3100\<rparr>)
   \<and> execute_she (Some (- 200))
        \<lparr>galaxy = \<lparr>quadrants = [], total_klingons = 0, total_starbases = 0,
                    initial_klingons = 0, stardate = 0, time_limit = 0\<rparr>,
         enterprise = new_Enterprise\<lparr>shields := 100\<rparr>\<rparr>
      = (new_CommandResult False Cannot_transfer_more_than_shields,
        \<lparr>galaxy = \<lparr>quadrants = [], total_klingons = 0, total_starbases = 0,
                    initial_klingons = 0, stardate = 0, time_limit = 0\<rparr>,
         enterprise = new_Enterprise\<lparr>shields := 100\<rparr>\<rparr>)"
  using transfer_to_shields_clamps [of 50 "new_Enterprise\<lparr>shields := 100\<rparr>"]
        transfer_to_shields_clamps [of 5000 "new_Enterprise\<lparr>shields := 100\<rparr>"]
        transfer_to_shields_clamps [of "- 50" "new_Enterprise\<lparr>shields := 100\<rparr>"]
        transfer_to_shields_clamps [of "- 200" "new_Enterprise\<lparr>shields := 100\<rparr>"
          "\<lparr>galaxy = \<lparr>quadrants = [], total_klingons = 0, total_starbases = 0,
                    initial_klingons = 0, stardate = 0, time_limit = 0\<rparr>,
            enterprise = new_Enterprise\<lparr>shields := 100\<rparr>\<rparr>"]
  by (simp add: new_Enterprise_def can_use_shields_def is_system_damaged_def)

section \<open>Properties of the quadrant\<close>

subsection \<open>Removing a Klingon\<close>

text \<open>
  On a map of 8 rows of 8 cells and coordinates in \<open>[0, 8)\<close>, \<open>remove_klingon\<close> at a
  cell that holds no Klingon returns false and changes nothing.
\<close>

lemma remove_klingon_in_range:
  assumes "sector_map_ok (sector_map q)" "0 \<le> r" "r < 8" "0 \<le> c" "c < 8"
    and "sector_map q ! nat r ! nat c \<noteq> KLINGON"
  shows "remove_klingon q r c = Inr (False, q)"
  using assms
  by (auto simp: remove_klingon_def sector_get_def py_index_def sector_map_ok_def list_all_iff
      Let_def)

text \<open>
  Claim C9 says that \<open>remove_klingon\<close> is a no-op returning failure whenever the cell
  holds no Klingon, also for coordinates outside \<open>[0, 8)\<close> and for a quadrant with no
  sector map. \<open>remove_klingon\<close> has not the check of the map and of the coordinates that
  \<open>remove_enterprise\<close> and \<open>get_entity_at\<close> make. On a fresh quadrant (no sector map) it
  raises IndexError instead of returning false. At the row -1, where \<open>get_entity_at\<close>
  finds no Klingon, it reads the row 7: it empties the cell (7, 0), decrements the count
  and returns true, while the ship stays in \<open>klingon_ships\<close>.
\<close>

theorem remove_klingon_unguarded:
  "get_entity_at (new_Quadrant 0 0) 0 0 \<noteq> KLINGON
   \<and> remove_klingon (new_Quadrant 0 0) 0 0 = Inl IndexError
   \<and> get_entity_at
        ((new_Quadrant 0 0)\<lparr>klingons := 1,
           sector_map := (replicate 7 (replicate 8 EMPTY)) @ [KLINGON # replicate 7 EMPTY],
           klingon_ships := [\<lparr>k_sector_row = 7, k_sector_col = 0, k_energy = 300\<rparr>]\<rparr>) (- 1) 0
       \<noteq> KLINGON
   \<and> remove_klingon
        ((new_Quadrant 0 0)\<lparr>klingons := 1,
           sector_map := (replicate 7 (replicate 8 EMPTY)) @ [KLINGON # replicate 7 EMPTY],
           klingon_ships := [\<lparr>k_sector_row = 7, k_sector_col = 0, k_energy = 300\<rparr>]\<rparr>) (- 1) 0
       = Inr (True,
           (new_Quadrant 0 0)\<lparr>klingons := 0,
             sector_map := replicate 8 (replicate 8 EMPTY),
             klingon_ships := [\<lparr>k_sector_row = 7, k_sector_col = 0, k_energy = 300\<rparr>]\<rparr>)"
  by (simp add: remove_klingon_def get_entity_at_def new_Quadrant_def sector_get_def
      sector_set_def py_index_def Let_def nth_append eval_nat_numeral)

section \<open>Properties of the combat functions\<close>

subsection \<open>Phaser overheating\<close>

lemma random_random_range: "0 \<le> fst (random_random g) \<and> fst (random_random g) < 1"
  by (simp add: random_random_def rng_next_def)

text \<open>
  Whenever the overheat roll succeeds, \<open>fire_phasers\<close> has consumed the energy and raises
  AttributeError: no result is returned and the damage map is unchanged.
\<close>

lemma fire_phasers_overheat:
  assumes "can_fire_phasers e" and "1500 < E" and "E \<le> energy e" and "klingon_ships q \<noteq> []"
    and "fst (random_random g) < real_of_int (E - 1500) / 1500"
  shows "fire_phasers e q E g
           = (Inl AttributeError, e\<lparr>energy := energy e - E\<rparr>, q, \<lambda>i. g (Suc (Suc i)))"
  using assms
  by (simp add: fire_phasers_def use_energy_def Let_def random_uniform_def
      random_random_def rng_next_def split: prod.splits)

text \<open>
  Claim C1 says that on overheating the phaser system is damaged and the fire aborts with
  a failure result. With 3000 units the overheat probability is 1, so the roll succeeds
  on every stream: the energy is consumed, and the call raises AttributeError instead of
  returning; the phaser system is not damaged.
\<close>

theorem fire_phasers_overheat_raises:
  "fire_phasers new_Enterprise (q\<lparr>klingon_ships := [k]\<rparr>) 3000 g
     = (Inl AttributeError, new_Enterprise\<lparr>energy := 0\<rparr>, q\<lparr>klingon_ships := [k]\<rparr>,
        \<lambda>i. g (Suc (Suc i)))"
proof -
  have "fst (random_random g) < real_of_int (3000 - 1500) / 1500"
    using random_random_range [of g] by simp
  then show ?thesis
    using fire_phasers_overheat [of new_Enterprise 3000 "q\<lparr>klingon_ships := [k]\<rparr>" g]
    by (simp add: new_Enterprise_def can_fire_phasers_def is_system_damaged_def)
qed

subsection \<open>Direction to a target\<close>

lemma atan2_range: "- pi < atan2 y x \<and> atan2 y x \<le> pi"
proof -
  have a: "- (pi / 2) < arctan (y / x)" "arctan (y / x) < pi / 2"
    by (rule arctan_lbound, rule arctan_ubound)
  have b: "y / x \<le> 0 \<Longrightarrow> arctan (y / x) \<le> 0" "0 < y / x \<Longrightarrow> 0 < arctan (y / x)"
    by (simp_all add: arctan_le_zero_iff zero_less_arctan_iff)
  have pos: "0 < pi" by simp
  show ?thesis
  proof (cases "0 < x")
    case True
    then show ?thesis using a by (simp add: atan2_def; insert pi_gt_zero; linarith)
  next
    case False
    note nx = this
    show ?thesis
    proof (cases "x < 0")
      case True
      show ?thesis
      proof (cases "0 \<le> y")
        case True
        with \<open>x < 0\<close> have "y / x \<le> 0" by (simp add: divide_nonneg_neg)
        then have "arctan (y / x) \<le> 0" by (rule b)
        with a True \<open>x < 0\<close> show ?thesis
          by (simp add: atan2_def; insert pi_gt_zero; linarith)
      next
        case False
        with \<open>x < 0\<close> have "0 < y / x" by (simp add: divide_neg_neg)
        then have "0 < arctan (y / x)" by (rule b)
        with a False \<open>x < 0\<close> show ?thesis
          by (simp add: atan2_def; insert pi_gt_zero; linarith)
      qed
    next
      case False
      with nx show ?thesis by (auto simp: atan2_def; insert pi_gt_zero; linarith)
    qed
  qed
qed

text \<open>
  Claim C7. \<open>calculate_torpedo_direction\<close> (the spec's \<open>direction_to\<close>) maps the delta to
  the direction \<open>1 + angle * 4 / pi\<close> of the angle \<open>atan2(-drow, dcol)\<close>, plus 8 when that
  is below 1, so that the direction is in \<open>[1, 9]\<close>; from (0, 0) the target (0, 1) is at
  direction 1 and the target (-1, 0) at direction 3, and the ship's own position is at
  direction 1. (Subtracting 8 is never needed: the angle is at most \<open>pi\<close>.)
\<close>

theorem calculate_torpedo_direction_compass:
  "calculate_torpedo_direction (e\<lparr>sector_row := 0, sector_col := 0\<rparr>) 0 1 = 1
   \<and> calculate_torpedo_direction (e\<lparr>sector_row := 0, sector_col := 0\<rparr>) (- 1) 0 = 3
   \<and> calculate_torpedo_direction e (sector_row e) (sector_col e) = 1
   \<and> 1 \<le> calculate_torpedo_direction e r c
   \<and> calculate_torpedo_direction e r c \<le> 9
   \<and> calculate_torpedo_direction e r c =
       (if r = sector_row e \<and> c = sector_col e then 1
        else if 1 + atan2 (real_of_int (sector_row e - r)) (real_of_int (c - sector_col e)) * 4 / pi < 1
        then 1 + atan2 (real_of_int (sector_row e - r)) (real_of_int (c - sector_col e)) * 4 / pi + 8
        else 1 + atan2 (real_of_int (sector_row e - r)) (real_of_int (c - sector_col e)) * 4 / pi)"
proof -
  define a where "a = atan2 (real_of_int (sector_row e - r)) (real_of_int (c - sector_col e))"
  have ar: "- pi < a" "a \<le> pi" using atan2_range [of "real_of_int (sector_row e - r)" "real_of_int (c - sector_col e)"]
    by (simp_all add: a_def)
  have pos: "0 < pi" by simp
  have q1: "a * 4 / pi \<le> 4" using ar pos by (simp add: field_simps)
  have q2: "- 4 < a * 4 / pi" using ar pos by (simp add: field_simps)
  have E: "calculate_torpedo_direction (e\<lparr>sector_row := 0, sector_col := 0\<rparr>) 0 1 = 1"
    by (simp add: calculate_torpedo_direction_def atan2_def)
  have N: "calculate_torpedo_direction (e\<lparr>sector_row := 0, sector_col := 0\<rparr>) (- 1) 0 = 3"
    by (simp add: calculate_torpedo_direction_def atan2_def)
  have Z: "calculate_torpedo_direction e (sector_row e) (sector_col e) = 1"
    by (simp add: calculate_torpedo_direction_def)
  have F: "calculate_torpedo_direction e r c =
       (if r = sector_row e \<and> c = sector_col e then 1
        else if 1 + a * 4 / pi < 1 then 1 + a * 4 / pi + 8 else 1 + a * 4 / pi)"
    using q1 q2 by (auto simp: calculate_torpedo_direction_def Let_def a_def)
  have R: "1 \<le> calculate_torpedo_direction e r c \<and> calculate_torpedo_direction e r c \<le> 9"
    unfolding F using q1 q2 by auto
  show ?thesis using E N Z R F unfolding a_def by blast
qed

section \<open>Properties of the commands\<close>

subsection \<open>A torpedo that hits a starbase\<close>

lemma upto_1_7: "[1..7] = [1,2,3,4,5,6,7::int]" "[0..7] = [0,1,2,3,4,5,6,7::int]"
  by (simp_all add: upto.simps)

lemma starbase_game_current:
  "get_current_quadrant starbase_game = Some starbase_quadrant"
  by (simp add: starbase_game_def get_current_quadrant_def get_quadrant_def new_Enterprise_def)

lemma py_round_of_int [simp]: "py_round (real_of_int n) = n"
  by (simp add: py_round_def)

lemma fire_torpedo_starbase:
  "fire_torpedo new_Enterprise starbase_quadrant 1 =
     (Inr \<lparr>success = True, message = Torpedo_hit_starbase, klingons_destroyed = 0, damage_dealt = []\<rparr>,
      new_Enterprise\<lparr>torpedoes := 9\<rparr>,
      starbase_quadrant\<lparr>starbases := 0, starbase_pos := None,
        sector_map := ([ENTERPRISE, EMPTY] @ replicate 6 EMPTY) # replicate 7 (replicate 8 EMPTY)\<rparr>)"
proof -
  have r1: "py_round 1 = 1" using py_round_of_int [of 1] by simp
  have r0: "py_round 0 = 0" using py_round_of_int [of 0] by simp
  have i1: "py_int 1 = 1" by (simp add: py_int_def)
  have step: "torpedo_steps (Suc n) 0 0 0 1 starbase_quadrant =
     (Inr \<lparr>success = True, message = Torpedo_hit_starbase, klingons_destroyed = 0, damage_dealt = []\<rparr>,
      starbase_quadrant\<lparr>starbases := 0, starbase_pos := None,
        sector_map := ([ENTERPRISE, EMPTY] @ replicate 6 EMPTY) # replicate 7 (replicate 8 EMPTY)\<rparr>)" for n
    by (simp add: r1 r0 Let_def get_entity_at_def starbase_quadrant_def
        new_Quadrant_def sector_set_def py_index_def)
  have steps: "torpedo_steps 15 0 0 0 1 starbase_quadrant =
     (Inr \<lparr>success = True, message = Torpedo_hit_starbase, klingons_destroyed = 0, damage_dealt = []\<rparr>,
      starbase_quadrant\<lparr>starbases := 0, starbase_pos := None,
        sector_map := ([ENTERPRISE, EMPTY] @ replicate 6 EMPTY) # replicate 7 (replicate 8 EMPTY)\<rparr>)"
    using step [of 14] by simp
  show ?thesis
    by (simp add: fire_torpedo_def can_fire_torpedoes_def is_system_damaged_def
        ship_fire_torpedo_def torpedo_direction_deltas_def i1 Let_def steps new_Enterprise_def
        del: torpedo_steps.simps)
qed

text \<open>The command TOR never changes the galaxy-wide starbase counter.\<close>

lemma klingons_destroyed_times_starbases:
  "total_starbases (klingons_destroyed_times n gal) = total_starbases gal"
  by (induction n arbitrary: gal) (simp_all add: klingon_destroyed_def)

lemma execute_tor_total_starbases:
  "total_starbases (galaxy (snd (execute_tor d h))) = total_starbases (galaxy h)"
  by (simp add: execute_tor_def set_current_quadrant_def set_quadrant_def Let_def
      klingons_destroyed_times_starbases split: option.splits prod.splits sum.splits)

text \<open>
  Claim C2 says that a torpedo whose path first reaches a starbase clears the quadrant's
  starbase (cell, cached position, count), decrements the galaxy-wide starbase counter and
  stops. In \<open>starbase_game\<close> the ship at sector (0, 0) fires in direction 1 at the
  starbase at (0, 1): the quadrant's starbase is cleared and the torpedo stops, but
  \<open>total_starbases\<close> is still 1 while no quadrant holds a starbase. \<open>execute_tor\<close> never
  calls \<open>Galaxy.starbase_destroyed\<close>.
\<close>

theorem execute_tor_starbase_counter:
  "total_starbases (galaxy starbase_game) = 1
   \<and> quadrant_sum starbases (galaxy starbase_game) = 1
   \<and> fst (execute_tor (Some 1) starbase_game)
       = Inr \<lparr>cmd_success = True, cmd_message = Torpedo_hit_starbase, time_used = 0,
               trigger_klingon_attack = False, quit_game = False\<rparr>
   \<and> get_current_quadrant (snd (execute_tor (Some 1) starbase_game))
       = Some (starbase_quadrant\<lparr>starbases := 0, starbase_pos := None,
           sector_map := ([ENTERPRISE, EMPTY] @ replicate 6 EMPTY) # replicate 7 (replicate 8 EMPTY)\<rparr>)
   \<and> quadrant_sum starbases (galaxy (snd (execute_tor (Some 1) starbase_game))) = 0
   \<and> total_starbases (galaxy (snd (execute_tor (Some 1) starbase_game))) = 1"
proof -
  have e: "enterprise starbase_game = new_Enterprise" by (simp add: starbase_game_def)
  have ex: "execute_tor (Some 1) starbase_game =
     (Inr \<lparr>cmd_success = True, cmd_message = Torpedo_hit_starbase, time_used = 0,
               trigger_klingon_attack = False, quit_game = False\<rparr>,
      (set_current_quadrant starbase_game
        (starbase_quadrant\<lparr>starbases := 0, starbase_pos := None,
           sector_map := ([ENTERPRISE, EMPTY] @ replicate 6 EMPTY) # replicate 7 (replicate 8 EMPTY)\<rparr>))
        \<lparr>enterprise := new_Enterprise\<lparr>torpedoes := 9\<rparr>\<rparr>)"
    by (simp add: execute_tor_def e starbase_game_current fire_torpedo_starbase
        can_fire_torpedoes_def is_system_damaged_def)
       (simp add: new_Enterprise_def starbase_quadrant_def new_Quadrant_def)
  show ?thesis
    unfolding ex
    by (simp add: starbase_game_def set_current_quadrant_def set_quadrant_def quadrant_sum_def
        get_current_quadrant_def get_quadrant_def new_Enterprise_def upto_1_7
        starbase_quadrant_def new_Quadrant_def)
qed

subsection \<open>Double arithmetic\<close>

text \<open>
  Rounding to a double leaves an integer below \<open>2^53\<close> as it is; within one binade the
  rounding is to a multiple of a fixed power of two.
\<close>

lemma floor_log2_eq:
  assumes "2 powr real_of_int k \<le> x" "x < 2 powr real_of_int (k + 1)"
  shows "\<lfloor>log 2 x\<rfloor> = k"
proof -
  have pos: "0 < x" using assms(1) by (smt (verit) powr_gt_zero)
  have "real_of_int k \<le> log 2 x"
    using assms(1) pos by (simp add: le_log_iff)
  moreover have "log 2 x < real_of_int (k + 1)"
    using assms(2) pos by (simp add: log_less_iff)
  ultimately show ?thesis by (simp add: floor_eq_iff)
qed

lemma double_binade:
  assumes "2 powr real_of_int k \<le> \<bar>x\<bar>" "\<bar>x\<bar> < 2 powr real_of_int (k + 1)"
  shows "double x = real_of_int (py_round (x / 2 powr real_of_int (k - 52))) * 2 powr real_of_int (k - 52)"
proof -
  have "x \<noteq> 0" using assms(1) by (smt (verit) powr_gt_zero)
  then show ?thesis
    using floor_log2_eq [OF assms] by (simp add: double_def Let_def)
qed

lemma double_of_int:
  assumes "\<bar>n\<bar> < 2 ^ 53"
  shows "double (real_of_int n) = real_of_int n"
proof (cases "n = 0")
  case True
  then show ?thesis by (simp add: double_def)
next
  case False
  define x where "x = \<bar>real_of_int n\<bar>"
  have x1: "1 \<le> x" using False by (simp add: x_def)
  have x2: "x < 2 ^ 53" using assms unfolding x_def
    by (metis of_int_abs of_int_less_numeral_power_cancel_iff)
  define k where "k = \<lfloor>log 2 x\<rfloor>"
  have k0: "0 \<le> k" using x1 by (simp add: k_def)
  have "log 2 x < 53"
    using x1 x2 by (simp add: log_less_iff powr_realpow [symmetric])
  then have k52: "k \<le> 52" by (simp add: k_def floor_le_iff)
  define m where "m = nat (52 - k)"
  have e: "2 powr real_of_int (k - 52) = 1 / 2 ^ m"
  proof (subst powr_real_of_int)
    show "(0::real) < 2" by simp
    have "nat (- (k - 52)) = m" by (simp add: m_def)
    moreover have "k - 52 \<ge> 0 \<Longrightarrow> m = 0 \<and> nat (k - 52) = 0" using k52 by (simp add: m_def)
    ultimately show "(if 0 \<le> k - 52 then (2::real) ^ nat (k - 52) else inverse (2 ^ nat (- (k - 52))))
        = 1 / 2 ^ m"
      by (auto simp: inverse_eq_divide)
  qed
  have "real_of_int n / (1 / 2 ^ m) = real_of_int (n * 2 ^ m)" by simp
  then have r: "py_round (real_of_int n / 2 powr real_of_int (k - 52)) = n * 2 ^ m"
    unfolding e using py_round_of_int [of "n * 2 ^ m"] by simp
  have e': "2 powr (real_of_int k - 52) = 1 / 2 ^ m" using e by simp
  have r': "py_round (real_of_int n * 2 ^ m) = n * 2 ^ m"
    using py_round_of_int [of "n * 2 ^ m"] by simp
  show ?thesis
    using False
    by (simp add: double_def Let_def x_def [symmetric] k_def [symmetric] e' r')
qed

lemma double_zero [simp]: "double 0 = 0"
  by (simp add: double_def)

lemma double_one [simp]: "double 1 = 1"
  using double_of_int [of 1] by simp

lemma double_minus_one [simp]: "double (- 1) = - 1"
  using double_of_int [of "- 1"] by simp

lemma double_numeral [simp]:
  "numeral w < (2::int) ^ 53 \<Longrightarrow> double (numeral w) = numeral w"
  using double_of_int [of "numeral w"] by simp

text \<open>
  The double nearest to \<open>x\<close> when \<open>x\<close> scaled by \<open>2^b\<close> has a 53-bit integer part:
  the scaled number rounded to an integer, a tie to the even one, scaled back.
\<close>

lemma double_round:
  fixes b :: nat
  assumes "2 ^ 52 \<le> \<bar>x\<bar> * 2 ^ b" "\<bar>x\<bar> * 2 ^ b < 2 ^ 53"
  shows "double x = real_of_int (py_round (x * 2 ^ b)) / 2 ^ b"
proof -
  define k where "k = 52 - int b"
  have pb: "2 powr real b = (2::real) ^ b" by (simp add: powr_realpow)
  have p: "2 powr real_of_int k = 2 ^ 52 / 2 ^ b"
  proof -
    have "real_of_int k = 52 - real b" by (simp add: k_def)
    then have "2 powr real_of_int k = 2 powr 52 / 2 powr real b"
      by (simp only: powr_diff)
    then show ?thesis by (simp only: pb) simp
  qed
  have q: "2 powr real_of_int (k + 1) = 2 ^ 53 / 2 ^ b"
  proof -
    have "real_of_int (k + 1) = 53 - real b" by (simp add: k_def)
    then have "2 powr real_of_int (k + 1) = 2 powr 53 / 2 powr real b"
      by (simp only: powr_diff)
    then show ?thesis by (simp only: pb) simp
  qed
  have s: "2 powr real_of_int (k - 52) = 1 / 2 ^ b"
  proof -
    have "real_of_int (k - 52) = 0 - real b" by (simp add: k_def)
    then have "2 powr real_of_int (k - 52) = 2 powr 0 / 2 powr real b"
      by (simp only: powr_diff)
    then show ?thesis by (simp only: pb) simp
  qed
  have pos: "(0::real) < 2 ^ b" by simp
  have lo: "2 powr real_of_int k \<le> \<bar>x\<bar>"
    unfolding p using assms(1) pos by (simp only: pos_divide_le_eq)
  have hi: "\<bar>x\<bar> < 2 powr real_of_int (k + 1)"
    unfolding q using assms(2) pos by (simp only: pos_less_divide_eq)
  have "double x = real_of_int (py_round (x / (1 / 2 ^ b))) * (1 / 2 ^ b)"
    using double_binade [OF lo hi] by (simp only: s)
  then show ?thesis by simp
qed

subsection \<open>Navigation into the galactic barrier\<close>

text \<open>
  The loop stops at the barrier exactly when some pass of its body, among the
  \<open>sectors_to_move\<close> it may make, leaves a quadrant coordinate outside \<open>[0, 8)\<close>.
\<close>

lemma nav_steps_Barrier_iff:
  "nav_steps n dr dc v = Barrier
     \<longleftrightarrow> (\<exists>k. 1 \<le> k \<and> k \<le> n \<and> outside_galaxy ((nav_step dr dc ^^ k) v))"
proof (induction n arbitrary: v)
  case 0
  then show ?case by (simp split: prod.splits)
next
  case (Suc n)
  show ?case
  proof (cases "outside_galaxy (nav_step dr dc v)")
    case True
    then have "\<exists>k. 1 \<le> k \<and> k \<le> Suc n \<and> outside_galaxy ((nav_step dr dc ^^ k) v)"
      by (intro exI [of _ 1]) simp
    then show ?thesis using True by simp
  next
    case False
    have "(\<exists>k. 1 \<le> k \<and> k \<le> Suc n \<and> outside_galaxy ((nav_step dr dc ^^ k) v))
        \<longleftrightarrow> (\<exists>k. 1 \<le> k \<and> k \<le> n \<and> outside_galaxy ((nav_step dr dc ^^ k) (nav_step dr dc v)))"
    proof
      assume "\<exists>k. 1 \<le> k \<and> k \<le> Suc n \<and> outside_galaxy ((nav_step dr dc ^^ k) v)"
      then obtain k where k: "1 \<le> k" "k \<le> Suc n" "outside_galaxy ((nav_step dr dc ^^ k) v)"
        by blast
      have "k \<noteq> 1" using k(3) False by auto
      then obtain j where j: "k = Suc j" "1 \<le> j" using k(1) by (cases k) auto
      have "outside_galaxy ((nav_step dr dc ^^ j) (nav_step dr dc v))"
        using k(3) by (simp add: j funpow_swap1)
      then show "\<exists>k. 1 \<le> k \<and> k \<le> n \<and> outside_galaxy ((nav_step dr dc ^^ k) (nav_step dr dc v))"
        using j k(2) by auto
    next
      assume "\<exists>k. 1 \<le> k \<and> k \<le> n \<and> outside_galaxy ((nav_step dr dc ^^ k) (nav_step dr dc v))"
      then obtain j where j: "1 \<le> j" "j \<le> n"
        "outside_galaxy ((nav_step dr dc ^^ j) (nav_step dr dc v))" by blast
      have "outside_galaxy ((nav_step dr dc ^^ Suc j) v)"
        using j(3) by (simp add: funpow_swap1)
      then show "\<exists>k. 1 \<le> k \<and> k \<le> Suc n \<and> outside_galaxy ((nav_step dr dc ^^ k) v)"
        using j by (intro exI [of _ "Suc j"]) simp
    qed
    then show ?thesis using False Suc.IH [of "nav_step dr dc v"] by simp
  qed
qed

text \<open>A course in \<open>[1, 9]\<close> always has a direction vector: no lookup fails.\<close>

lemma nav_course_delta_total:
  assumes "1 \<le> course" "course \<le> 9"
  shows "\<exists>dr dc. nav_course_delta course = Inr (dr, dc)"
proof (cases "course < 9")
  case False
  then show ?thesis
    by (auto simp: nav_course_delta_def nav_direction_deltas_def Let_def)
next
  case True
  define k where "k = \<lfloor>course\<rfloor>"
  have "1 \<le> k" using assms by (simp add: k_def le_floor_iff)
  moreover have "k < 9" using True by (simp add: k_def floor_less_iff)
  ultimately have "k = 1 \<or> k = 2 \<or> k = 3 \<or> k = 4 \<or> k = 5 \<or> k = 6 \<or> k = 7 \<or> k = 8"
    by arith
  moreover have "py_int course = k"
    using assms by (simp add: py_int_def k_def)
  ultimately have "py_int course \<in> {1, 2, 3, 4, 5, 6, 7, 8}" by auto
  then show ?thesis using True
    by (auto simp: nav_course_delta_def nav_direction_deltas_def Let_def)
qed


lemma set_quadrant_same:
  "r < length (quadrants gal) \<Longrightarrow> c < length (quadrants gal ! r) \<Longrightarrow>
   set_quadrant gal r c (quadrants gal ! r ! c) = gal"
  by (simp add: set_quadrant_def)

text \<open>
  Claim C3. The ship is in a quadrant of the galaxy, in a sector of its 8 by 8 map, and
  that cell holds ENTERPRISE. The course, the warp factor and the energy pass the checks
  of \<open>execute_nav\<close>, and after \<open>k\<close> passes of the loop, \<open>k\<close> between 1 and
  \<open>sectors_to_move\<close>, a quadrant coordinate is outside \<open>[0, 8)\<close>, the sums of the loop
  being made in double arithmetic. Then the command returns the failure
  Galactic_barrier; no energy is deducted, the position of the ship and the whole galaxy,
  the sector map with its ENTERPRISE cell included, are as before the command. Of the ship
  only the docked flag may differ: the undocking made before the move is not undone.
\<close>

theorem execute_nav_barrier_restores:
  assumes warp_ok: "can_warp (enterprise h)"
    and course: "1 \<le> course" "course \<le> 9"
    and warp: "0 < warp" "warp \<le> 8"
    and fuel: "py_int (double (warp * 8)) + 10 \<le> energy (enterprise h)"
    and gal: "galaxy_ok (galaxy h)"
    and quad: "0 \<le> quadrant_row (enterprise h)" "quadrant_row (enterprise h) < 8"
              "0 \<le> quadrant_col (enterprise h)" "quadrant_col (enterprise h) < 8"
    and cur: "get_current_quadrant h = Some q"
    and smap: "sector_map_ok (sector_map q)"
    and sect: "0 \<le> sector_row (enterprise h)" "sector_row (enterprise h) < 8"
              "0 \<le> sector_col (enterprise h)" "sector_col (enterprise h) < 8"
    and ship: "sector_map q ! nat (sector_row (enterprise h)) ! nat (sector_col (enterprise h))
                 = ENTERPRISE"
    and delta: "nav_course_delta course = Inr (dr, dc)"
    and step: "1 \<le> k" "k \<le> nat (py_int (double (warp * 8)))"
    and out: "outside_galaxy (nav_vars_after k dr dc (enterprise h))"
  shows "execute_nav (Some course) (Some warp) h g
           = Some (Inr (new_CommandResult False Galactic_barrier),
                   h\<lparr>enterprise := (enterprise h)\<lparr>docked := False\<rparr>\<rparr>, g)"
proof -
  define h1 where "h1 = (if docked (enterprise h) then h\<lparr>enterprise := undock (enterprise h)\<rparr> else h)"
  have h1: "h1 = h\<lparr>enterprise := (enterprise h)\<lparr>docked := False\<rparr>\<rparr>"
    by (simp add: h1_def undock_def)
  have pos: "sector_row (enterprise h1) = sector_row (enterprise h)"
    "sector_col (enterprise h1) = sector_col (enterprise h)"
    "quadrant_row (enterprise h1) = quadrant_row (enterprise h)"
    "quadrant_col (enterprise h1) = quadrant_col (enterprise h)"
    "galaxy h1 = galaxy h"
    by (simp_all add: h1)
  have start: "nav_start (enterprise h1) = nav_start (enterprise h)"
    by (simp add: nav_start_def pos)
  have barrier: "nav_steps (nat (py_int (double (warp * 8)))) dr dc (nav_start (enterprise h))
                   = Barrier"
    using step out unfolding nav_steps_Barrier_iff nav_vars_after_def by blast
  have cur1: "get_current_quadrant h1 = Some q"
    using cur by (simp add: get_current_quadrant_def pos)
  have q: "q = quadrants (galaxy h) ! nat (quadrant_row (enterprise h)) ! nat (quadrant_col (enterprise h))"
    using cur quad by (simp add: get_current_quadrant_def get_quadrant_def)
  let ?i = "nat (sector_row (enterprise h))" and ?j = "nat (sector_col (enterprise h))"
  let ?m = "sector_map q"
  have len: "length ?m = 8" "?i < 8" "?j < 8" "length (?m ! ?i) = 8"
    using smap sect by (auto simp: sector_map_ok_def list_all_length)
  have ne: "?m \<noteq> []" using len by auto
  have rem: "remove_enterprise q (sector_row (enterprise h)) (sector_col (enterprise h))
               = q\<lparr>sector_map := ?m[?i := (?m ! ?i)[?j := EMPTY]]\<rparr>"
    using ne sect ship by (simp add: remove_enterprise_def)
  have put: "sector_set (?m[?i := (?m ! ?i)[?j := EMPTY]]) (sector_row (enterprise h))
               (sector_col (enterprise h)) ENTERPRISE = Inr ?m"
  proof -
    have "(?m ! ?i)[?j := ENTERPRISE] = ?m ! ?i"
      using ship by (metis list_update_id)
    then show ?thesis
      using len sect by (simp add: sector_set_def py_index_def Let_def)
  qed
  have wb: "set_current_quadrant h1 (q\<lparr>sector_map := ?m\<rparr>) = h1"
  proof -
    have "nat (quadrant_row (enterprise h)) < length (quadrants (galaxy h))"
      using gal quad by (simp add: galaxy_ok_def)
    moreover have "nat (quadrant_col (enterprise h))
        < length (quadrants (galaxy h) ! nat (quadrant_row (enterprise h)))"
      using gal quad by (simp add: galaxy_ok_def list_all_length)
    ultimately show ?thesis
      using set_quadrant_same [of "nat (quadrant_row (enterprise h))" "galaxy h"
          "nat (quadrant_col (enterprise h))"]
      by (simp add: set_current_quadrant_def pos q [symmetric])
  qed
  have nz: "warp \<noteq> 0" "\<not> warp < 0" "\<not> warp > 8" "\<not> course < 1" "\<not> course > 9"
    using warp course by auto
  have "execute_nav (Some course) (Some warp) h g
          = Some (Inr (new_CommandResult False Galactic_barrier), h1, g)"
    using warp_ok fuel
    by (simp add: execute_nav_def nz Let_def h1_def [symmetric] delta cur1 pos start rem barrier
        put wb [simplified])
  then show ?thesis by (simp add: h1)
qed

text \<open>
  Course 1.75 at warp 0.625 from sector (3, 0) of quadrant (0, 0). The unit vector of
  the course is the pair of doubles nearest to (-0.6, 0.8). The row after the passes
  1 to 4 is 2.4, 1.7999999999999998, 1.1999999999999997 and 0.5999999999999998; the
  fifth sum is \<open>-2^-52\<close>, below 0, so the quadrant row becomes -1: the barrier. In
  exact arithmetic the fifth row would be 0 and the ship would arrive.
\<close>

lemma nav_course_delta_7_4:
  "nav_course_delta (7 / 4)
     = Inr (- (5404319552844595 / 9007199254740992),
            3602879701896397 / 4503599627370496)"
proof -
  have i: "py_int (7 / 4) = 1" by (simp add: py_int_def)
  have r: "sqrt (25 / 16) = 5 / 4"
    by (rule real_sqrt_unique) (simp_all add: power2_eq_square)
  have d1: "double (3 / 4) = 3 / 4"
    using double_round [of "3 / 4" 53]
    by (simp add: py_round_def Let_def)
  have d2: "double (1 / 4) = 1 / 4"
    using double_round [of "1 / 4" 54]
    by (simp add: py_round_def Let_def)
  have d3: "double (- (3 / 4)) = - (3 / 4)"
    using double_round [of "- (3 / 4)" 53]
    by (simp add: py_round_def Let_def)
  have d4: "double (9 / 16) = 9 / 16"
    using double_round [of "9 / 16" 53]
    by (simp add: py_round_def Let_def)
  have d5: "double (25 / 16) = 25 / 16"
    using double_round [of "25 / 16" 52]
    by (simp add: py_round_def Let_def)
  have d6: "double (5 / 4) = 5 / 4"
    using double_round [of "5 / 4" 52]
    by (simp add: py_round_def Let_def)
  have d7: "double (- (3 / 5)) = - (5404319552844595 / 9007199254740992)"
    using double_round [of "- (3 / 5)" 53]
    by (simp add: py_round_def Let_def)
  have d8: "double (4 / 5) = 3602879701896397 / 4503599627370496"
    using double_round [of "4 / 5" 53]
    by (simp add: py_round_def Let_def)
  note d = d1 d2 d3 d4 d5 d6 d7 d8
  show ?thesis
    by (simp add: nav_course_delta_def nav_direction_deltas_def Let_def power2_eq_square i r d)
qed

lemma nav_step_north:
  "nav_step (- (5404319552844595 / 9007199254740992)) (3602879701896397 / 4503599627370496)
     (3, 0, 0, 0, False)
     = (5404319552844595 / 2251799813685248, 3602879701896397 / 4503599627370496, 0, 0, False)"
  "nav_step (- (5404319552844595 / 9007199254740992)) (3602879701896397 / 4503599627370496)
     (5404319552844595 / 2251799813685248, 3602879701896397 / 4503599627370496, 0, 0, False)
     = (2026619832316723 / 1125899906842624, 3602879701896397 / 2251799813685248, 0, 0, False)"
  "nav_step (- (5404319552844595 / 9007199254740992)) (3602879701896397 / 4503599627370496)
     (2026619832316723 / 1125899906842624, 3602879701896397 / 2251799813685248, 0, 0, False)
     = (2702159776422297 / 2251799813685248, 1351079888211149 / 562949953421312, 0, 0, False)"
  "nav_step (- (5404319552844595 / 9007199254740992)) (3602879701896397 / 4503599627370496)
     (2702159776422297 / 2251799813685248, 1351079888211149 / 562949953421312, 0, 0, False)
     = (5404319552844593 / 9007199254740992, 3602879701896397 / 1125899906842624, 0, 0, False)"
  "nav_step (- (5404319552844595 / 9007199254740992)) (3602879701896397 / 4503599627370496)
     (5404319552844593 / 9007199254740992, 3602879701896397 / 1125899906842624, 0, 0, False)
     = (8, 4, - 1, 0, True)"
proof -
  have d1: "double (21617278211378381 / 9007199254740992) = 5404319552844595 / 2251799813685248"
    using double_round [of "21617278211378381 / 9007199254740992" 51]
    by (simp add: py_round_def Let_def)
  have d2: "double (3602879701896397 / 4503599627370496) = 3602879701896397 / 4503599627370496"
    using double_round [of "3602879701896397 / 4503599627370496" 53]
    by (simp add: py_round_def Let_def)
  have d3: "double (16212958658533785 / 9007199254740992) = 2026619832316723 / 1125899906842624"
    using double_round [of "16212958658533785 / 9007199254740992" 52]
    by (simp add: py_round_def Let_def)
  have d4: "double (3602879701896397 / 2251799813685248) = 3602879701896397 / 2251799813685248"
    using double_round [of "3602879701896397 / 2251799813685248" 52]
    by (simp add: py_round_def Let_def)
  have d5: "double (10808639105689189 / 9007199254740992) = 2702159776422297 / 2251799813685248"
    using double_round [of "10808639105689189 / 9007199254740992" 52]
    by (simp add: py_round_def Let_def)
  have d6: "double (10808639105689191 / 4503599627370496) = 1351079888211149 / 562949953421312"
    using double_round [of "10808639105689191 / 4503599627370496" 51]
    by (simp add: py_round_def Let_def)
  have d7: "double (5404319552844593 / 9007199254740992) = 5404319552844593 / 9007199254740992"
    using double_round [of "5404319552844593 / 9007199254740992" 53]
    by (simp add: py_round_def Let_def)
  have d8: "double (14411518807585589 / 4503599627370496) = 3602879701896397 / 1125899906842624"
    using double_round [of "14411518807585589 / 4503599627370496" 51]
    by (simp add: py_round_def Let_def)
  have d9: "double (- (1 / 4503599627370496)) = - (1 / 4503599627370496)"
    using double_round [of "- (1 / 4503599627370496)" 104]
    by (simp add: py_round_def Let_def)
  have d10: "double (18014398509481985 / 4503599627370496) = 4"
    using double_round [of "18014398509481985 / 4503599627370496" 50]
    by (simp add: py_round_def Let_def)
  have d11: "double (36028797018963967 / 4503599627370496) = 8"
    using double_round [of "36028797018963967 / 4503599627370496" 50]
    by (simp add: py_round_def Let_def)
  note d = d1 d2 d3 d4 d5 d6 d7 d8 d9 d10 d11
  show "nav_step (- (5404319552844595 / 9007199254740992)) (3602879701896397 / 4503599627370496)
     (3, 0, 0, 0, False)
     = (5404319552844595 / 2251799813685248, 3602879701896397 / 4503599627370496, 0, 0, False)"
    by (simp add: nav_step_def Let_def d)
  show "nav_step (- (5404319552844595 / 9007199254740992)) (3602879701896397 / 4503599627370496)
     (5404319552844595 / 2251799813685248, 3602879701896397 / 4503599627370496, 0, 0, False)
     = (2026619832316723 / 1125899906842624, 3602879701896397 / 2251799813685248, 0, 0, False)"
    by (simp add: nav_step_def Let_def d)
  show "nav_step (- (5404319552844595 / 9007199254740992)) (3602879701896397 / 4503599627370496)
     (2026619832316723 / 1125899906842624, 3602879701896397 / 2251799813685248, 0, 0, False)
     = (2702159776422297 / 2251799813685248, 1351079888211149 / 562949953421312, 0, 0, False)"
    by (simp add: nav_step_def Let_def d)
  show "nav_step (- (5404319552844595 / 9007199254740992)) (3602879701896397 / 4503599627370496)
     (2702159776422297 / 2251799813685248, 1351079888211149 / 562949953421312, 0, 0, False)
     = (5404319552844593 / 9007199254740992, 3602879701896397 / 1125899906842624, 0, 0, False)"
    by (simp add: nav_step_def Let_def d)
  show "nav_step (- (5404319552844595 / 9007199254740992)) (3602879701896397 / 4503599627370496)
     (5404319552844593 / 9007199254740992, 3602879701896397 / 1125899906842624, 0, 0, False)
     = (8, 4, - 1, 0, True)"
    by (simp add: nav_step_def Let_def d)
qed

lemma nav_vars_after_north:
  "nav_vars_after 4 (- (5404319552844595 / 9007199254740992)) (3602879701896397 / 4503599627370496) (enterprise edge_game)
     = (5404319552844593 / 9007199254740992, 3602879701896397 / 1125899906842624, 0, 0, False)"
  "nav_vars_after 5 (- (5404319552844595 / 9007199254740992)) (3602879701896397 / 4503599627370496) (enterprise edge_game) = (8, 4, - 1, 0, True)"
  by (simp_all add: nav_vars_after_def nav_start_def edge_game_def new_Enterprise_def
      eval_nat_numeral nav_step_north)

text \<open>
  Course 8.25 at warp 0.625 from sector (5, 0) of quadrant (7, 0), the southern edge:
  the row after the fifth pass is 7.999999999999998, below 8, and the loop ends inside
  the galaxy. In exact arithmetic the fifth row would be 8 and the barrier reached.
\<close>

lemma nav_course_delta_33_4:
  "nav_course_delta (33 / 4)
     = Inr (5404319552844595 / 9007199254740992,
            3602879701896397 / 4503599627370496)"
proof -
  have i: "py_int (33 / 4) = 8" by (simp add: py_int_def)
  have r: "sqrt (25 / 16) = 5 / 4"
    by (rule real_sqrt_unique) (simp_all add: power2_eq_square)
  have d1: "double (1 / 4) = 1 / 4"
    using double_round [of "1 / 4" 54]
    by (simp add: py_round_def Let_def)
  have d2: "double (3 / 4) = 3 / 4"
    using double_round [of "3 / 4" 53]
    by (simp add: py_round_def Let_def)
  have d3: "double (9 / 16) = 9 / 16"
    using double_round [of "9 / 16" 53]
    by (simp add: py_round_def Let_def)
  have d4: "double (25 / 16) = 25 / 16"
    using double_round [of "25 / 16" 52]
    by (simp add: py_round_def Let_def)
  have d5: "double (5 / 4) = 5 / 4"
    using double_round [of "5 / 4" 52]
    by (simp add: py_round_def Let_def)
  have d6: "double (3 / 5) = 5404319552844595 / 9007199254740992"
    using double_round [of "3 / 5" 53]
    by (simp add: py_round_def Let_def)
  have d7: "double (4 / 5) = 3602879701896397 / 4503599627370496"
    using double_round [of "4 / 5" 53]
    by (simp add: py_round_def Let_def)
  note d = d1 d2 d3 d4 d5 d6 d7
  show ?thesis
    by (simp add: nav_course_delta_def nav_direction_deltas_def Let_def power2_eq_square i r d)
qed

lemma nav_step_south:
  "nav_step (5404319552844595 / 9007199254740992) (3602879701896397 / 4503599627370496)
     (5, 0, 7, 0, False)
     = (3152519739159347 / 562949953421312, 3602879701896397 / 4503599627370496, 7, 0, False)"
  "nav_step (5404319552844595 / 9007199254740992) (3602879701896397 / 4503599627370496)
     (3152519739159347 / 562949953421312, 3602879701896397 / 4503599627370496, 7, 0, False)
     = (1745144855606067 / 281474976710656, 3602879701896397 / 2251799813685248, 7, 0, False)"
  "nav_step (5404319552844595 / 9007199254740992) (3602879701896397 / 4503599627370496)
     (1745144855606067 / 281474976710656, 3602879701896397 / 2251799813685248, 7, 0, False)
     = (3828059683264921 / 562949953421312, 1351079888211149 / 562949953421312, 7, 0, False)"
  "nav_step (5404319552844595 / 9007199254740992) (3602879701896397 / 4503599627370496)
     (3828059683264921 / 562949953421312, 1351079888211149 / 562949953421312, 7, 0, False)
     = (1041457413829427 / 140737488355328, 3602879701896397 / 1125899906842624, 7, 0, False)"
  "nav_step (5404319552844595 / 9007199254740992) (3602879701896397 / 4503599627370496)
     (1041457413829427 / 140737488355328, 3602879701896397 / 1125899906842624, 7, 0, False)
     = (4503599627370495 / 562949953421312, 4, 7, 0, False)"
proof -
  have d1: "double (50440315826549555 / 9007199254740992) = 3152519739159347 / 562949953421312"
    using double_round [of "50440315826549555 / 9007199254740992" 50]
    by (simp add: py_round_def Let_def)
  have d2: "double (3602879701896397 / 4503599627370496) = 3602879701896397 / 4503599627370496"
    using double_round [of "3602879701896397 / 4503599627370496" 53]
    by (simp add: py_round_def Let_def)
  have d3: "double (55844635379394147 / 9007199254740992) = 1745144855606067 / 281474976710656"
    using double_round [of "55844635379394147 / 9007199254740992" 50]
    by (simp add: py_round_def Let_def)
  have d4: "double (3602879701896397 / 2251799813685248) = 3602879701896397 / 2251799813685248"
    using double_round [of "3602879701896397 / 2251799813685248" 52]
    by (simp add: py_round_def Let_def)
  have d5: "double (61248954932238739 / 9007199254740992) = 3828059683264921 / 562949953421312"
    using double_round [of "61248954932238739 / 9007199254740992" 50]
    by (simp add: py_round_def Let_def)
  have d6: "double (10808639105689191 / 4503599627370496) = 1351079888211149 / 562949953421312"
    using double_round [of "10808639105689191 / 4503599627370496" 51]
    by (simp add: py_round_def Let_def)
  have d7: "double (66653274485083331 / 9007199254740992) = 1041457413829427 / 140737488355328"
    using double_round [of "66653274485083331 / 9007199254740992" 50]
    by (simp add: py_round_def Let_def)
  have d8: "double (14411518807585589 / 4503599627370496) = 3602879701896397 / 1125899906842624"
    using double_round [of "14411518807585589 / 4503599627370496" 51]
    by (simp add: py_round_def Let_def)
  have d9: "double (72057594037927923 / 9007199254740992) = 4503599627370495 / 562949953421312"
    using double_round [of "72057594037927923 / 9007199254740992" 50]
    by (simp add: py_round_def Let_def)
  have d10: "double (18014398509481985 / 4503599627370496) = 4"
    using double_round [of "18014398509481985 / 4503599627370496" 50]
    by (simp add: py_round_def Let_def)
  note d = d1 d2 d3 d4 d5 d6 d7 d8 d9 d10
  show "nav_step (5404319552844595 / 9007199254740992) (3602879701896397 / 4503599627370496)
     (5, 0, 7, 0, False)
     = (3152519739159347 / 562949953421312, 3602879701896397 / 4503599627370496, 7, 0, False)"
    by (simp add: nav_step_def Let_def d)
  show "nav_step (5404319552844595 / 9007199254740992) (3602879701896397 / 4503599627370496)
     (3152519739159347 / 562949953421312, 3602879701896397 / 4503599627370496, 7, 0, False)
     = (1745144855606067 / 281474976710656, 3602879701896397 / 2251799813685248, 7, 0, False)"
    by (simp add: nav_step_def Let_def d)
  show "nav_step (5404319552844595 / 9007199254740992) (3602879701896397 / 4503599627370496)
     (1745144855606067 / 281474976710656, 3602879701896397 / 2251799813685248, 7, 0, False)
     = (3828059683264921 / 562949953421312, 1351079888211149 / 562949953421312, 7, 0, False)"
    by (simp add: nav_step_def Let_def d)
  show "nav_step (5404319552844595 / 9007199254740992) (3602879701896397 / 4503599627370496)
     (3828059683264921 / 562949953421312, 1351079888211149 / 562949953421312, 7, 0, False)
     = (1041457413829427 / 140737488355328, 3602879701896397 / 1125899906842624, 7, 0, False)"
    by (simp add: nav_step_def Let_def d)
  show "nav_step (5404319552844595 / 9007199254740992) (3602879701896397 / 4503599627370496)
     (1041457413829427 / 140737488355328, 3602879701896397 / 1125899906842624, 7, 0, False)
     = (4503599627370495 / 562949953421312, 4, 7, 0, False)"
    by (simp add: nav_step_def Let_def d)
qed

lemma nav_steps_south:
  "nav_steps 5 (5404319552844595 / 9007199254740992) (3602879701896397 / 4503599627370496) (5, 0, 7, 0, False)
     = Arrived (4503599627370495 / 562949953421312) 4 7 0 False"
  by (simp add: eval_nat_numeral nav_step_south outside_galaxy_def)

text \<open>
  The theorem in \<open>edge_game\<close>, at course 1.75 and warp 0.625: after 4 passes the ship
  is still in quadrant (0, 0), the fifth takes the quadrant row to -1. And the theorem
  in \<open>starbase_game\<close> with the ship docked: course 5 (west) at warp 1 leaves the
  galaxy at the first pass, the quadrant column going from 0 to -1, and the ship is
  left undocked.
\<close>

lemma edge_game_ok: "galaxy_ok (galaxy edge_game)"
  by (simp add: edge_game_def galaxy_ok_def upto_1_7)

lemma edge_game_current: "get_current_quadrant edge_game = Some edge_quadrant"
  by (simp add: edge_game_def get_current_quadrant_def get_quadrant_def new_Enterprise_def)

lemma starbase_game_ok: "galaxy_ok (galaxy starbase_game)"
  by (simp add: starbase_game_def galaxy_ok_def upto_1_7)

lemma nav_course_delta_west: "nav_course_delta 5 = Inr (0, - 1)"
proof -
  have "py_int 5 = 5" by (simp add: py_int_def)
  then show ?thesis
    by (simp add: nav_course_delta_def nav_direction_deltas_def Let_def)
qed

theorem execute_nav_barrier_restores_witness:
  "nav_course_delta (7 / 4) = Inr (- (5404319552844595 / 9007199254740992), 3602879701896397 / 4503599627370496)
   \<and> py_int (double (5 / 8 * 8)) = 5
   \<and> nav_vars_after 4 (- (5404319552844595 / 9007199254740992)) (3602879701896397 / 4503599627370496) (enterprise edge_game)
       = (5404319552844593 / 9007199254740992, 3602879701896397 / 1125899906842624, 0, 0, False)
   \<and> nav_vars_after 5 (- (5404319552844595 / 9007199254740992)) (3602879701896397 / 4503599627370496) (enterprise edge_game) = (8, 4, - 1, 0, True)
   \<and> execute_nav (Some (7 / 4)) (Some (5 / 8)) edge_game (\<lambda>_. 0)
       = Some (Inr (new_CommandResult False Galactic_barrier), edge_game, \<lambda>_. 0)
   \<and> nav_course_delta 5 = Inr (0, - 1)
   \<and> py_int (double (1 * 8)) = 8
   \<and> nav_vars_after 1 0 (- 1) (new_Enterprise\<lparr>docked := True\<rparr>) = (0, 7, 0, - 1, True)
   \<and> execute_nav (Some 5) (Some 1)
       (starbase_game\<lparr>enterprise := new_Enterprise\<lparr>docked := True\<rparr>\<rparr>) (\<lambda>_. 0)
       = Some (Inr (new_CommandResult False Galactic_barrier), starbase_game, \<lambda>_. 0)"
proof -
  let ?h = "starbase_game\<lparr>enterprise := new_Enterprise\<lparr>docked := True\<rparr>\<rparr>"
  have i5: "py_int (double (5 / 8 * 8)) = 5" by (simp add: py_int_def)
  have i8: "py_int (double (1 * 8)) = 8" by (simp add: py_int_def)
  have out5: "outside_galaxy (nav_vars_after 5 (- (5404319552844595 / 9007199254740992)) (3602879701896397 / 4503599627370496) (enterprise edge_game))"
    by (simp add: nav_vars_after_north outside_galaxy_def)
  have sm5: "sector_map_ok (sector_map edge_quadrant)"
    by (simp add: sector_map_ok_def edge_quadrant_def new_Quadrant_def list_all_iff)
  have cell5: "sector_map edge_quadrant ! 3 ! 0 = ENTERPRISE"
    by (simp add: edge_quadrant_def new_Quadrant_def nth_append)
  have same5: "edge_game\<lparr>enterprise := (enterprise edge_game)\<lparr>docked := False\<rparr>\<rparr> = edge_game"
    by (simp add: edge_game_def new_Enterprise_def)
  have north: "execute_nav (Some (7 / 4)) (Some (5 / 8)) edge_game (\<lambda>_. 0)
     = Some (Inr (new_CommandResult False Galactic_barrier),
             edge_game\<lparr>enterprise := (enterprise edge_game)\<lparr>docked := False\<rparr>\<rparr>, \<lambda>_. 0)"
  proof (rule execute_nav_barrier_restores [where q = edge_quadrant and k = 5
        and dr = "- (5404319552844595 / 9007199254740992)" and dc = "3602879701896397 / 4503599627370496"])
    show "nav_course_delta (7 / 4) = Inr (- (5404319552844595 / 9007199254740992), 3602879701896397 / 4503599627370496)" by (rule nav_course_delta_7_4)
    show "outside_galaxy (nav_vars_after 5 (- (5404319552844595 / 9007199254740992)) (3602879701896397 / 4503599627370496) (enterprise edge_game))" by (rule out5)
    show "get_current_quadrant edge_game = Some edge_quadrant" by (rule edge_game_current)
    show "sector_map_ok (sector_map edge_quadrant)" by (rule sm5)
    show "galaxy_ok (galaxy edge_game)" by (rule edge_game_ok)
    show "5 \<le> nat (py_int (double (5 / 8 * 8)))" using i5 by simp
    show "py_int (double (5 / 8 * 8)) + 10 \<le> energy (enterprise edge_game)"
      using i5 by (simp add: edge_game_def new_Enterprise_def)
    show "sector_map edge_quadrant ! nat (sector_row (enterprise edge_game))
            ! nat (sector_col (enterprise edge_game)) = ENTERPRISE"
      using cell5 by (simp add: edge_game_def new_Enterprise_def)
  qed (simp_all add: edge_game_def new_Enterprise_def can_warp_def is_system_damaged_def)
  have after: "nav_vars_after 1 0 (- 1) (new_Enterprise\<lparr>docked := True\<rparr>) = (0, 7, 0, - 1, True)"
    by (simp add: nav_vars_after_def nav_start_def nav_step_def new_Enterprise_def Let_def)
  have out: "outside_galaxy (nav_vars_after 1 0 (- 1) (enterprise ?h))"
    using after by (simp add: outside_galaxy_def)
  have cur: "get_current_quadrant ?h = Some starbase_quadrant"
    using starbase_game_current
    by (simp add: get_current_quadrant_def new_Enterprise_def starbase_game_def)
  have sm: "sector_map_ok (sector_map starbase_quadrant)"
    by (simp add: sector_map_ok_def starbase_quadrant_def new_Quadrant_def list_all_iff)
  have cell: "sector_map starbase_quadrant ! 0 ! 0 = ENTERPRISE"
    by (simp add: starbase_quadrant_def new_Quadrant_def)
  have same: "?h\<lparr>enterprise := (enterprise ?h)\<lparr>docked := False\<rparr>\<rparr> = starbase_game"
    by (simp add: starbase_game_def new_Enterprise_def)
  have west: "execute_nav (Some 5) (Some 1) ?h (\<lambda>_. 0)
     = Some (Inr (new_CommandResult False Galactic_barrier),
             ?h\<lparr>enterprise := (enterprise ?h)\<lparr>docked := False\<rparr>\<rparr>, \<lambda>_. 0)"
    using execute_nav_barrier_restores [where h = ?h and course = 5 and warp = 1
        and q = starbase_quadrant and dr = 0 and dc = "- 1" and g = "\<lambda>_. 0" and k = 1]
      starbase_game_ok cur sm cell out nav_course_delta_west i8
    by (simp add: can_warp_def is_system_damaged_def new_Enterprise_def galaxy_ok_def)
  show ?thesis
    using north west same same5 after i8 i5 nav_course_delta_west nav_course_delta_7_4
      nav_vars_after_north
    by (simp only: simp_thms)
qed

section \<open>Properties of the galaxy\<close>

subsection \<open>Generation\<close>

lemma sum_list_update_int:
  "i < length xs \<Longrightarrow> sum_list (xs[i := x]) = sum_list xs - xs ! i + (x::int)"
  by (induction xs arbitrary: i) (auto split: nat.splits)

lemma galaxy_ok_nth:
  "galaxy_ok gal \<Longrightarrow> r < 8 \<Longrightarrow> length (quadrants gal ! r) = 8"
  by (simp add: galaxy_ok_def list_all_length)

lemma galaxy_ok_length: "galaxy_ok gal \<Longrightarrow> length (quadrants gal) = 8"
  by (simp add: galaxy_ok_def)

lemma quadrant_sum_set_quadrant:
  assumes "galaxy_ok gal" "r < 8" "c < 8"
  shows "quadrant_sum f (set_quadrant gal r c q)
           = quadrant_sum f gal - f (quadrants gal ! r ! c) + f q"
proof -
  have l: "length (quadrants gal) = 8" "length (quadrants gal ! r) = 8"
    using assms by (simp_all add: galaxy_ok_length galaxy_ok_nth)
  have "map (\<lambda>qs. sum_list (map f qs)) ((quadrants gal)[r := (quadrants gal ! r)[c := q]])
      = (map (\<lambda>qs. sum_list (map f qs)) (quadrants gal))
          [r := sum_list (map f (quadrants gal ! r)) - f (quadrants gal ! r ! c) + f q]"
    using assms l by (simp add: map_update sum_list_update_int)
  then show ?thesis
    using assms l by (simp add: quadrant_sum_def set_quadrant_def sum_list_update_int)
qed

lemma galaxy_ok_set_quadrant: "galaxy_ok gal \<Longrightarrow> galaxy_ok (set_quadrant gal r c q)"
proof (cases "r < length (quadrants gal)")
  case True
  assume "galaxy_ok gal"
  then show ?thesis using True
    by (auto simp: galaxy_ok_def set_quadrant_def list_all_length nth_list_update)
next
  case False
  assume "galaxy_ok gal"
  then show ?thesis using False by (simp add: galaxy_ok_def set_quadrant_def list_update_beyond)
qed

lemma nth_set_quadrant:
  assumes "galaxy_ok gal" "r < 8" "c < 8" "r' < 8" "c' < 8"
  shows "quadrants (set_quadrant gal r c q) ! r' ! c'
           = (if r' = r \<and> c' = c then q else quadrants gal ! r' ! c')"
  using assms galaxy_ok_length [of gal] galaxy_ok_nth [of gal r]
  by (simp add: set_quadrant_def nth_list_update)

lemma set_quadrant_fields [simp]:
  "total_klingons (set_quadrant gal r c q) = total_klingons gal"
  "total_starbases (set_quadrant gal r c q) = total_starbases gal"
  "initial_klingons (set_quadrant gal r c q) = initial_klingons gal"
  "stardate (set_quadrant gal r c q) = stardate gal"
  "time_limit (set_quadrant gal r c q) = time_limit gal"
  by (simp_all add: set_quadrant_def)

lemma starbases_nonneg_set_quadrant:
  assumes "list_all (list_all (\<lambda>q. 0 \<le> starbases q)) (quadrants gal)" "0 \<le> starbases q"
  shows "list_all (list_all (\<lambda>q. 0 \<le> starbases q)) (quadrants (set_quadrant gal r c q))"
proof (cases "r < length (quadrants gal)")
  case True
  have inner: "list_all (\<lambda>q. 0 \<le> starbases q) ((quadrants gal ! r)[c := q])"
  proof (cases "c < length (quadrants gal ! r)")
    case True
    then show ?thesis using assms \<open>r < length (quadrants gal)\<close>
      by (auto simp: list_all_length nth_list_update)
  next
    case False
    then show ?thesis using assms \<open>r < length (quadrants gal)\<close>
      by (simp add: list_all_length)
  qed
  show ?thesis using True assms(1) inner
    by (auto simp: set_quadrant_def list_all_length nth_list_update)
next
  case False
  then show ?thesis using assms by (simp add: set_quadrant_def list_update_beyond)
qed

lemma starbases_nonneg_nth:
  assumes "list_all (list_all (\<lambda>q. 0 \<le> starbases q)) (quadrants gal)" "galaxy_ok gal" "r < 8" "c < 8"
  shows "0 \<le> starbases (quadrants gal ! r ! c)"
  using assms galaxy_ok_length [of gal] galaxy_ok_nth [of gal r]
  by (simp add: list_all_length)

text \<open>The effect of one pass of the loop body on the counts.\<close>

lemma init_cell_form:
  "\<exists>K S N g'. 0 \<le> S \<and>
     init_cell gal r c g =
       (set_quadrant (gal\<lparr>total_klingons := total_klingons gal + K,
                          total_starbases := total_starbases gal + S\<rparr>) r c
          ((quadrants gal ! r ! c)\<lparr>klingons := K,
             starbases := (if S = 0 then starbases (quadrants gal ! r ! c) else 1),
             stars := N\<rparr>), g')
     \<and> (S = 0 \<or> S = 1)"
proof -
  obtain x g1 where x: "random_random g = (x, g1)" by (cases "random_random g")
  obtain y g2 where y: "random_random g1 = (y, g2)" by (cases "random_random g1")
  obtain n g3 where n: "random_randint 1 8 g2 = (n, g3)" by (cases "random_randint 1 8 g2")
  show ?thesis
  proof (cases "y < 0.04")
    case True
    show ?thesis
      apply (rule exI [of _ "if x < 0.08 then 3 else if x < 0.20 then 2 else if x < 0.50 then 1 else 0"])
      apply (rule exI [of _ 1], rule exI [of _ n], rule exI [of _ g3])
      using True by (simp add: init_cell_def x y n Let_def set_quadrant_def)
  next
    case False
    show ?thesis
      apply (rule exI [of _ "if x < 0.08 then 3 else if x < 0.20 then 2 else if x < 0.50 then 1 else 0"])
      apply (rule exI [of _ 0], rule exI [of _ n], rule exI [of _ g3])
      using False by (simp add: init_cell_def x y n Let_def set_quadrant_def)
  qed
qed

lemma init_cell_inv:
  assumes inv: "generation_inv gal" and rc: "r < 8" "c < 8"
    and fresh: "klingons (quadrants gal ! r ! c) = 0" "starbases (quadrants gal ! r ! c) = 0"
  shows "generation_inv (fst (init_cell gal r c g))
       \<and> (\<forall>r' < 8. \<forall>c' < 8. (r', c') \<noteq> (r, c) \<longrightarrow>
            quadrants (fst (init_cell gal r c g)) ! r' ! c' = quadrants gal ! r' ! c')"
proof -
  obtain K S N g' where S: "0 \<le> S" "S = 0 \<or> S = 1"
    and form: "init_cell gal r c g =
       (set_quadrant (gal\<lparr>total_klingons := total_klingons gal + K,
                          total_starbases := total_starbases gal + S\<rparr>) r c
          ((quadrants gal ! r ! c)\<lparr>klingons := K,
             starbases := (if S = 0 then starbases (quadrants gal ! r ! c) else 1),
             stars := N\<rparr>), g')"
    using init_cell_form [of gal r c g] by blast
  let ?gal1 = "gal\<lparr>total_klingons := total_klingons gal + K,
                    total_starbases := total_starbases gal + S\<rparr>"
  have ok: "galaxy_ok gal" using inv by (simp add: generation_inv_def)
  have ok1: "galaxy_ok ?gal1" using ok by (simp add: galaxy_ok_def)
  have qs: "quadrant_sum f ?gal1 = quadrant_sum f gal" for f
    by (simp add: quadrant_sum_def)
  have nn: "list_all (list_all (\<lambda>q. 0 \<le> starbases q)) (quadrants ?gal1)"
    using inv by (simp add: generation_inv_def)
  let ?q = "(quadrants gal ! r ! c)\<lparr>klingons := K,
             starbases := (if S = 0 then starbases (quadrants gal ! r ! c) else 1),
             stars := N\<rparr>"
  have a: "galaxy_ok (set_quadrant ?gal1 r c ?q)" by (rule galaxy_ok_set_quadrant [OF ok1])
  have b: "quadrant_sum klingons (set_quadrant ?gal1 r c ?q) = quadrant_sum klingons gal + K"
    using quadrant_sum_set_quadrant [OF ok1 rc, of klingons ?q] fresh by (simp add: qs)
  have c: "quadrant_sum starbases (set_quadrant ?gal1 r c ?q) = quadrant_sum starbases gal + S"
    using quadrant_sum_set_quadrant [OF ok1 rc, of starbases ?q] fresh S by (auto simp: qs)
  have d: "list_all (list_all (\<lambda>q. 0 \<le> starbases q)) (quadrants (set_quadrant ?gal1 r c ?q))"
    using fresh by (intro starbases_nonneg_set_quadrant [OF nn]) simp
  have "generation_inv (fst (init_cell gal r c g))"
    unfolding form fst_conv generation_inv_def
    using a b c d inv by (simp add: generation_inv_def)
  moreover have "\<forall>r' < 8. \<forall>c' < 8. (r', c') \<noteq> (r, c) \<longrightarrow>
            quadrants (fst (init_cell gal r c g)) ! r' ! c' = quadrants gal ! r' ! c'"
    unfolding form fst_conv
    using nth_set_quadrant [OF ok1 rc] by auto
  ultimately show ?thesis by blast
qed

lemma init_cells_inv:
  assumes "generation_inv gal"
    and "\<forall>(r, c) \<in> set cells. r < 8 \<and> c < 8
           \<and> klingons (quadrants gal ! r ! c) = 0 \<and> starbases (quadrants gal ! r ! c) = 0"
    and "distinct cells"
  shows "generation_inv (fst (init_cells cells gal g))"
  using assms
proof (induction cells arbitrary: gal g)
  case Nil
  then show ?case by simp
next
  case (Cons rc cells)
  obtain r c where rc: "rc = (r, c)" by (cases rc)
  obtain gal1 g1 where step: "init_cell gal r c g = (gal1, g1)" by (cases "init_cell gal r c g")
  have here: "r < 8" "c < 8" "klingons (quadrants gal ! r ! c) = 0"
    "starbases (quadrants gal ! r ! c) = 0"
    using Cons.prems(2) by (auto simp: rc)
  have s: "generation_inv gal1
       \<and> (\<forall>r' < 8. \<forall>c' < 8. (r', c') \<noteq> (r, c) \<longrightarrow>
            quadrants gal1 ! r' ! c' = quadrants gal ! r' ! c')"
    using init_cell_inv [OF Cons.prems(1) here, of g] by (simp add: step)
  have rest: "\<forall>(r', c') \<in> set cells. r' < 8 \<and> c' < 8
           \<and> klingons (quadrants gal1 ! r' ! c') = 0 \<and> starbases (quadrants gal1 ! r' ! c') = 0"
  proof (clarify)
    fix r' c' assume m: "(r', c') \<in> set cells"
    then have ne: "(r', c') \<noteq> (r, c)" using Cons.prems(3) by (auto simp: rc)
    have old: "r' < 8 \<and> c' < 8 \<and> klingons (quadrants gal ! r' ! c') = 0
         \<and> starbases (quadrants gal ! r' ! c') = 0"
      using Cons.prems(2) m by auto
    then have "quadrants gal1 ! r' ! c' = quadrants gal ! r' ! c'"
      using s ne by blast
    then show "r' < 8 \<and> c' < 8 \<and> klingons (quadrants gal1 ! r' ! c') = 0
         \<and> starbases (quadrants gal1 ! r' ! c') = 0"
      using old by simp
  qed
  have "generation_inv (fst (init_cells cells gal1 g1))"
    using Cons.IH [OF _ rest] s Cons.prems(3) by simp
  then show ?case by (simp add: rc step)
qed

lemma random_randint_range:
  assumes "a \<le> b"
  shows "a \<le> fst (random_randint a b g) \<and> fst (random_randint a b g) \<le> b"
proof -
  have m: "0 < b - a + 1" using assms by simp
  have lo: "0 \<le> int (g 0) mod (b - a + 1)" using m by (rule pos_mod_sign)
  have hi: "int (g 0) mod (b - a + 1) < b - a + 1" using m by (rule pos_mod_bound)
  show ?thesis using lo hi by (simp add: random_randint_def rng_next_def)
qed


lemma upto_0_7: "[0..7] = [0, 1, 2, 3, 4, 5, 6, 7::int]"
  by (simp add: upto.simps)

lemma starbases_sum_nonneg:
  assumes "list_all (list_all (\<lambda>q. 0 \<le> starbases q)) (quadrants gal)"
  shows "0 \<le> quadrant_sum starbases gal"
  unfolding quadrant_sum_def
  using assms by (auto intro!: sum_list_nonneg simp: list_all_iff)

lemma starbases_sum_zero:
  assumes nn: "list_all (list_all (\<lambda>q. 0 \<le> starbases q)) (quadrants gal)"
    and ok: "galaxy_ok gal" and rc: "r < 8" "c < 8"
    and z: "quadrant_sum starbases gal = 0"
  shows "starbases (quadrants gal ! r ! c) = 0"
proof -
  have l: "r < length (quadrants gal)" "c < length (quadrants gal ! r)"
    using ok rc by (simp_all add: galaxy_ok_length galaxy_ok_nth)
  define rs where "rs = map (\<lambda>qs. sum_list (map starbases qs)) (quadrants gal)"
  have rows: "\<And>x. x \<in> set rs \<Longrightarrow> 0 \<le> x"
    using nn by (auto intro!: sum_list_nonneg simp: list_all_iff rs_def)
  have "sum_list rs = 0" using z by (simp add: quadrant_sum_def rs_def)
  then have "\<forall>x \<in> set rs. x = 0"
    using sum_list_nonneg_eq_0_iff [of rs] rows by blast
  moreover have "sum_list (map starbases (quadrants gal ! r)) \<in> set rs"
    using l(1) by (auto simp: rs_def)
  ultimately have rz: "sum_list (map starbases (quadrants gal ! r)) = 0" by blast
  define cs where "cs = map starbases (quadrants gal ! r)"
  have cells: "\<And>x. x \<in> set cs \<Longrightarrow> 0 \<le> x"
    using nn l(1) by (auto simp: list_all_iff cs_def)
  have "sum_list cs = 0" using rz by (simp add: cs_def)
  then have "\<forall>x \<in> set cs. x = 0"
    using sum_list_nonneg_eq_0_iff [of cs] cells by blast
  moreover have "starbases (quadrants gal ! r ! c) \<in> set cs"
    using l(2) by (auto simp: cs_def)
  ultimately show ?thesis by blast
qed

lemma ensure_starbase_inv:
  assumes inv: "generation_inv gal"
  shows "generation_inv (fst (ensure_starbase gal g))
       \<and> 1 \<le> total_starbases (fst (ensure_starbase gal g))
       \<and> total_klingons (fst (ensure_starbase gal g)) = total_klingons gal"
proof (cases "total_starbases gal = 0")
  case False
  have "0 \<le> total_starbases gal"
    using inv starbases_sum_nonneg [of gal] by (simp add: generation_inv_def)
  then show ?thesis using False inv by (simp add: ensure_starbase_def)
next
  case True
  obtain r g1 where r: "random_randint 0 7 g = (r, g1)" by (cases "random_randint 0 7 g")
  obtain c g2 where c: "random_randint 0 7 g1 = (c, g2)" by (cases "random_randint 0 7 g1")
  have rr: "nat r < 8" using random_randint_range [of 0 7 g] by (auto simp: r)
  have cr: "nat c < 8" using random_randint_range [of 0 7 g1] by (auto simp: c)
  have ok: "galaxy_ok gal" and nn: "list_all (list_all (\<lambda>q. 0 \<le> starbases q)) (quadrants gal)"
    and sk: "total_klingons gal = quadrant_sum klingons gal"
    and ss: "total_starbases gal = quadrant_sum starbases gal"
    using inv by (simp_all add: generation_inv_def)
  let ?q = "(quadrants gal ! nat r ! nat c)\<lparr>starbases := 1\<rparr>"
  have old: "starbases (quadrants gal ! nat r ! nat c) = 0"
    using starbases_sum_zero [OF nn ok rr cr] True ss by simp
  have e: "fst (ensure_starbase gal g)
             = (set_quadrant gal (nat r) (nat c) ?q)\<lparr>total_starbases := 1\<rparr>"
    using True by (simp add: ensure_starbase_def r c Let_def)
  have a: "galaxy_ok (set_quadrant gal (nat r) (nat c) ?q)" by (rule galaxy_ok_set_quadrant [OF ok])
  have b: "quadrant_sum klingons (set_quadrant gal (nat r) (nat c) ?q) = quadrant_sum klingons gal"
    using quadrant_sum_set_quadrant [OF ok rr cr, of klingons ?q] by simp
  have d: "quadrant_sum starbases (set_quadrant gal (nat r) (nat c) ?q) = 1"
    using quadrant_sum_set_quadrant [OF ok rr cr, of starbases ?q] old True ss by simp
  have f: "list_all (list_all (\<lambda>q. 0 \<le> starbases q))
             (quadrants (set_quadrant gal (nat r) (nat c) ?q))"
    by (intro starbases_nonneg_set_quadrant [OF nn]) simp
  show ?thesis
    unfolding e using a b d f sk
    by (simp add: generation_inv_def galaxy_ok_def quadrant_sum_def)
qed

lemma ensure_min_klingons_inv:
  assumes "ensure_min_klingons gal g = Some y"
  shows "generation_inv gal \<longrightarrow>
           generation_inv (fst y) \<and> 10 \<le> total_klingons (fst y)
           \<and> total_starbases (fst y) = total_starbases gal"
proof (rule ensure_min_klingons.raw_induct
    [where P = "\<lambda>gal g y. generation_inv gal \<longrightarrow>
           generation_inv (fst y) \<and> 10 \<le> total_klingons (fst y)
           \<and> total_starbases (fst y) = total_starbases gal", OF _ assms], goal_cases)
  case (1 loop gal g y)
  show ?case
  proof (cases "total_klingons gal < 10")
    case False
    then show ?thesis using 1(2) by auto
  next
    case True
    obtain r g1 where r: "random_randint 0 7 g = (r, g1)" by (cases "random_randint 0 7 g")
    obtain c g2 where c: "random_randint 0 7 g1 = (c, g2)" by (cases "random_randint 0 7 g1")
    have rr: "nat r < 8" using random_randint_range [of 0 7 g] by (auto simp: r)
    have cr: "nat c < 8" using random_randint_range [of 0 7 g1] by (auto simp: c)
    let ?q = "quadrants gal ! nat r ! nat c"
    show ?thesis
    proof (cases "klingons ?q < 3")
      case False
      then have "loop gal g2 = Some y"
        using 1(2) True by (simp add: r c Let_def)
      then show ?thesis using 1(1) by blast
    next
      case inc: True
      let ?gal' = "(set_quadrant gal (nat r) (nat c) (?q\<lparr>klingons := klingons ?q + 1\<rparr>))
                      \<lparr>total_klingons := total_klingons gal + 1\<rparr>"
      have call: "loop ?gal' g2 = Some y"
        using 1(2) True inc by (simp add: r c Let_def)
      show ?thesis
      proof
        assume inv: "generation_inv gal"
        have ok: "galaxy_ok gal"
          and nn: "list_all (list_all (\<lambda>q. 0 \<le> starbases q)) (quadrants gal)"
          and sk: "total_klingons gal = quadrant_sum klingons gal"
          and ss: "total_starbases gal = quadrant_sum starbases gal"
          using inv by (simp_all add: generation_inv_def)
        let ?s = "set_quadrant gal (nat r) (nat c) (?q\<lparr>klingons := klingons ?q + 1\<rparr>)"
        have a: "galaxy_ok ?s" by (rule galaxy_ok_set_quadrant [OF ok])
        have b: "quadrant_sum klingons ?s = quadrant_sum klingons gal + 1"
          using quadrant_sum_set_quadrant [OF ok rr cr, of klingons "?q\<lparr>klingons := klingons ?q + 1\<rparr>"]
          by simp
        have d: "quadrant_sum starbases ?s = quadrant_sum starbases gal"
          using quadrant_sum_set_quadrant [OF ok rr cr, of starbases "?q\<lparr>klingons := klingons ?q + 1\<rparr>"]
          by simp
        have f: "list_all (list_all (\<lambda>q. 0 \<le> starbases q)) (quadrants ?s)"
          using starbases_nonneg_nth [OF nn ok rr cr]
          by (intro starbases_nonneg_set_quadrant [OF nn]) simp
        have inv': "generation_inv ?gal'"
          using a b d f sk ss by (simp add: generation_inv_def galaxy_ok_def quadrant_sum_def)
        have "total_starbases ?gal' = total_starbases gal" by simp
        then show "generation_inv (fst y) \<and> 10 \<le> total_klingons (fst y)
           \<and> total_starbases (fst y) = total_starbases gal"
          using 1(1) [OF call] inv' by simp
      qed
    qed
  qed
qed

lemma grid_cells_set: "set grid_cells = {(r, c). r < 8 \<and> c < 8}"
  by (auto simp: grid_cells_def)

lemma grid_cells_distinct: "distinct grid_cells"
  unfolding grid_cells_def
  by (rule distinct_concat) (auto simp: distinct_map inj_on_def)

lemma grid_cells_length: "length grid_cells = 64"
  by (simp add: grid_cells_def length_concat comp_def sum_list_triv)

lemma fresh_grid_nth:
  "r < 8 \<Longrightarrow> c < 8 \<Longrightarrow>
   map (\<lambda>r. map (\<lambda>c. f r c) [0..7]) [0..7] ! r ! c = f (int r) (int c)"
  by (simp add: nth_upto)

lemma galaxy_ok_cells: "galaxy_ok gal \<Longrightarrow> length (concat (quadrants gal)) = 64"
proof -
  assume ok: "galaxy_ok gal"
  have "map length (quadrants gal) = replicate 8 8"
    using ok by (auto simp: galaxy_ok_def list_all_length list_eq_iff_nth_eq)
  then show ?thesis by (simp add: length_concat sum_list_replicate)
qed

lemma fresh_galaxy_inv:
  "generation_inv (gal0\<lparr>quadrants := map (\<lambda>r. map (\<lambda>c. new_Quadrant r c) [0..7]) [0..7],
                      total_klingons := 0, total_starbases := 0\<rparr>)"
  by (simp add: generation_inv_def galaxy_ok_def quadrant_sum_def upto_0_7 new_Quadrant_def)

text \<open>
  Claim C4. For every random stream on which the generation of the galaxy completes:
  \<open>total_klingons \<ge> 10\<close>, \<open>total_starbases \<ge> 1\<close>, and each total is the sum of the
  per-quadrant counts over the 64 quadrants.
\<close>

theorem galaxy_generation_counts:
  assumes "new_Galaxy g = Some (gal, g')"
  shows "10 \<le> total_klingons gal \<and> 1 \<le> total_starbases gal
       \<and> total_klingons gal = quadrant_sum klingons gal
       \<and> total_starbases gal = quadrant_sum starbases gal
       \<and> length (concat (quadrants gal)) = 64"
proof -
  define gal0 :: Galaxy where "gal0 = \<lparr>quadrants = [], total_klingons = 0, total_starbases = 0,
      initial_klingons = 0, stardate = 0.0, time_limit = 0\<rparr>"
  define gal1 where "gal1 = gal0\<lparr>quadrants := map (\<lambda>r. map (\<lambda>c. new_Quadrant r c) [0..7]) [0..7],
                      total_klingons := 0, total_starbases := 0\<rparr>"
  obtain gal2 g2 where s2: "init_cells grid_cells gal1 g = (gal2, g2)"
    by (cases "init_cells grid_cells gal1 g")
  obtain gal3 g3 where s3: "ensure_starbase gal2 g2 = (gal3, g3)"
    by (cases "ensure_starbase gal2 g2")
  have run: "Galaxy_initialize gal0 g = Some (gal, g')"
    using assms by (simp add: new_Galaxy_def gal0_def)
  then obtain gal4 g4 where s4: "ensure_min_klingons gal3 g3 = Some (gal4, g4)"
    by (auto simp: Galaxy_initialize_def gal1_def [symmetric] s2 s3 Let_def split: option.splits)
  have fin: "total_klingons gal = total_klingons gal4" "total_starbases gal = total_starbases gal4"
    "quadrants gal = quadrants gal4"
    using run by (auto simp: Galaxy_initialize_def gal1_def [symmetric] s2 s3 s4 Let_def
        split: prod.splits)
  have i1: "generation_inv gal1" unfolding gal1_def by (rule fresh_galaxy_inv)
  have fresh: "\<forall>(r, c) \<in> set grid_cells. r < 8 \<and> c < 8
           \<and> klingons (quadrants gal1 ! r ! c) = 0 \<and> starbases (quadrants gal1 ! r ! c) = 0"
    by (auto simp: grid_cells_set gal1_def fresh_grid_nth new_Quadrant_def)
  have i2: "generation_inv gal2"
    using init_cells_inv [OF i1 fresh grid_cells_distinct, of g] by (simp add: s2)
  have i3: "generation_inv gal3" "1 \<le> total_starbases gal3"
    using ensure_starbase_inv [OF i2, of g2] by (simp_all add: s3)
  have i4: "generation_inv gal4" "10 \<le> total_klingons gal4"
    "total_starbases gal4 = total_starbases gal3"
    using ensure_min_klingons_inv [OF s4] i3(1) by simp_all
  show ?thesis
    using i4 i3(2) fin galaxy_ok_cells [of gal4]
    by (simp add: generation_inv_def quadrant_sum_def)
qed

subsection \<open>The generation on the example stream\<close>

text \<open>
  While the raw draws are 0, every quadrant gets 3 Klingons, a starbase and a star; the
  192 draws of the 64 quadrants of \<open>example_stream\<close> are 0, so neither the forced
  starbase nor the top-up loop draws, and \<open>Galaxy()\<close> returns \<open>example_galaxy\<close>.
\<close>

lemma random_random_zero: "g 0 = 0 \<Longrightarrow> random_random g = (0, \<lambda>i. g (Suc i))"
  by (simp add: random_random_def rng_next_def)

lemma random_randint_zero: "g 0 = 0 \<Longrightarrow> random_randint a b g = (a, \<lambda>i. g (Suc i))"
  by (simp add: random_randint_def rng_next_def)

lemma init_cell_zero:
  assumes "g 0 = 0" "g 1 = 0" "g 2 = 0"
  shows "init_cell gal r c g =
           (set_quadrant (gal\<lparr>total_klingons := total_klingons gal + 3,
                              total_starbases := total_starbases gal + 1\<rparr>) r c
              ((quadrants gal ! r ! c)\<lparr>klingons := 3, starbases := 1, stars := 1\<rparr>),
            \<lambda>i. g (i + 3))"
proof -
  have a: "random_random g = (0, \<lambda>i. g (Suc i))" using assms by (simp add: random_random_zero)
  have b: "random_random (\<lambda>i. g (Suc i)) = (0, \<lambda>i. g (Suc (Suc i)))"
    using assms by (simp add: random_random_zero)
  have c: "random_randint 1 8 (\<lambda>i. g (Suc (Suc i))) = (1, \<lambda>i. g (Suc (Suc (Suc i))))"
    using assms by (simp add: random_randint_zero numeral_2_eq_2)
  have d: "(\<lambda>i. g (Suc (Suc (Suc i)))) = (\<lambda>i. g (i + 3))"
    by (simp add: numeral_3_eq_3)
  show ?thesis
    by (simp add: init_cell_def a b c d Let_def set_quadrant_def)
qed

lemma init_cells_zero:
  assumes "\<forall>i < 3 * length cells. g i = 0" and "galaxy_ok gal"
    and "\<forall>(r, c) \<in> set cells. r < 8 \<and> c < 8" and "distinct cells"
  shows "snd (init_cells cells gal g) = (\<lambda>i. g (i + 3 * length cells))
       \<and> galaxy_ok (fst (init_cells cells gal g))
       \<and> fst (init_cells cells gal g)
           = gal\<lparr>quadrants := quadrants (fst (init_cells cells gal g)),
                 total_klingons := total_klingons gal + 3 * int (length cells),
                 total_starbases := total_starbases gal + int (length cells)\<rparr>
       \<and> (\<forall>r < 8. \<forall>c < 8. quadrants (fst (init_cells cells gal g)) ! r ! c
             = (if (r, c) \<in> set cells
                then (quadrants gal ! r ! c)\<lparr>klingons := 3, starbases := 1, stars := 1\<rparr>
                else quadrants gal ! r ! c))"
  using assms
proof (induction cells arbitrary: gal g)
  case Nil
  then show ?case by simp
next
  case (Cons rc cells)
  obtain r0 c0 where rc: "rc = (r0, c0)" by (cases rc)
  have z: "g 0 = 0" "g 1 = 0" "g 2 = 0" using Cons.prems(1) by simp_all
  let ?q = "(quadrants gal ! r0 ! c0)\<lparr>klingons := 3, starbases := 1, stars := 1\<rparr>"
  let ?gal0 = "gal\<lparr>total_klingons := total_klingons gal + 3,
                    total_starbases := total_starbases gal + 1\<rparr>"
  let ?gal1 = "set_quadrant ?gal0 r0 c0 ?q"
  let ?g1 = "\<lambda>i. g (i + 3)"
  have step: "init_cell gal r0 c0 g = (?gal1, ?g1)" by (rule init_cell_zero [OF z])
  have rc0: "r0 < 8" "c0 < 8" using Cons.prems(3) by (auto simp: rc)
  have ok0: "galaxy_ok ?gal0" using Cons.prems(2) by (simp add: galaxy_ok_def)
  have ok1: "galaxy_ok ?gal1" by (rule galaxy_ok_set_quadrant [OF ok0])
  have z1: "\<forall>i < 3 * length cells. ?g1 i = 0" using Cons.prems(1) by simp
  have in1: "\<forall>(r, c) \<in> set cells. r < 8 \<and> c < 8" using Cons.prems(3) by auto
  have d1: "distinct cells" using Cons.prems(4) by simp
  note IH = Cons.IH [OF z1 ok1 in1 d1]
  have unfold: "init_cells (rc # cells) gal g = init_cells cells ?gal1 ?g1"
    by (simp add: rc step)
  have s: "snd (init_cells (rc # cells) gal g) = (\<lambda>i. g (i + 3 * length (rc # cells)))"
    unfolding unfold using IH by (simp add: add.commute add.left_commute)
  have o: "galaxy_ok (fst (init_cells (rc # cells) gal g))"
    unfolding unfold using IH by simp
  have f: "fst (init_cells (rc # cells) gal g)
           = gal\<lparr>quadrants := quadrants (fst (init_cells (rc # cells) gal g)),
                 total_klingons := total_klingons gal + 3 * int (length (rc # cells)),
                 total_starbases := total_starbases gal + int (length (rc # cells))\<rparr>"
    unfolding unfold
    apply (subst conjunct1 [OF conjunct2 [OF conjunct2 [OF IH]]])
    by (simp add: set_quadrant_def)
  have n: "\<forall>r < 8. \<forall>c < 8. quadrants (fst (init_cells (rc # cells) gal g)) ! r ! c
             = (if (r, c) \<in> set (rc # cells)
                then (quadrants gal ! r ! c)\<lparr>klingons := 3, starbases := 1, stars := 1\<rparr>
                else quadrants gal ! r ! c)"
  proof (intro allI impI)
    fix r c :: nat assume r: "r < 8" and c: "c < 8"
    have a: "quadrants (fst (init_cells cells ?gal1 ?g1)) ! r ! c
             = (if (r, c) \<in> set cells
                then (quadrants ?gal1 ! r ! c)\<lparr>klingons := 3, starbases := 1, stars := 1\<rparr>
                else quadrants ?gal1 ! r ! c)"
      using IH r c by blast
    have b: "quadrants ?gal1 ! r ! c = (if r = r0 \<and> c = c0 then ?q else quadrants gal ! r ! c)"
      using nth_set_quadrant [OF ok0 rc0 r c, of ?q] by simp
    have notin: "(r0, c0) \<notin> set cells" using Cons.prems(4) by (simp add: rc)
    show "quadrants (fst (init_cells (rc # cells) gal g)) ! r ! c
             = (if (r, c) \<in> set (rc # cells)
                then (quadrants gal ! r ! c)\<lparr>klingons := 3, starbases := 1, stars := 1\<rparr>
                else quadrants gal ! r ! c)"
      unfolding unfold a b using notin by (auto simp: rc)
  qed
  show ?case using s o f n by blast
qed


lemma rng_next_shift: "rng_next (\<lambda>i. g (i + n)) = (g n, \<lambda>i. g (i + Suc n))"
  by (simp add: rng_next_def)

lemma random_randint_shift:
  "random_randint a b (\<lambda>i. g (i + n)) = (a + int (g n) mod (b - a + 1), \<lambda>i. g (i + Suc n))"
  by (simp add: random_randint_def rng_next_shift)

lemma quadrants_eqI:
  assumes "galaxy_ok gal" "length Q = 8" "\<forall>r < 8. length (Q ! r) = 8"
    and "\<forall>r < 8. \<forall>c < 8. quadrants gal ! r ! c = Q ! r ! c"
  shows "quadrants gal = Q"
proof (rule nth_equalityI)
  show "length (quadrants gal) = length Q" using assms by (simp add: galaxy_ok_length)
next
  fix r assume "r < length (quadrants gal)"
  then have r: "r < 8" using assms(1) by (simp add: galaxy_ok_length)
  show "quadrants gal ! r = Q ! r"
  proof (rule nth_equalityI)
    show "length (quadrants gal ! r) = length (Q ! r)"
      using assms r by (simp add: galaxy_ok_nth)
  next
    fix c assume "c < length (quadrants gal ! r)"
    then have "c < 8" using assms(1) r by (simp add: galaxy_ok_nth)
    then show "quadrants gal ! r ! c = Q ! r ! c" using assms(4) r by blast
  qed
qed

lemma ensure_min_klingons_done:
  "10 \<le> total_klingons gal \<Longrightarrow> ensure_min_klingons gal g = Some (gal, g)"
  by (subst ensure_min_klingons.simps) simp

lemma new_Galaxy_example:
  "new_Galaxy example_stream = Some (example_galaxy, \<lambda>i. example_stream (i + 194))"
proof -
  define gal0 :: Galaxy where "gal0 = \<lparr>quadrants = [], total_klingons = 0, total_starbases = 0,
      initial_klingons = 0, stardate = 0.0, time_limit = 0\<rparr>"
  define gal1 where "gal1 = gal0\<lparr>quadrants := map (\<lambda>r. map (\<lambda>c. new_Quadrant r c) [0..7]) [0..7],
                      total_klingons := 0, total_starbases := 0\<rparr>"
  define gal2 where "gal2 = fst (init_cells grid_cells gal1 example_stream)"
  define g2 where "g2 = (\<lambda>i. example_stream (i + 192))"
  have ok1: "galaxy_ok gal1" using fresh_galaxy_inv [of gal0] by (simp add: gal1_def generation_inv_def)
  have z: "\<forall>i < 3 * length grid_cells. example_stream i = 0"
    by (simp add: grid_cells_length example_stream_def)
  have inr: "\<forall>(r, c) \<in> set grid_cells. r < 8 \<and> c < 8" by (simp add: grid_cells_set)
  note zero = init_cells_zero [OF z ok1 inr grid_cells_distinct, folded gal2_def]
  have zs: "snd (init_cells grid_cells gal1 example_stream) = g2"
    using conjunct1 [OF zero] by (simp only: g2_def grid_cells_length) simp
  have s2: "init_cells grid_cells gal1 example_stream = (gal2, g2)"
    using zs by (simp add: gal2_def prod_eq_iff)
  have ok2: "galaxy_ok gal2" by (rule conjunct1 [OF conjunct2 [OF zero]])
  have form: "gal2 = gal1\<lparr>quadrants := quadrants gal2,
                 total_klingons := total_klingons gal1 + 3 * int (length grid_cells),
                 total_starbases := total_starbases gal1 + int (length grid_cells)\<rparr>"
    by (rule conjunct1 [OF conjunct2 [OF conjunct2 [OF zero]]])
  have content: "\<forall>r < 8. \<forall>c < 8. quadrants gal2 ! r ! c
             = (if (r, c) \<in> set grid_cells
                then (quadrants gal1 ! r ! c)\<lparr>klingons := 3, starbases := 1, stars := 1\<rparr>
                else quadrants gal1 ! r ! c)"
    by (rule conjunct2 [OF conjunct2 [OF conjunct2 [OF zero]]])
  have cells: "\<forall>r < 8. \<forall>c < 8. quadrants gal2 ! r ! c = quadrants example_galaxy ! r ! c"
  proof (intro allI impI)
    fix r c :: nat assume r: "r < 8" and c: "c < 8"
    have "quadrants gal2 ! r ! c
            = (quadrants gal1 ! r ! c)\<lparr>klingons := 3, starbases := 1, stars := 1\<rparr>"
      using content r c by (simp add: grid_cells_set)
    also have "quadrants gal1 ! r ! c = new_Quadrant (int r) (int c)"
      using r c by (simp add: gal1_def fresh_grid_nth)
    also have "(new_Quadrant (int r) (int c))\<lparr>klingons := 3, starbases := 1, stars := 1\<rparr>
            = quadrants example_galaxy ! r ! c"
      using r c by (simp add: example_galaxy_def fresh_grid_nth)
    finally show "quadrants gal2 ! r ! c = quadrants example_galaxy ! r ! c" .
  qed
  have q2: "quadrants gal2 = quadrants example_galaxy"
    by (rule quadrants_eqI [OF ok2 _ _ cells]) (simp_all add: example_galaxy_def nth_upto)
  have t2: "total_klingons gal2 = 192" "total_starbases gal2 = 64"
    using arg_cong [OF form, of total_klingons] arg_cong [OF form, of total_starbases]
    by (simp_all add: grid_cells_length gal1_def)
  have o2: "initial_klingons gal2 = 0" "stardate gal2 = 0" "time_limit gal2 = 0"
    using arg_cong [OF form, of initial_klingons] arg_cong [OF form, of stardate]
      arg_cong [OF form, of time_limit]
    by (simp_all add: gal1_def gal0_def)
  have s3: "ensure_starbase gal2 g2 = (gal2, g2)" by (simp add: ensure_starbase_def t2)
  have s4: "ensure_min_klingons gal2 g2 = Some (gal2, g2)"
    by (rule ensure_min_klingons_done) (simp add: t2)
  have d1: "random_randint 20 40 g2 = (20, \<lambda>i. example_stream (i + 193))"
    by (simp add: random_randint_shift g2_def) (simp add: example_stream_def)
  have d2: "random_randint 0 10 (\<lambda>i. example_stream (i + 193)) = (0, \<lambda>i. example_stream (i + 194))"
    by (simp add: random_randint_shift) (simp add: example_stream_def)
  have fin: "gal2\<lparr>initial_klingons := 192, stardate := 2000, time_limit := 25\<rparr> = example_galaxy"
    by (rule Galaxy.equality) (simp_all add: q2 t2 example_galaxy_def)
  show ?thesis
    unfolding new_Galaxy_def gal0_def [symmetric] Galaxy_initialize_def gal1_def [symmetric]
    by (simp add: s2 s3 s4 d1 d2 Let_def t2 fin)
qed

subsection \<open>The generation on the sparse stream\<close>

lemma random_random_half:
  "g 0 = 2 ^ 52 \<Longrightarrow> random_random g = (1 / 2, \<lambda>i. g (Suc i))"
  by (simp add: random_random_def rng_next_def)

lemma random_randint_half:
  "g 0 = 2 ^ 52 \<Longrightarrow> random_randint 1 8 g = (1, \<lambda>i. g (Suc i))"
  by (simp add: random_randint_def rng_next_def)

lemma init_cell_half:
  assumes "g 0 = 2 ^ 52" "g 1 = 2 ^ 52" "g 2 = 2 ^ 52"
  shows "init_cell gal r c g =
           (set_quadrant gal r c ((quadrants gal ! r ! c)\<lparr>klingons := 0, stars := 1\<rparr>),
            \<lambda>i. g (i + 3))"
proof -
  have a: "random_random g = (1 / 2, \<lambda>i. g (Suc i))"
    using assms by (simp add: random_random_half)
  have b: "random_random (\<lambda>i. g (Suc i)) = (1 / 2, \<lambda>i. g (Suc (Suc i)))"
    using assms by (simp add: random_random_half)
  have c: "random_randint 1 8 (\<lambda>i. g (Suc (Suc i))) = (1, \<lambda>i. g (Suc (Suc (Suc i))))"
    using assms by (simp add: random_randint_half numeral_2_eq_2)
  have d: "(\<lambda>i. g (Suc (Suc (Suc i)))) = (\<lambda>i. g (i + 3))"
    by (simp add: numeral_3_eq_3)
  show ?thesis
    by (simp add: init_cell_def a b c d Let_def set_quadrant_def)
qed


text \<open>
  While the raw draws are \<open>2^52\<close>, \<open>random.random()\<close> is 0.5: a quadrant gets no
  Klingon, no starbase and one star, and the totals stay as they are.
\<close>

lemma init_cells_half:
  assumes "\<forall>i < 3 * length cells. g i = 2 ^ 52" and "galaxy_ok gal"
    and "\<forall>(r, c) \<in> set cells. r < 8 \<and> c < 8" and "distinct cells"
  shows "snd (init_cells cells gal g) = (\<lambda>i. g (i + 3 * length cells))
       \<and> galaxy_ok (fst (init_cells cells gal g))
       \<and> fst (init_cells cells gal g) = gal\<lparr>quadrants := quadrants (fst (init_cells cells gal g))\<rparr>
       \<and> (\<forall>r < 8. \<forall>c < 8. quadrants (fst (init_cells cells gal g)) ! r ! c
             = (if (r, c) \<in> set cells
                then (quadrants gal ! r ! c)\<lparr>klingons := 0, stars := 1\<rparr>
                else quadrants gal ! r ! c))"
  using assms
proof (induction cells arbitrary: gal g)
  case Nil
  then show ?case by simp
next
  case (Cons rc cells)
  obtain r0 c0 where rc: "rc = (r0, c0)" by (cases rc)
  have z: "g 0 = 2 ^ 52" "g 1 = 2 ^ 52" "g 2 = 2 ^ 52" using Cons.prems(1) by simp_all
  let ?q = "(quadrants gal ! r0 ! c0)\<lparr>klingons := 0, stars := 1\<rparr>"
  let ?gal1 = "set_quadrant gal r0 c0 ?q"
  let ?g1 = "\<lambda>i. g (i + 3)"
  have step: "init_cell gal r0 c0 g = (?gal1, ?g1)" by (rule init_cell_half [OF z])
  have rc0: "r0 < 8" "c0 < 8" using Cons.prems(3) by (auto simp: rc)
  have ok0: "galaxy_ok gal" by (rule Cons.prems(2))
  have ok1: "galaxy_ok ?gal1" by (rule galaxy_ok_set_quadrant [OF ok0])
  have z1: "\<forall>i < 3 * length cells. ?g1 i = 2 ^ 52" using Cons.prems(1) by simp
  have in1: "\<forall>(r, c) \<in> set cells. r < 8 \<and> c < 8" using Cons.prems(3) by auto
  have d1: "distinct cells" using Cons.prems(4) by simp
  note IH = Cons.IH [OF z1 ok1 in1 d1]
  have unfold: "init_cells (rc # cells) gal g = init_cells cells ?gal1 ?g1"
    by (simp add: rc step)
  have s: "snd (init_cells (rc # cells) gal g) = (\<lambda>i. g (i + 3 * length (rc # cells)))"
    unfolding unfold using IH by (simp add: add.commute add.left_commute)
  have o: "galaxy_ok (fst (init_cells (rc # cells) gal g))"
    unfolding unfold using IH by simp
  have f: "fst (init_cells (rc # cells) gal g)
           = gal\<lparr>quadrants := quadrants (fst (init_cells (rc # cells) gal g))\<rparr>"
    unfolding unfold
    apply (subst conjunct1 [OF conjunct2 [OF conjunct2 [OF IH]]])
    by (simp add: set_quadrant_def)
  have n: "\<forall>r < 8. \<forall>c < 8. quadrants (fst (init_cells (rc # cells) gal g)) ! r ! c
             = (if (r, c) \<in> set (rc # cells)
                then (quadrants gal ! r ! c)\<lparr>klingons := 0, stars := 1\<rparr>
                else quadrants gal ! r ! c)"
  proof (intro allI impI)
    fix r c :: nat assume r: "r < 8" and c: "c < 8"
    have a: "quadrants (fst (init_cells cells ?gal1 ?g1)) ! r ! c
             = (if (r, c) \<in> set cells
                then (quadrants ?gal1 ! r ! c)\<lparr>klingons := 0, stars := 1\<rparr>
                else quadrants ?gal1 ! r ! c)"
      using IH r c by blast
    have b: "quadrants ?gal1 ! r ! c = (if r = r0 \<and> c = c0 then ?q else quadrants gal ! r ! c)"
      using nth_set_quadrant [OF ok0 rc0 r c, of ?q] by simp
    have notin: "(r0, c0) \<notin> set cells" using Cons.prems(4) by (simp add: rc)
    show "quadrants (fst (init_cells (rc # cells) gal g)) ! r ! c
             = (if (r, c) \<in> set (rc # cells)
                then (quadrants gal ! r ! c)\<lparr>klingons := 0, stars := 1\<rparr>
                else quadrants gal ! r ! c)"
      unfolding unfold a b using notin by (auto simp: rc)
  qed
  show ?case using s o f n by blast
qed

text \<open>The galaxy given by its grid, and a write to one of its quadrants.\<close>

lemma grid_galaxy_ok: "galaxy_ok (grid_galaxy f gal)"
  by (simp add: grid_galaxy_def galaxy_ok_def list_all_iff)

lemma grid_galaxy_nth:
  "r < 8 \<Longrightarrow> c < 8 \<Longrightarrow> quadrants (grid_galaxy f gal) ! r ! c = f r c"
  by (simp add: grid_galaxy_def)

lemma grid_galaxy_fields:
  "total_klingons (grid_galaxy f gal) = total_klingons gal"
  "total_starbases (grid_galaxy f gal) = total_starbases gal"
  "initial_klingons (grid_galaxy f gal) = initial_klingons gal"
  "stardate (grid_galaxy f gal) = stardate gal"
  "time_limit (grid_galaxy f gal) = time_limit gal"
  by (simp_all add: grid_galaxy_def)

lemma grid_galaxy_update:
  "(grid_galaxy f gal)\<lparr>total_klingons := k\<rparr> = grid_galaxy f (gal\<lparr>total_klingons := k\<rparr>)"
  "(grid_galaxy f gal)\<lparr>total_starbases := b\<rparr> = grid_galaxy f (gal\<lparr>total_starbases := b\<rparr>)"
  "(grid_galaxy f gal)\<lparr>initial_klingons := k\<rparr> = grid_galaxy f (gal\<lparr>initial_klingons := k\<rparr>)"
  "(grid_galaxy f gal)\<lparr>stardate := d\<rparr> = grid_galaxy f (gal\<lparr>stardate := d\<rparr>)"
  "(grid_galaxy f gal)\<lparr>time_limit := t\<rparr> = grid_galaxy f (gal\<lparr>time_limit := t\<rparr>)"
  by (simp_all add: grid_galaxy_def)

lemma grid_galaxy_eqI:
  assumes "galaxy_ok gal" "\<forall>r < 8. \<forall>c < 8. quadrants gal ! r ! c = f r c"
  shows "gal = grid_galaxy f gal"
proof -
  have "quadrants gal = map (\<lambda>r. map (\<lambda>c. f r c) [0..<8]) [0..<8]"
    by (rule quadrants_eqI [OF assms(1)]) (simp_all add: assms(2))
  then show ?thesis by (simp add: grid_galaxy_def)
qed

lemma set_quadrant_grid:
  assumes "r < 8" "c < 8"
  shows "set_quadrant (grid_galaxy f gal) r c q = grid_galaxy (f(r := (f r)(c := q))) gal"
proof -
  let ?g = "set_quadrant (grid_galaxy f gal) r c q"
  have ok: "galaxy_ok ?g" by (rule galaxy_ok_set_quadrant [OF grid_galaxy_ok])
  have "\<forall>r' < 8. \<forall>c' < 8. quadrants ?g ! r' ! c' = (f(r := (f r)(c := q))) r' c'"
    using assms by (auto simp: nth_set_quadrant [OF grid_galaxy_ok] grid_galaxy_nth)
  then have "?g = grid_galaxy (f(r := (f r)(c := q))) ?g"
    by (rule grid_galaxy_eqI [OF ok])
  also have "\<dots> = grid_galaxy (f(r := (f r)(c := q))) gal"
    by (simp add: grid_galaxy_def set_quadrant_def)
  finally show ?thesis .
qed

text \<open>
  The forced starbase and one pass of the top-up loop, on a galaxy given by its grid and
  a stream read from position \<open>n\<close>.
\<close>

lemma ensure_starbase_grid:
  assumes "total_starbases gal = 0" "g n mod 8 = r" "g (Suc n) mod 8 = c"
  shows "ensure_starbase (grid_galaxy f gal) (\<lambda>i. g (i + n))
           = (grid_galaxy (f(r := (f r)(c := (f r c)\<lparr>starbases := 1\<rparr>)))
                (gal\<lparr>total_starbases := 1\<rparr>), \<lambda>i. g (i + (n + 2)))"
proof -
  have r: "r < 8" and c: "c < 8" using assms(2,3) by auto
  have a: "int (g n) mod 8 = int r" "int (g (Suc n)) mod 8 = int c"
    using arg_cong [OF assms(2), of int] arg_cong [OF assms(3), of int] by (simp_all add: zmod_int)
  have d1: "random_randint 0 7 (\<lambda>i. g (i + n)) = (int r, \<lambda>i. g (Suc (i + n)))"
    by (simp add: random_randint_def rng_next_def a)
  have d2: "random_randint 0 7 (\<lambda>i. g (Suc (i + n))) = (int c, \<lambda>i. g (Suc (Suc (i + n))))"
    using a by (simp add: random_randint_def rng_next_def)
  show ?thesis
    using r c
    by (simp add: ensure_starbase_def grid_galaxy_fields assms(1) d1 d2 Let_def
        grid_galaxy_nth set_quadrant_grid grid_galaxy_update)
qed

lemma ensure_min_klingons_grid:
  assumes "total_klingons gal < 10" "g n mod 8 = r" "g (Suc n) mod 8 = c"
  shows "ensure_min_klingons (grid_galaxy f gal) (\<lambda>i. g (i + n))
           = (if klingons (f r c) < 3
              then ensure_min_klingons
                     (grid_galaxy (f(r := (f r)(c := (f r c)\<lparr>klingons := klingons (f r c) + 1\<rparr>)))
                        (gal\<lparr>total_klingons := total_klingons gal + 1\<rparr>))
                     (\<lambda>i. g (i + (n + 2)))
              else ensure_min_klingons (grid_galaxy f gal) (\<lambda>i. g (i + (n + 2))))"
proof -
  have r: "r < 8" and c: "c < 8" using assms(2,3) by auto
  have a: "int (g n) mod 8 = int r" "int (g (Suc n)) mod 8 = int c"
    using arg_cong [OF assms(2), of int] arg_cong [OF assms(3), of int] by (simp_all add: zmod_int)
  have d1: "random_randint 0 7 (\<lambda>i. g (i + n)) = (int r, \<lambda>i. g (Suc (i + n)))"
    by (simp add: random_randint_def rng_next_def a)
  have d2: "random_randint 0 7 (\<lambda>i. g (Suc (i + n))) = (int c, \<lambda>i. g (Suc (Suc (i + n))))"
    using a by (simp add: random_randint_def rng_next_def)
  show ?thesis
    using r c
    by (subst ensure_min_klingons.simps)
      (simp add: grid_galaxy_fields assms(1) d1 d2 Let_def
        grid_galaxy_nth set_quadrant_grid grid_galaxy_update)
qed


lemma ensure_min_klingons_draw:
  assumes "total_klingons gal < 10"
  shows "ensure_min_klingons (grid_galaxy f gal) (\<lambda>i. g (i + n))
           = (if klingons (f (g n mod 8) (g (Suc n) mod 8)) < 3
              then ensure_min_klingons
                     (grid_galaxy
                        (f(g n mod 8 := (f (g n mod 8))
                             (g (Suc n) mod 8 := (f (g n mod 8) (g (Suc n) mod 8))
                                \<lparr>klingons := klingons (f (g n mod 8) (g (Suc n) mod 8)) + 1\<rparr>)))
                        (gal\<lparr>total_klingons := total_klingons gal + 1\<rparr>))
                     (\<lambda>i. g (i + (n + 2)))
              else ensure_min_klingons (grid_galaxy f gal) (\<lambda>i. g (i + (n + 2))))"
  by (rule ensure_min_klingons_grid [OF assms refl refl])

lemma sparse_stream_values:
  "sparse_stream 192 = 0" "sparse_stream 193 = 0" "sparse_stream 194 = 0"
  "sparse_stream 195 = 0" "sparse_stream 196 = 0" "sparse_stream 197 = 0"
  "sparse_stream 198 = 0" "sparse_stream 199 = 0" "sparse_stream 200 = 1"
  "sparse_stream 201 = 1" "sparse_stream 202 = 1" "sparse_stream 203 = 1"
  "sparse_stream 204 = 1" "sparse_stream 205 = 1" "sparse_stream 206 = 1"
  "sparse_stream 207 = 1" "sparse_stream 208 = 2" "sparse_stream 209 = 2"
  "sparse_stream 210 = 2" "sparse_stream 211 = 2" "sparse_stream 212 = 2"
  "sparse_stream 213 = 2" "sparse_stream 214 = 2" "sparse_stream 215 = 2"
  "sparse_stream 216 = 3" "sparse_stream 217 = 3" "sparse_stream 218 = 3"
  "sparse_stream 219 = 3"
  by (simp_all add: sparse_stream_def)

text \<open>
  The first pass on a stream whose first 192 raw draws are \<open>2^52\<close>: no Klingon, no
  starbase, one star in each quadrant.
\<close>

lemma init_cells_half_grid:
  assumes z: "\<forall>i < 192. g i = 2 ^ 52"
  shows "init_cells grid_cells
           (gal0\<lparr>quadrants := map (\<lambda>r. map (\<lambda>c. new_Quadrant r c) [0..7]) [0..7],
                  total_klingons := 0, total_starbases := 0\<rparr>) g
         = (grid_galaxy (\<lambda>r c. (new_Quadrant (int r) (int c))\<lparr>klingons := 0, stars := 1\<rparr>)
              (gal0\<lparr>total_klingons := 0, total_starbases := 0\<rparr>),
            \<lambda>i. g (i + 192))"
proof -
  define gal1 where "gal1 = gal0\<lparr>quadrants := map (\<lambda>r. map (\<lambda>c. new_Quadrant r c) [0..7]) [0..7],
                      total_klingons := 0, total_starbases := 0\<rparr>"
  define gal2 where "gal2 = fst (init_cells grid_cells gal1 g)"
  define f0 where "f0 = (\<lambda>r c. (new_Quadrant (int r) (int c))\<lparr>klingons := 0, stars := 1\<rparr>)"
  have f0: "f0 r c = (new_Quadrant (int r) (int c))\<lparr>klingons := 0, stars := 1\<rparr>" for r c
    by (simp add: f0_def)
  have ok1: "galaxy_ok gal1" using fresh_galaxy_inv [of gal0] by (simp add: gal1_def generation_inv_def)
  have z': "\<forall>i < 3 * length grid_cells. g i = 2 ^ 52"
    using z by (simp add: grid_cells_length)
  have inr: "\<forall>(r, c) \<in> set grid_cells. r < 8 \<and> c < 8" by (simp add: grid_cells_set)
  note half = init_cells_half [OF z' ok1 inr grid_cells_distinct, folded gal2_def]
  have zs: "snd (init_cells grid_cells gal1 g) = (\<lambda>i. g (i + 192))"
    using conjunct1 [OF half] by (simp only: grid_cells_length) simp
  have ok2: "galaxy_ok gal2" by (rule conjunct1 [OF conjunct2 [OF half]])
  have form: "gal2 = gal1\<lparr>quadrants := quadrants gal2\<rparr>"
    by (rule conjunct1 [OF conjunct2 [OF conjunct2 [OF half]]])
  have content: "\<forall>r < 8. \<forall>c < 8. quadrants gal2 ! r ! c
             = (if (r, c) \<in> set grid_cells
                then (quadrants gal1 ! r ! c)\<lparr>klingons := 0, stars := 1\<rparr>
                else quadrants gal1 ! r ! c)"
    by (rule conjunct2 [OF conjunct2 [OF conjunct2 [OF half]]])
  have cells: "\<forall>r < 8. \<forall>c < 8. quadrants gal2 ! r ! c = f0 r c"
  proof (intro allI impI)
    fix r c :: nat assume r: "r < 8" and c: "c < 8"
    have "quadrants gal2 ! r ! c = (quadrants gal1 ! r ! c)\<lparr>klingons := 0, stars := 1\<rparr>"
      using content r c by (simp add: grid_cells_set)
    also have "quadrants gal1 ! r ! c = new_Quadrant (int r) (int c)"
      using r c by (simp add: gal1_def fresh_grid_nth)
    finally show "quadrants gal2 ! r ! c = f0 r c" by (simp add: f0)
  qed
  have "gal2 = grid_galaxy f0 gal2" by (rule grid_galaxy_eqI [OF ok2 cells])
  also have "\<dots> = grid_galaxy f0 (gal1\<lparr>quadrants := quadrants gal2\<rparr>)"
    using form by simp
  also have "\<dots> = grid_galaxy f0 (gal0\<lparr>total_klingons := 0, total_starbases := 0\<rparr>)"
    by (simp add: grid_galaxy_def gal1_def)
  finally have g2: "gal2 = grid_galaxy f0 (gal0\<lparr>total_klingons := 0, total_starbases := 0\<rparr>)" .
  show ?thesis
    unfolding gal1_def [symmetric] f0_def [symmetric]
    using zs g2 by (simp add: gal2_def prod_eq_iff)
qed

text \<open>
  \<open>Galaxy()\<close> on \<open>sparse_stream\<close>. The first pass leaves 0 Klingons and 0 starbases; the
  starbase is forced into quadrant (0, 0); the top-up loop makes 12 passes, 10 that add
  a Klingon and 2 that draw a quadrant already holding 3, and stops at 10 Klingons.
\<close>

lemma new_Galaxy_sparse:
  "new_Galaxy sparse_stream = Some (sparse_galaxy, \<lambda>i. sparse_stream (i + 220))"
proof -
  define gal0 :: Galaxy where "gal0 = \<lparr>quadrants = [], total_klingons = 0, total_starbases = 0,
      initial_klingons = 0, stardate = 0.0, time_limit = 0\<rparr>"
  define f0 where "f0 = (\<lambda>r c. (new_Quadrant (int r) (int c))\<lparr>klingons := 0, stars := 1\<rparr>)"
  have f0: "f0 r c = (new_Quadrant (int r) (int c))\<lparr>klingons := 0, stars := 1\<rparr>" for r c
    by (simp add: f0_def)
  have same: "gal0\<lparr>total_klingons := 0, total_starbases := 0\<rparr> = gal0" by (simp add: gal0_def)
  have s2: "init_cells grid_cells
              (gal0\<lparr>quadrants := map (\<lambda>r. map (\<lambda>c. new_Quadrant r c) [0..7]) [0..7],
                     total_klingons := 0, total_starbases := 0\<rparr>) sparse_stream
            = (grid_galaxy f0 gal0, \<lambda>i. sparse_stream (i + 192))"
    using init_cells_half_grid [of sparse_stream gal0]
    by (simp add: sparse_stream_def [abs_def] same f0_def)
  have s3: "ensure_starbase (grid_galaxy f0 gal0) (\<lambda>i. sparse_stream (i + 192))
              = (grid_galaxy (f0(0 := (f0 0)(0 := (f0 0 0)\<lparr>starbases := 1\<rparr>)))
                   (gal0\<lparr>total_starbases := 1\<rparr>), \<lambda>i. sparse_stream (i + 194))"
    using ensure_starbase_grid [where g = sparse_stream and n = 192 and r = 0 and c = 0
        and f = f0 and gal = gal0]
    by (simp add: sparse_stream_values gal0_def)
  define bump where "bump = (\<lambda>(f :: nat \<Rightarrow> nat \<Rightarrow> Quadrant) r c.
      f(r := (f r)(c := (f r c)\<lparr>klingons := klingons (f r c) + 1\<rparr>)))"
  have bump: "bump f r c r' c'
      = (if r' = r \<and> c' = c then (f r c)\<lparr>klingons := klingons (f r c) + 1\<rparr> else f r' c')"
    for f r c r' c'
    by (simp add: bump_def)
  have step: "ensure_min_klingons (grid_galaxy f gal) (\<lambda>i. sparse_stream (i + n))
           = (if klingons (f (sparse_stream n mod 8) (sparse_stream (Suc n) mod 8)) < 3
              then ensure_min_klingons
                     (grid_galaxy (bump f (sparse_stream n mod 8) (sparse_stream (Suc n) mod 8))
                        (gal\<lparr>total_klingons := total_klingons gal + 1\<rparr>))
                     (\<lambda>i. sparse_stream (i + (n + 2)))
              else ensure_min_klingons (grid_galaxy f gal) (\<lambda>i. sparse_stream (i + (n + 2))))"
    if "total_klingons gal < 10" for f gal n
    unfolding bump_def by (rule ensure_min_klingons_draw [OF that])
  define f1 where "f1 = f0(0 := (f0 0)(0 := (f0 0 0)\<lparr>starbases := 1\<rparr>))"
  have f1: "f1 r c = (if r = 0 \<and> c = 0 then (f0 0 0)\<lparr>starbases := 1\<rparr> else f0 r c)" for r c
    by (simp add: f1_def)
  define f2 where "f2 = bump (bump (bump (bump (bump (bump (bump (bump (bump (bump f1
      0 0) 0 0) 0 0) 1 1) 1 1) 1 1) 2 2) 2 2) 2 2) 3 3"
  have s4: "ensure_min_klingons (grid_galaxy f1 (gal0\<lparr>total_starbases := 1\<rparr>))
              (\<lambda>i. sparse_stream (i + 194))
            = Some (grid_galaxy f2 (gal0\<lparr>total_klingons := 10, total_starbases := 1\<rparr>),
                    \<lambda>i. sparse_stream (i + 218))"
    unfolding f2_def
    by (simp add: step sparse_stream_values bump f1 f0 gal0_def ensure_min_klingons_done
        grid_galaxy_fields)
  have d1: "random_randint 20 40 (\<lambda>i. sparse_stream (i + 218)) = (23, \<lambda>i. sparse_stream (i + 219))"
    by (simp add: random_randint_shift sparse_stream_values)
  have d2: "random_randint 0 10 (\<lambda>i. sparse_stream (i + 219)) = (3, \<lambda>i. sparse_stream (i + 220))"
    by (simp add: random_randint_shift sparse_stream_values)
  have cell: "f2 r c = (new_Quadrant (int r) (int c))
                 \<lparr>klingons := (if r = c \<and> r < 3 then 3 else if r = 3 \<and> c = 3 then 1 else 0),
                  starbases := (if r = 0 \<and> c = 0 then 1 else 0), stars := 1\<rparr>" for r c
    by (simp add: f2_def bump f1 f0 new_Quadrant_def)
  have fin: "(grid_galaxy f2 (gal0\<lparr>total_klingons := 10, total_starbases := 1\<rparr>))
               \<lparr>initial_klingons := 10, stardate := 2300, time_limit := 28\<rparr> = sparse_galaxy"
  proof -
    let ?gal = "grid_galaxy f2 (gal0\<lparr>total_klingons := 10, total_starbases := 1\<rparr>)"
    have "quadrants ?gal = quadrants sparse_galaxy"
      by (rule quadrants_eqI [OF grid_galaxy_ok])
        (simp_all add: sparse_galaxy_def grid_galaxy_nth cell fresh_grid_nth nth_upto)
    then show ?thesis
      by (intro Galaxy.equality)
        (simp_all add: grid_galaxy_fields sparse_galaxy_def gal0_def)
  qed
  show ?thesis
    unfolding new_Galaxy_def gal0_def [symmetric] Galaxy_initialize_def
    by (simp add: s2 s3 s4 d1 d2 Let_def grid_galaxy_fields fin f1_def [symmetric])
qed

text \<open>
  The top-up loop does not return on a stream whose every draw is a quadrant that holds
  3 Klingons already; so \<open>Galaxy()\<close> does not return on \<open>stuck_stream\<close>, where the
  loop fills quadrant (0, 0) and then draws it for ever.
\<close>

lemma ensure_min_klingons_stuck:
  assumes "total_klingons gal < 10"
    and "\<forall>n. 3 \<le> klingons (quadrants gal ! nat (int (g (2 * n)) mod 8)
                                          ! nat (int (g (2 * n + 1)) mod 8))"
  shows "ensure_min_klingons gal g = None"
proof -
  have "\<not> (total_klingons gal < 10
            \<and> (\<forall>n. 3 \<le> klingons (quadrants gal ! nat (int (g (2 * n)) mod 8)
                                                ! nat (int (g (2 * n + 1)) mod 8))))"
    if run: "ensure_min_klingons gal g = Some y" for y
  proof (rule ensure_min_klingons.raw_induct
      [where P = "\<lambda>gal g y. \<not> (total_klingons gal < 10
            \<and> (\<forall>n. 3 \<le> klingons (quadrants gal ! nat (int (g (2 * n)) mod 8)
                                                ! nat (int (g (2 * n + 1)) mod 8))))",
        OF _ run], goal_cases)
    case (1 loop gal g y)
    show ?case
    proof
      assume c: "total_klingons gal < 10
            \<and> (\<forall>n. 3 \<le> klingons (quadrants gal ! nat (int (g (2 * n)) mod 8)
                                                ! nat (int (g (2 * n + 1)) mod 8)))"
      then have full: "\<not> klingons (quadrants gal ! nat (int (g 0) mod 8) ! nat (int (g (Suc 0)) mod 8)) < 3"
        using spec [OF conjunct2 [OF c], of 0] by simp
      have "loop gal (\<lambda>i. g (Suc (Suc i))) = Some y"
        using 1(2) c full by (simp add: random_randint_def rng_next_def Let_def)
      then have "\<not> (total_klingons gal < 10
            \<and> (\<forall>n. 3 \<le> klingons (quadrants gal ! nat (int (g (Suc (Suc (2 * n)))) mod 8)
                                                ! nat (int (g (Suc (Suc (2 * n + 1)))) mod 8))))"
        using 1(1) by blast
      moreover have "3 \<le> klingons (quadrants gal ! nat (int (g (Suc (Suc (2 * n)))) mod 8)
                                                ! nat (int (g (Suc (Suc (2 * n + 1)))) mod 8))" for n
        using spec [OF conjunct2 [OF c], of "Suc n"] by simp
      ultimately show False using c by blast
    qed
  qed
  then show ?thesis using assms by (cases "ensure_min_klingons gal g") auto
qed

lemma new_Galaxy_stuck: "new_Galaxy stuck_stream = None"
proof -
  define gal0 :: Galaxy where "gal0 = \<lparr>quadrants = [], total_klingons = 0, total_starbases = 0,
      initial_klingons = 0, stardate = 0.0, time_limit = 0\<rparr>"
  define f0 where "f0 = (\<lambda>r c. (new_Quadrant (int r) (int c))\<lparr>klingons := 0, stars := 1\<rparr>)"
  have f0: "f0 r c = (new_Quadrant (int r) (int c))\<lparr>klingons := 0, stars := 1\<rparr>" for r c
    by (simp add: f0_def)
  have same: "gal0\<lparr>total_klingons := 0, total_starbases := 0\<rparr> = gal0" by (simp add: gal0_def)
  have v: "stuck_stream 192 = 0" "stuck_stream 193 = 0" "stuck_stream 194 = 0"
    "stuck_stream 195 = 0" "stuck_stream 196 = 0" "stuck_stream 197 = 0"
    "stuck_stream 198 = 0" "stuck_stream 199 = 0"
    by (simp_all add: stuck_stream_def)
  have s2: "init_cells grid_cells
              (gal0\<lparr>quadrants := map (\<lambda>r. map (\<lambda>c. new_Quadrant r c) [0..7]) [0..7],
                     total_klingons := 0, total_starbases := 0\<rparr>) stuck_stream
            = (grid_galaxy f0 gal0, \<lambda>i. stuck_stream (i + 192))"
    using init_cells_half_grid [of stuck_stream gal0]
    by (simp add: stuck_stream_def [abs_def] same f0_def)
  define f1 where "f1 = f0(0 := (f0 0)(0 := (f0 0 0)\<lparr>starbases := 1\<rparr>))"
  have f1: "f1 r c = (if r = 0 \<and> c = 0 then (f0 0 0)\<lparr>starbases := 1\<rparr> else f0 r c)" for r c
    by (simp add: f1_def)
  have s3: "ensure_starbase (grid_galaxy f0 gal0) (\<lambda>i. stuck_stream (i + 192))
              = (grid_galaxy f1 (gal0\<lparr>total_starbases := 1\<rparr>), \<lambda>i. stuck_stream (i + 194))"
    unfolding f1_def
    using ensure_starbase_grid [where g = stuck_stream and n = 192 and r = 0 and c = 0
        and f = f0 and gal = gal0]
    by (simp add: v gal0_def)
  define bump where "bump = (\<lambda>(f :: nat \<Rightarrow> nat \<Rightarrow> Quadrant).
      f(0 := (f 0)(0 := (f 0 0)\<lparr>klingons := klingons (f 0 0) + 1\<rparr>)))"
  have bump: "bump f r c
      = (if r = 0 \<and> c = 0 then (f 0 0)\<lparr>klingons := klingons (f 0 0) + 1\<rparr> else f r c)" for f r c
    by (simp add: bump_def)
  have step: "ensure_min_klingons (grid_galaxy f gal) (\<lambda>i. stuck_stream (i + n))
           = ensure_min_klingons (grid_galaxy (bump f) (gal\<lparr>total_klingons := total_klingons gal + 1\<rparr>))
               (\<lambda>i. stuck_stream (i + (n + 2)))"
    if "total_klingons gal < 10" "stuck_stream n = 0" "stuck_stream (Suc n) = 0"
      "klingons (f 0 0) < 3" for f gal n
    unfolding bump_def using ensure_min_klingons_draw [OF that(1), of f stuck_stream n] that(2-)
    by simp
  have a1: "ensure_min_klingons (grid_galaxy f1 (gal0\<lparr>total_starbases := 1\<rparr>))
              (\<lambda>i. stuck_stream (i + 194))
            = ensure_min_klingons
                (grid_galaxy (bump f1) (gal0\<lparr>total_klingons := 1, total_starbases := 1\<rparr>))
                (\<lambda>i. stuck_stream (i + 196))"
    using step [of "gal0\<lparr>total_starbases := 1\<rparr>" 194 f1]
    by (simp add: v f1 f0 gal0_def new_Quadrant_def)
  have a2: "ensure_min_klingons
                (grid_galaxy (bump f1) (gal0\<lparr>total_klingons := 1, total_starbases := 1\<rparr>))
                (\<lambda>i. stuck_stream (i + 196))
            = ensure_min_klingons
                (grid_galaxy (bump (bump f1)) (gal0\<lparr>total_klingons := 2, total_starbases := 1\<rparr>))
                (\<lambda>i. stuck_stream (i + 198))"
    using step [of "gal0\<lparr>total_klingons := 1, total_starbases := 1\<rparr>" 196 "bump f1"]
    by (simp add: v bump f1 f0 gal0_def new_Quadrant_def)
  have a3: "ensure_min_klingons
                (grid_galaxy (bump (bump f1)) (gal0\<lparr>total_klingons := 2, total_starbases := 1\<rparr>))
                (\<lambda>i. stuck_stream (i + 198))
            = ensure_min_klingons
                (grid_galaxy (bump (bump (bump f1)))
                   (gal0\<lparr>total_klingons := 3, total_starbases := 1\<rparr>))
                (\<lambda>i. stuck_stream (i + 200))"
    using step [of "gal0\<lparr>total_klingons := 2, total_starbases := 1\<rparr>" 198 "bump (bump f1)"]
    by (simp add: v bump f1 f0 gal0_def new_Quadrant_def)
  have a4: "ensure_min_klingons
                (grid_galaxy (bump (bump (bump f1)))
                   (gal0\<lparr>total_klingons := 3, total_starbases := 1\<rparr>))
                (\<lambda>i. stuck_stream (i + 200)) = None"
    by (rule ensure_min_klingons_stuck)
      (simp_all add: grid_galaxy_fields grid_galaxy_nth stuck_stream_def bump f1 f0
        new_Quadrant_def gal0_def)
  show ?thesis
    unfolding new_Galaxy_def gal0_def [symmetric] Galaxy_initialize_def
    by (simp add: s2 s3 a1 a2 a3 a4 Let_def)
qed

text \<open>
  The theorem of claim C4 on \<open>sparse_stream\<close>, where the generation forces the starbase
  and tops the Klingons up to 10, and on \<open>example_stream\<close>, where it does neither.
\<close>

theorem galaxy_generation_counts_witness:
  "new_Galaxy sparse_stream = Some (sparse_galaxy, \<lambda>i. sparse_stream (i + 220))
   \<and> total_klingons sparse_galaxy = 10 \<and> quadrant_sum klingons sparse_galaxy = 10
   \<and> total_starbases sparse_galaxy = 1 \<and> quadrant_sum starbases sparse_galaxy = 1
   \<and> length (concat (quadrants sparse_galaxy)) = 64
   \<and> new_Galaxy example_stream = Some (example_galaxy, \<lambda>i. example_stream (i + 194))
   \<and> total_klingons example_galaxy = 192 \<and> quadrant_sum klingons example_galaxy = 192
   \<and> total_starbases example_galaxy = 64 \<and> quadrant_sum starbases example_galaxy = 64
   \<and> length (concat (quadrants example_galaxy)) = 64"
  using galaxy_generation_counts [OF new_Galaxy_sparse] new_Galaxy_sparse
    galaxy_generation_counts [OF new_Galaxy_example] new_Galaxy_example
  by (simp add: example_galaxy_def sparse_galaxy_def)

section \<open>The scanned flag\<close>

subsection \<open>The new game on the example stream\<close>

lemma random_random_shift:
  "random_random (\<lambda>i. g (i + n)) = (real (g n mod 2 ^ 53) / 2 ^ 53, \<lambda>i. g (i + Suc n))"
  by (simp add: random_random_def rng_next_shift)





lemma example_galaxy_ok: "galaxy_ok example_galaxy"
  by (simp add: example_galaxy_def galaxy_ok_def upto_0_7)






subsection \<open>The long-range scan\<close>

lemma get_lrs_value_scanned [simp]: "get_lrs_value (q\<lparr>scanned := b\<rparr>) = get_lrs_value q"
  by (simp add: get_lrs_value_def)

lemma set_quadrant_form: "set_quadrant gal r c q = gal\<lparr>quadrants := quadrants (set_quadrant gal r c q)\<rparr>"
  by (simp add: set_quadrant_def)





subsection \<open>Operations that leave the scanned flags alone\<close>


















lemma nav_finish_galaxy:
  "galaxy (snd (nav_finish h warp a b c d)) = galaxy h"
  by (simp add: nav_finish_def Let_def)












subsection \<open>The writers of the scanned flag\<close>





end
